theory Spec2Isabelle
  imports Complex_Main
begin

section \<open>Numbers and strings of the host language\<close>

text \<open>
  The game computes with JavaScript numbers. A quantity that the game loop scales by the
  time between two frames is a \<open>number\<close>: a real (exact arithmetic, no rounding) or
  \<open>NaN\<close>. \<open>NaN\<close> is what the script computes on its first ticks: it calls
  \<open>gameLoop()\<close> itself, without a timestamp, as its last statement, so that
  \<open>lastFrameTime\<close> is \<open>undefined\<close> until the first animation frame has been handled
  and the time difference of these two ticks is \<open>NaN\<close>. The value \<open>undefined\<close> of the
  timestamp is represented by \<open>NaN\<close> as well: the script only ever subtracts it.
  Infinities do not arise: the script adds, subtracts, multiplies, takes remainders and
  compares, and divides by constants only. Constants of the configuration and of the
  objects are \<^typ>\<open>real\<close>; the counters \<open>score\<close> and \<open>bestScore\<close> are \<^typ>\<open>int\<close>
  and \<open>frame\<close> is \<^typ>\<open>nat\<close>. Drawing code and DOM updates (\<open>draw\<close>,
  \<open>updateScore\<close>, the \<open>classList\<close> and \<open>textContent\<close> writes) change nothing the
  simulation reads and are left out; the one drawing call that raises an exception for
  a coordinate that is not a number, \<open>createLinearGradient\<close> in \<open>drawPipe\<close>, is given
  the position of a pipe, which is a number in every state a run reaches unless the
  spawn interval is 1 (lemma \<open>pipes_numeric_run\<close>). \<open>Math.random()\<close> reads the next value of a stream carried in
  the state.
\<close>

datatype number = NaN | Finite real

fun add :: "number \<Rightarrow> number \<Rightarrow> number" where
  "add (Finite a) (Finite b) = Finite (a + b)"
| "add _ _ = NaN"

fun sub :: "number \<Rightarrow> number \<Rightarrow> number" where
  "sub (Finite a) (Finite b) = Finite (a - b)"
| "sub _ _ = NaN"

fun mul :: "number \<Rightarrow> number \<Rightarrow> number" where
  "mul (Finite a) (Finite b) = Finite (a * b)"
| "mul _ _ = NaN"

fun lt :: "number \<Rightarrow> number \<Rightarrow> bool" where
  \<comment> \<open>\<open>a < b\<close>, false when an operand is \<open>NaN\<close>; \<open>a > b\<close> is \<open>lt b a\<close>.\<close>
  "lt (Finite a) (Finite b) = (a < b)"
| "lt _ _ = False"

fun le :: "number \<Rightarrow> number \<Rightarrow> bool" where
  "le (Finite a) (Finite b) = (a \<le> b)"
| "le _ _ = False"

fun Math_min :: "number \<Rightarrow> number \<Rightarrow> number" where
  "Math_min (Finite a) (Finite b) = Finite (min a b)"
| "Math_min _ _ = NaN"

fun Math_max :: "number \<Rightarrow> number \<Rightarrow> number" where
  "Math_max (Finite a) (Finite b) = Finite (max a b)"
| "Math_max _ _ = NaN"

definition remainder :: "real \<Rightarrow> real \<Rightarrow> real" where
  \<comment> \<open>The operator \<open>%\<close> on two reals, the second not 0: the remainder has the sign of
      the dividend.\<close>
  "remainder a b = a - b * of_int (if 0 \<le> a / b then \<lfloor>a / b\<rfloor> else \<lceil>a / b\<rceil>)"

fun divide_by :: "number \<Rightarrow> real \<Rightarrow> number" where
  \<comment> \<open>The operator \<open>/\<close> with a constant on the right.\<close>
  "divide_by (Finite a) b = Finite (a / b)"
| "divide_by NaN b = NaN"

fun js_rem :: "number \<Rightarrow> real \<Rightarrow> number" where
  \<comment> \<open>The operator \<open>%\<close> with a constant on the right.\<close>
  "js_rem (Finite a) b = (if b = 0 then NaN else Finite (remainder a b))"
| "js_rem NaN b = NaN"

definition isWhiteSpace :: "char \<Rightarrow> bool" where
  \<comment> \<open>The ASCII members of StrWhiteSpaceChar: TAB, LF, VT, FF, CR and SPACE.\<close>
  "isWhiteSpace c = (of_char c \<in> {9, 10, 11, 12, 13, 32 :: nat})"

definition digitValue :: "char \<Rightarrow> nat option" where
  "digitValue c =
     (let n = (of_char c :: nat) in
      if 48 \<le> n \<and> n \<le> 57 then Some (n - 48)
      else if 97 \<le> n \<and> n \<le> 122 then Some (n - 87)
      else if 65 \<le> n \<and> n \<le> 90 then Some (n - 55)
      else None)"

definition isRadixDigit :: "nat \<Rightarrow> char \<Rightarrow> bool" where
  "isRadixDigit R c = (case digitValue c of None \<Rightarrow> False | Some d \<Rightarrow> d < R)"

definition digitsValue :: "nat \<Rightarrow> string \<Rightarrow> nat" where
  "digitsValue R Z = foldl (\<lambda>a c. a * R + the (digitValue c)) 0 Z"

definition parseInt :: "string \<Rightarrow> int option" where
  \<comment> \<open>\<open>parseInt(string)\<close> without a radix; \<open>None\<close> is NaN.\<close>
  "parseInt inputString =
     (let S = dropWhile isWhiteSpace inputString;
          sign = (if S \<noteq> [] \<and> hd S = CHR ''-'' then - 1 else 1 :: int);
          S1 = (if S \<noteq> [] \<and> (hd S = CHR ''+'' \<or> hd S = CHR ''-'') then tl S else S);
          hex = (take 2 S1 = ''0x'' \<or> take 2 S1 = ''0X'');
          R = (if hex then 16 else 10 :: nat);
          S2 = (if hex then drop 2 S1 else S1);
          Z = takeWhile (isRadixDigit R) S2
      in if Z = [] then None else Some (sign * int (digitsValue R Z)))"

fun natDigits :: "nat \<Rightarrow> string" where
  "natDigits n =
     (if n < 10 then [char_of (48 + n)] else natDigits (n div 10) @ [char_of (48 + n mod 10)])"

declare natDigits.simps [simp del]

definition Number_toString :: "int \<Rightarrow> string" where
  \<comment> \<open>The string \<open>setItem\<close> stores for an integer-valued number (all digits are
      printed, as JavaScript does below \<open>10^21\<close>).\<close>
  "Number_toString n = (if n < 0 then CHR ''-'' # natDigits (nat (- n)) else natDigits (nat n))"

definition getItem_toString :: "string option \<Rightarrow> string" where
  \<comment> \<open>\<open>getItem\<close> gives \<open>null\<close> for an absent key, and ToString(null) is "null".\<close>
  "getItem_toString item = (case item of None \<Rightarrow> ''null'' | Some s \<Rightarrow> s)"

section \<open>Data model of the frame-rate independent game\<close>

record config =
  cfg_canvas_width :: real
  cfg_canvas_height :: real
  cfg_bird_x :: real
  cfg_bird_width :: real
  cfg_bird_height :: real
  cfg_bird_gravity :: real
  cfg_bird_jumpStrength :: real
  cfg_bird_maxVelocity :: real
  cfg_bird_terminalVelocity :: real
  cfg_bird_hitboxPadding :: real
  cfg_pipe_width :: real
  cfg_pipe_gap :: real
  cfg_pipe_minHeight :: real
  cfg_pipe_baseSpeed :: real
  cfg_pipe_spawnInterval :: nat
  cfg_ground_height :: real
  cfg_ground_scrollSpeed :: real
  cfg_physics_targetFPS :: real
  cfg_physics_rotationEasing :: real
  cfg_difficulty_enabled :: bool
  cfg_difficulty_speedIncreasePerScore :: real
  cfg_difficulty_maxSpeedMultiplier :: real
  cfg_difficulty_gapDecreasePerScore :: real
  cfg_difficulty_minGap :: real
  cfg_debug_showHitboxes :: bool

definition CONFIG0 :: config where
  "CONFIG0 = \<lparr>
     cfg_canvas_width = 400, cfg_canvas_height = 600,
     cfg_bird_x = 80, cfg_bird_width = 34, cfg_bird_height = 24,
     cfg_bird_gravity = 6 / 10, cfg_bird_jumpStrength = - 10,
     cfg_bird_maxVelocity = 12, cfg_bird_terminalVelocity = 10,
     cfg_bird_hitboxPadding = 5,
     cfg_pipe_width = 60, cfg_pipe_gap = 150, cfg_pipe_minHeight = 50,
     cfg_pipe_baseSpeed = 25 / 10, cfg_pipe_spawnInterval = 120,
     cfg_ground_height = 100, cfg_ground_scrollSpeed = 25 / 10,
     cfg_physics_targetFPS = 60, cfg_physics_rotationEasing = 15 / 100,
     cfg_difficulty_enabled = True,
     cfg_difficulty_speedIncreasePerScore = 5 / 100,
     cfg_difficulty_maxSpeedMultiplier = 18 / 10,
     cfg_difficulty_gapDecreasePerScore = 2,
     cfg_difficulty_minGap = 120,
     cfg_debug_showHitboxes = False \<rparr>"

datatype GameState = START | PLAYING | PAUSED | GAME_OVER

record Particle =
  part_x :: number
  part_y :: number
  part_vx :: real
  part_vy :: number
  part_gravity :: real
  part_life :: number
  part_decay :: real
  part_size :: real
  part_color :: string

record Bird =
  bird_x :: real
  bird_y :: number
  bird_width :: real
  bird_height :: real
  bird_velocity :: number
  bird_gravity :: real
  bird_jumpStrength :: real
  bird_rotation :: number
  bird_wingFrame :: number
  bird_maxVelocity :: real
  bird_terminalVelocity :: real

record Pipe =
  pipe_x :: number
  pipe_width :: real
  pipe_gap :: real
  pipe_minHeight :: real
  pipe_maxHeight :: real
  pipe_topHeight :: real
  pipe_scored :: bool
  pipe_speed :: real
  pipe_highlightOffset :: number

record Cloud =
  cloud_x :: number
  cloud_y :: real
  cloud_layer :: real
  cloud_speed :: real
  cloud_size :: real
  cloud_opacity :: real

record Mountain =
  mnt_layer :: real
  mnt_speed :: real
  mnt_offset :: number

text \<open>
  The global variables of the script, the two canvas dimensions, the one key of
  \<open>localStorage\<close> the script uses, and the stream behind \<open>Math.random()\<close>.
\<close>

record game =
  canvas_width :: real
  canvas_height :: real
  CONFIG :: config
  gameState :: GameState
  score :: int
  bestScore :: int
  frame :: nat
  particles :: "Particle list"
  groundOffset :: number
  lastFrameTime :: number
  deltaTime :: number
  difficultyMultiplier :: real
  currentPipeGap :: real
  bird :: Bird
  pipes :: "Pipe list"
  clouds :: "Cloud list"
  mountains :: "Mountain list"
  lastJumpTime :: real
  storage_bestScore :: "string option"
  random_stream :: "nat \<Rightarrow> real"
  random_used :: nat

section \<open>Operations\<close>

definition Math_random :: "game \<Rightarrow> real \<times> game" where
  "Math_random g = (random_stream g (random_used g), g\<lparr>random_used := Suc (random_used g)\<rparr>)"

definition zeros :: "nat \<Rightarrow> real" where
  \<comment> \<open>A stream for \<open>Math.random()\<close> that always gives 0.\<close>
  "zeros n = 0"

definition normalized :: "game \<Rightarrow> number \<Rightarrow> number" where
  \<comment> \<open>\<open>dt / (1000 / CONFIG.physics.targetFPS)\<close>; for a target of 0 the divisor is
      infinite in the source and the quotient 0, as it is in HOL.\<close>
  "normalized g dt = divide_by dt (1000 / cfg_physics_targetFPS (CONFIG g))"

subsection \<open>Particles\<close>

definition new_Particle :: "number \<Rightarrow> number \<Rightarrow> string \<Rightarrow> game \<Rightarrow> Particle \<times> game" where
  "new_Particle x y color g =
     (let (r1, g1) = Math_random g;
          (r2, g2) = Math_random g1;
          (r3, g3) = Math_random g2
      in (\<lparr> part_x = x, part_y = y,
            part_vx = (r1 - 1 / 2) * 4,
            part_vy = Finite ((r2 - 1 / 2) * 4 - 2),
            part_gravity = 3 / 10, part_life = Finite 1, part_decay = 2 / 100,
            part_size = r3 * 4 + 2,
            part_color = (if color = [] then ''#FFD700'' else color) \<rparr>, g3))"

definition push_Particle :: "number \<Rightarrow> number \<Rightarrow> string \<Rightarrow> game \<Rightarrow> game" where
  \<comment> \<open>\<open>particles.push(new Particle(x, y, color))\<close>\<close>
  "push_Particle x y color g =
     (let (p, g1) = new_Particle x y color g in g1\<lparr>particles := particles g1 @ [p]\<rparr>)"

fun emit :: "nat \<Rightarrow> number \<Rightarrow> number \<Rightarrow> string \<Rightarrow> game \<Rightarrow> game" where
  \<comment> \<open>\<open>for (let i = 0; i < n; i++) particles.push(new Particle(x, y, color))\<close>\<close>
  "emit 0 x y color g = g"
| "emit (Suc n) x y color g = emit n x y color (push_Particle x y color g)"

definition Particle_update :: "game \<Rightarrow> number \<Rightarrow> Particle \<Rightarrow> Particle" where
  "Particle_update g dt p =
     (let normalizedDt = normalized g dt;
          vy = add (part_vy p) (mul (Finite (part_gravity p)) normalizedDt)
      in p\<lparr> part_vy := vy,
            part_x := add (part_x p) (mul (Finite (part_vx p)) normalizedDt),
            part_y := add (part_y p) (mul vy normalizedDt),
            part_life := sub (part_life p) (mul (Finite (part_decay p)) normalizedDt) \<rparr>)"

definition Particle_isDead :: "Particle \<Rightarrow> bool" where
  "Particle_isDead p = le (part_life p) (Finite 0)"

subsection \<open>Score, difficulty and the end of a game\<close>

definition updateDifficulty :: "game \<Rightarrow> game" where
  "updateDifficulty g =
     (if \<not> cfg_difficulty_enabled (CONFIG g) then g
      else g\<lparr> difficultyMultiplier :=
                 min (1 + of_int (score g) * cfg_difficulty_speedIncreasePerScore (CONFIG g))
                     (cfg_difficulty_maxSpeedMultiplier (CONFIG g)),
               currentPipeGap :=
                 max (cfg_pipe_gap (CONFIG g)
                        - of_int (score g) * cfg_difficulty_gapDecreasePerScore (CONFIG g))
                     (cfg_difficulty_minGap (CONFIG g)) \<rparr>)"

definition gameOver :: "game \<Rightarrow> game" where
  "gameOver g =
     (let g1 = g\<lparr>gameState := GAME_OVER\<rparr>
      in if score g1 > bestScore g1
         then g1\<lparr> bestScore := score g1,
                  storage_bestScore := Some (Number_toString (score g1)) \<rparr>
         else g1)"

definition load_bestScore :: "string option \<Rightarrow> int" where
  \<comment> \<open>\<open>parseInt(localStorage.getItem('bestScore')) || 0\<close>\<close>
  "load_bestScore item =
     (case parseInt (getItem_toString item) of
        None \<Rightarrow> 0
      | Some n \<Rightarrow> if n = 0 then 0 else n)"

subsection \<open>The bird\<close>

definition new_bird :: "config \<Rightarrow> real \<Rightarrow> Bird" where
  \<comment> \<open>The object literal \<open>bird\<close>, built once when the script loads.\<close>
  "new_bird c canvasHeight = \<lparr>
     bird_x = cfg_bird_x c, bird_y = Finite (canvasHeight / 2),
     bird_width = cfg_bird_width c, bird_height = cfg_bird_height c,
     bird_velocity = Finite 0, bird_gravity = cfg_bird_gravity c,
     bird_jumpStrength = cfg_bird_jumpStrength c,
     bird_rotation = Finite 0, bird_wingFrame = Finite 0,
     bird_maxVelocity = cfg_bird_maxVelocity c,
     bird_terminalVelocity = cfg_bird_terminalVelocity c \<rparr>"

definition Bird_jump :: "game \<Rightarrow> game" where
  "Bird_jump g =
     (let g1 = g\<lparr>bird := (bird g)\<lparr>bird_velocity := Finite (bird_jumpStrength (bird g))\<rparr>\<rparr>
      in emit 5 (Finite (bird_x (bird g1)))
                (add (bird_y (bird g1)) (Finite (bird_height (bird g1) / 2))) ''#FFFFFF'' g1)"

definition groundLine :: "game \<Rightarrow> real" where
  \<comment> \<open>\<open>canvas.height - CONFIG.ground.height\<close>\<close>
  "groundLine g = canvas_height g - cfg_ground_height (CONFIG g)"

definition Bird_integrate :: "number \<Rightarrow> game \<Rightarrow> game" where
  \<comment> \<open>\<open>bird.update\<close>, first part: gravity, terminal velocity, position, rotation, wing.\<close>
  "Bird_integrate dt g =
     (let b = bird g;
          normalizedDt = normalized g dt;
          velocity = Math_min (add (bird_velocity b) (mul (Finite (bird_gravity b)) normalizedDt))
                              (Finite (bird_terminalVelocity b));
          y = add (bird_y b) (mul velocity normalizedDt);
          targetRotation = Math_min (Math_max (mul velocity (Finite 4)) (Finite (- 30))) (Finite 90);
          rotation = add (bird_rotation b)
                         (mul (sub targetRotation (bird_rotation b))
                              (Finite (cfg_physics_rotationEasing (CONFIG g))));
          wingFrame = js_rem (add (bird_wingFrame b) (mul (Finite (2 / 10)) normalizedDt)) 3
      in g\<lparr>bird := b\<lparr> bird_velocity := velocity, bird_y := y,
                       bird_rotation := rotation, bird_wingFrame := wingFrame \<rparr>\<rparr>)"

definition Bird_ground :: "game \<Rightarrow> game" where
  \<comment> \<open>\<open>bird.update\<close>, second part: the ground.\<close>
  "Bird_ground g =
     (if lt (Finite (groundLine g)) (add (bird_y (bird g)) (Finite (bird_height (bird g))))
      then (let g1 = g\<lparr>bird := (bird g)\<lparr> bird_y := Finite (groundLine g - bird_height (bird g)),
                                           bird_velocity := Finite 0 \<rparr>\<rparr>
            in if gameState g1 = PLAYING
               then gameOver (emit 10 (Finite (bird_x (bird g1) + bird_width (bird g1) / 2))
                                      (add (bird_y (bird g1)) (Finite (bird_height (bird g1))))
                                      ''#DEB887'' g1)
               else g1)
      else g)"

definition Bird_ceiling :: "game \<Rightarrow> game" where
  \<comment> \<open>\<open>bird.update\<close>, third part: the ceiling.\<close>
  "Bird_ceiling g =
     (if lt (bird_y (bird g)) (Finite 0)
      then g\<lparr>bird := (bird g)\<lparr>bird_y := Finite 0, bird_velocity := Finite 0\<rparr>\<rparr>
      else g)"

definition Bird_update :: "number \<Rightarrow> game \<Rightarrow> game" where
  "Bird_update dt g = Bird_ceiling (Bird_ground (Bird_integrate dt g))"

definition Bird_reset :: "game \<Rightarrow> game" where
  "Bird_reset g =
     g\<lparr>bird := (bird g)\<lparr> bird_y := Finite (canvas_height g / 2), bird_velocity := Finite 0,
                           bird_rotation := Finite 0, bird_wingFrame := Finite 0 \<rparr>\<rparr>"

subsection \<open>Pipes\<close>

definition new_Pipe :: "game \<Rightarrow> Pipe \<times> game" where
  "new_Pipe g =
     (let gap = currentPipeGap g;
          minHeight = cfg_pipe_minHeight (CONFIG g);
          maxHeight = canvas_height g - gap - cfg_ground_height (CONFIG g) - 50;
          (r, g1) = Math_random g
      in (\<lparr> pipe_x = Finite (canvas_width g), pipe_width = cfg_pipe_width (CONFIG g),
            pipe_gap = gap, pipe_minHeight = minHeight, pipe_maxHeight = maxHeight,
            pipe_topHeight = r * (maxHeight - minHeight) + minHeight,
            pipe_scored = False,
            pipe_speed = cfg_pipe_baseSpeed (CONFIG g) * difficultyMultiplier g,
            pipe_highlightOffset = Finite 0 \<rparr>, g1))"

definition Pipe_advance :: "number \<Rightarrow> Pipe \<Rightarrow> Pipe" where
  \<comment> \<open>The first two statements of \<open>Pipe.update\<close>; the argument is \<open>normalizedDt\<close>.\<close>
  "Pipe_advance normalizedDt p =
     p\<lparr> pipe_x := sub (pipe_x p) (mul (Finite (pipe_speed p)) normalizedDt),
        pipe_highlightOffset :=
          js_rem (add (pipe_highlightOffset p) (mul (Finite (1 / 2)) normalizedDt)) 20 \<rparr>"

definition right_edge :: "Pipe \<Rightarrow> number" where
  \<comment> \<open>\<open>this.x + this.width\<close>\<close>
  "right_edge p = add (pipe_x p) (Finite (pipe_width p))"

definition Pipe_update :: "number \<Rightarrow> Pipe \<Rightarrow> game \<Rightarrow> Pipe \<times> game" where
  \<comment> \<open>\<open>pipe.update(dt)\<close>: the pipe after the call and the globals after the call.\<close>
  "Pipe_update dt p g =
     (let p1 = Pipe_advance (normalized g dt) p
      in if \<not> pipe_scored p1 \<and> lt (right_edge p1) (Finite (bird_x (bird g)))
         then (p1\<lparr>pipe_scored := True\<rparr>,
               emit 15 (Finite (bird_x (bird g) + bird_width (bird g)))
                       (add (bird_y (bird g)) (Finite (bird_height (bird g) / 2))) ''#FFD700''
                 (updateDifficulty (g\<lparr>score := score g + 1\<rparr>)))
         else (p1, g))"

definition overlaps_x :: "real \<Rightarrow> Pipe \<Rightarrow> Bird \<Rightarrow> bool" where
  \<comment> \<open>\<open>birdRight > this.x && birdLeft < this.x + this.width\<close>\<close>
  "overlaps_x padding p b =
     (lt (pipe_x p) (Finite (bird_x b + bird_width b - padding))
      \<and> lt (Finite (bird_x b + padding)) (right_edge p))"

definition outside_gap :: "real \<Rightarrow> Pipe \<Rightarrow> Bird \<Rightarrow> bool" where
  \<comment> \<open>\<open>birdTop < this.topHeight || birdBottom > this.topHeight + this.gap\<close>\<close>
  "outside_gap padding p b =
     (lt (add (bird_y b) (Finite padding)) (Finite (pipe_topHeight p))
      \<or> lt (Finite (pipe_topHeight p + pipe_gap p))
            (sub (add (bird_y b) (Finite (bird_height b))) (Finite padding)))"

definition Pipe_collidesWith :: "Pipe \<Rightarrow> Bird \<Rightarrow> game \<Rightarrow> bool \<times> game" where
  \<comment> \<open>\<open>pipe.collidesWith(bird)\<close>: the verdict and the globals (collision particles).\<close>
  "Pipe_collidesWith p b g =
     (let padding = cfg_bird_hitboxPadding (CONFIG g)
      in if overlaps_x padding p b
         then (if outside_gap padding p b
               then (True, emit 15 (Finite (bird_x b + bird_width b / 2))
                                   (add (bird_y b) (Finite (bird_height b / 2))) ''#FF0000'' g)
               else (False, g))
         else (False, g))"

definition splice1 :: "nat \<Rightarrow> 'a list \<Rightarrow> 'a list" where
  \<comment> \<open>\<open>xs.splice(i, 1)\<close>, the array after the call\<close>
  "splice1 i xs = take i xs @ drop (Suc i) xs"

definition pipe_step :: "nat \<Rightarrow> game \<Rightarrow> game" where
  \<comment> \<open>The body of the loop over \<open>pipes\<close> in \<open>gameLoop\<close>, at index \<open>i\<close>.\<close>
  "pipe_step i g =
     (let (pipe, g1) = Pipe_update (deltaTime g) (pipes g ! i) g;
          g2 = g1\<lparr>pipes := (pipes g1)[i := pipe]\<rparr>;
          (hit, g3) = Pipe_collidesWith pipe (bird g2) g2;
          g4 = (if hit then gameOver g3 else g3)
      in if lt (right_edge pipe) (Finite 0)
         then g4\<lparr>pipes := splice1 i (pipes g4)\<rparr>
         else g4)"

fun pipe_loop :: "nat \<Rightarrow> game \<Rightarrow> game" where
  \<comment> \<open>\<open>for (let i = n - 1; i >= 0; i--) { ... }\<close>\<close>
  "pipe_loop 0 g = g"
| "pipe_loop (Suc i) g = pipe_loop i (pipe_step i g)"

subsection \<open>Background\<close>

definition new_Cloud :: "real \<Rightarrow> game \<Rightarrow> Cloud \<times> game" where
  "new_Cloud layer g =
     (let (r1, g1) = Math_random g;
          (r2, g2) = Math_random g1;
          (r3, g3) = Math_random g2;
          (r4, g4) = Math_random g3
      in (\<lparr> cloud_x = Finite (r1 * canvas_width g), cloud_y = r2 * (canvas_height g - 200),
            cloud_layer = layer, cloud_speed = (2 / 10 + r3 * (4 / 10)) * layer,
            cloud_size = (15 + r4 * 25) / layer,
            cloud_opacity = 3 / 10 + 3 / 10 * layer \<rparr>, g4))"

definition Cloud_update :: "number \<Rightarrow> Cloud \<Rightarrow> game \<Rightarrow> Cloud \<times> game" where
  "Cloud_update dt c g =
     (let c1 = c\<lparr>cloud_x := sub (cloud_x c) (mul (Finite (cloud_speed c)) (normalized g dt))\<rparr>
      in if lt (add (cloud_x c1) (Finite (cloud_size c1 * 2))) (Finite 0)
         then (let (r, g1) = Math_random g
               in (c1\<lparr> cloud_x := Finite (canvas_width g + cloud_size c1),
                       cloud_y := r * (canvas_height g - 200) \<rparr>, g1))
         else (c1, g))"

fun clouds_forEach :: "number \<Rightarrow> Cloud list \<Rightarrow> game \<Rightarrow> Cloud list \<times> game" where
  "clouds_forEach dt [] g = ([], g)"
| "clouds_forEach dt (c # cs) g =
     (let (c1, g1) = Cloud_update dt c g;
          (cs1, g2) = clouds_forEach dt cs g1
      in (c1 # cs1, g2))"

definition update_clouds :: "game \<Rightarrow> game" where
  \<comment> \<open>\<open>clouds.forEach(cloud => cloud.update(deltaTime))\<close>\<close>
  "update_clouds g =
     (let (cs, g1) = clouds_forEach (deltaTime g) (clouds g) g in g1\<lparr>clouds := cs\<rparr>)"

definition new_Mountain :: "real \<Rightarrow> Mountain" where
  "new_Mountain layer = \<lparr> mnt_layer = layer, mnt_speed = 3 / 10 * layer, mnt_offset = Finite 0 \<rparr>"

definition Mountain_update :: "game \<Rightarrow> number \<Rightarrow> Mountain \<Rightarrow> Mountain" where
  "Mountain_update g dt m =
     m\<lparr>mnt_offset := js_rem (add (mnt_offset m) (mul (Finite (mnt_speed m)) (normalized g dt)))
                           (canvas_width g)\<rparr>"

definition update_mountains :: "game \<Rightarrow> game" where
  \<comment> \<open>\<open>mountains.forEach(mountain => mountain.update(deltaTime))\<close>\<close>
  "update_mountains g = g\<lparr>mountains := map (Mountain_update g (deltaTime g)) (mountains g)\<rparr>"

subsection \<open>Game functions\<close>

definition startGame :: "game \<Rightarrow> game" where
  "startGame g =
     Bird_reset (g\<lparr> gameState := PLAYING, score := 0, pipes := [], particles := [],
                    frame := 0, difficultyMultiplier := 1,
                    currentPipeGap := cfg_pipe_gap (CONFIG g) \<rparr>)"

definition pauseGame :: "real \<Rightarrow> game \<Rightarrow> game" where
  \<comment> \<open>The first argument is what \<open>performance.now()\<close> returns.\<close>
  "pauseGame now g =
     (if gameState g = PLAYING then g\<lparr>gameState := PAUSED\<rparr>
      else if gameState g = PAUSED then g\<lparr>gameState := PLAYING, lastFrameTime := Finite now\<rparr>
      else g)"

definition clock :: "number \<Rightarrow> game \<Rightarrow> game" where
  \<comment> \<open>The first three statements of \<open>gameLoop\<close>; \<open>currentTime\<close> is \<open>NaN\<close> when the
      function is called without an argument.\<close>
  "clock currentTime g =
     (let g1 = g\<lparr>deltaTime := sub currentTime (lastFrameTime g)\<rparr>;
          g2 = g1\<lparr>lastFrameTime := currentTime\<rparr>
      in g2\<lparr>deltaTime := Math_min (deltaTime g2) (Finite 100)\<rparr>)"

definition spawn :: "game \<Rightarrow> game" where
  \<comment> \<open>\<open>if (frame % CONFIG.pipe.spawnInterval === 0) pipes.push(new Pipe())\<close>; for an
      interval of 0 the remainder is NaN in the source and \<open>frame\<close>, which is positive
      here, in HOL: no pipe either way.\<close>
  "spawn g =
     (if frame g mod cfg_pipe_spawnInterval (CONFIG g) = 0
      then (let (p, g1) = new_Pipe g in g1\<lparr>pipes := pipes g1 @ [p]\<rparr>)
      else g)"

definition update_particles :: "game \<Rightarrow> game" where
  "update_particles g =
     (let g1 = (if length (particles g) > 200
                then g\<lparr>particles := drop (length (particles g) - 100) (particles g)\<rparr>
                else g)
      in g1\<lparr>particles := filter (\<lambda>p. \<not> Particle_isDead p)
                             (map (Particle_update g1 (deltaTime g1)) (particles g1))\<rparr>)"

definition playing_tick :: "game \<Rightarrow> game" where
  \<comment> \<open>The branch \<open>gameState === GameState.PLAYING\<close> of \<open>gameLoop\<close>.\<close>
  "playing_tick g =
     (let g1 = g\<lparr>frame := frame g + 1\<rparr>;
          normalizedDt = normalized g1 (deltaTime g1);
          g2 = g1\<lparr>groundOffset :=
                   add (groundOffset g1)
                       (mul (Finite (cfg_ground_scrollSpeed (CONFIG g1))) normalizedDt)\<rparr>;
          g3 = spawn g2;
          g4 = Bird_update (deltaTime g3) g3;
          g5 = pipe_loop (length (pipes g4)) g4
      in update_particles g5)"

definition gameLoop :: "number \<Rightarrow> game \<Rightarrow> game" where
  "gameLoop currentTime g =
     (let g1 = update_mountains (update_clouds (clock currentTime g))
      in if gameState g1 = PLAYING then playing_tick g1 else g1)"

definition jumpCooldown :: real where
  "jumpCooldown = 100"

definition handleJump :: "real \<Rightarrow> game \<Rightarrow> game" where
  \<comment> \<open>The first argument is what \<open>performance.now()\<close> returns.\<close>
  "handleJump now g =
     (if now - lastJumpTime g < jumpCooldown then g
      else (let g1 = g\<lparr>lastJumpTime := now\<rparr>
            in if gameState g1 = START then Bird_jump (startGame g1)
               else if gameState g1 = PLAYING then Bird_jump g1
               else if gameState g1 = GAME_OVER then startGame g1
               else g1))"

datatype key = Space | Escape | KeyP | Ctrl_KeyD | OtherKey

definition keydown :: "key \<Rightarrow> real \<Rightarrow> game \<Rightarrow> game" where
  "keydown k now g =
     (case k of
        Space \<Rightarrow> handleJump now g
      | Escape \<Rightarrow> if gameState g = PLAYING \<or> gameState g = PAUSED then pauseGame now g else g
      | KeyP \<Rightarrow> if gameState g = PLAYING \<or> gameState g = PAUSED then pauseGame now g else g
      | Ctrl_KeyD \<Rightarrow>
          g\<lparr>CONFIG := (CONFIG g)\<lparr>cfg_debug_showHitboxes := \<not> cfg_debug_showHitboxes (CONFIG g)\<rparr>\<rparr>
      | OtherKey \<Rightarrow> g)"

subsection \<open>Loading the script\<close>

fun new_Clouds :: "nat \<Rightarrow> real \<Rightarrow> game \<Rightarrow> game" where
  \<comment> \<open>\<open>for (let i = 0; i < n; i++) clouds.push(new Cloud(layer))\<close>\<close>
  "new_Clouds 0 layer g = g"
| "new_Clouds (Suc n) layer g =
     new_Clouds n layer (let (c, g1) = new_Cloud layer g in g1\<lparr>clouds := clouds g1 @ [c]\<rparr>)"

definition load :: "config \<Rightarrow> string option \<Rightarrow> real \<Rightarrow> (nat \<Rightarrow> real) \<Rightarrow> game" where
  \<comment> \<open>The top-level statements of the script: \<open>c\<close> is the literal \<open>CONFIG\<close>, \<open>item\<close> what
      \<open>localStorage\<close> holds under \<open>bestScore\<close>, \<open>now\<close> what \<open>performance.now()\<close> returns and
      \<open>rnd\<close> the values \<open>Math.random()\<close> will return. The last statement is the call
      \<open>gameLoop()\<close>, without a timestamp.\<close>
  "load c item now rnd =
     gameLoop NaN
       (new_Clouds 4 2 (new_Clouds 4 1
          \<lparr> canvas_width = cfg_canvas_width c, canvas_height = cfg_canvas_height c,
            CONFIG = c, gameState = START, score = 0, bestScore = load_bestScore item,
            frame = 0, particles = [], groundOffset = Finite 0, lastFrameTime = Finite now,
            deltaTime = Finite 0, difficultyMultiplier = 1, currentPipeGap = cfg_pipe_gap c,
            bird = new_bird c (cfg_canvas_height c), pipes = [], clouds = [],
            mountains = [new_Mountain 1, new_Mountain 2], lastJumpTime = 0,
            storage_bestScore = item, random_stream = rnd, random_used = 0 \<rparr>))"

text \<open>
  The events the environment delivers after the script has loaded: an animation frame
  with its timestamp, a click or touch on the canvas, and a key press, each with the
  reading of \<open>performance.now()\<close> its handler would take.
\<close>

datatype event = AnimationFrame real | Click real | TouchStart real | KeyDown key real

fun handle :: "event \<Rightarrow> game \<Rightarrow> game" where
  "handle (AnimationFrame t) g = gameLoop (Finite t) g"
| "handle (Click now) g = handleJump now g"
| "handle (TouchStart now) g = handleJump now g"
| "handle (KeyDown k now) g = keydown k now g"

subsection \<open>Runs\<close>

fun run :: "event list \<Rightarrow> game \<Rightarrow> game" where
  "run [] g = g"
| "run (e # es) g = run es (handle e g)"

fun monotonic :: "event list \<Rightarrow> game \<Rightarrow> bool" where
  \<comment> \<open>No animation frame of the run carries a timestamp older than \<open>lastFrameTime\<close>.\<close>
  "monotonic [] g = True"
| "monotonic (e # es) g =
     ((case e of AnimationFrame t \<Rightarrow> \<not> lt (Finite t) (lastFrameTime g) | _ \<Rightarrow> True)
      \<and> monotonic es (handle e g))"

fun timed :: "event list \<Rightarrow> game \<Rightarrow> bool" where
  \<comment> \<open>Every animation frame that the run handles while a game is being played finds a
      number in \<open>lastFrameTime\<close>: the script's own first call excepted, no tick of a
      game has \<open>NaN\<close> for its time difference.\<close>
  "timed [] g = True"
| "timed (e # es) g =
     ((case e of
         AnimationFrame t \<Rightarrow> gameState g \<noteq> PLAYING \<or> lastFrameTime g \<noteq> NaN
       | _ \<Rightarrow> True)
      \<and> timed es (handle e g))"

text \<open>
  A pipe over the ticks of its life: every tick calls \<open>pipe.update(dt)\<close> in the globals
  \<open>g\<close> of that tick. The result is the pipe after the ticks and how much these calls
  have added to \<open>score\<close>.
\<close>

definition Pipe_tick :: "Pipe \<times> int \<Rightarrow> number \<times> game \<Rightarrow> Pipe \<times> int" where
  "Pipe_tick pn tick =
     (let (p1, g1) = Pipe_update (fst tick) (fst pn) (snd tick)
      in (p1, snd pn + (score g1 - score (snd tick))))"

definition Pipe_life :: "(number \<times> game) list \<Rightarrow> Pipe \<Rightarrow> Pipe \<times> int" where
  "Pipe_life ticks p = foldl Pipe_tick (p, 0) ticks"

section \<open>The fixed-step game\<close>

text \<open>
  The older script has no delta time, no pause, no difficulty and no jump cooldown, and
  its constants are written in place. No timestamp enters its arithmetic, which stays
  within the reals: its objects have fields of type \<^typ>\<open>real\<close>. It keeps in
  \<open>bestScore\<close> whatever \<open>localStorage\<close> returned, a string, until a game ends with a
  higher score.
\<close>

datatype converted = NotANumber | NegInfinity | Number real | PosInfinity

definition isDecimalDigit :: "char \<Rightarrow> bool" where
  "isDecimalDigit c = isRadixDigit 10 c"

definition trimString :: "string \<Rightarrow> string" where
  "trimString s = rev (dropWhile isWhiteSpace (rev (dropWhile isWhiteSpace s)))"

definition nonDecimalInteger :: "nat \<Rightarrow> string \<Rightarrow> converted" where
  "nonDecimalInteger R ds =
     (if ds \<noteq> [] \<and> list_all (isRadixDigit R) ds then Number (real (digitsValue R ds)) else NotANumber)"

definition exponentPart :: "string \<Rightarrow> int option" where
  \<comment> \<open>The value of an optional ExponentPart; \<open>None\<close> when the text is not one.\<close>
  "exponentPart s =
     (if s = [] then Some 0
      else if hd s = CHR ''e'' \<or> hd s = CHR ''E''
      then (let r = tl s;
                sign = (if r \<noteq> [] \<and> hd r = CHR ''-'' then - 1 else 1 :: int);
                ds = (if r \<noteq> [] \<and> (hd r = CHR ''+'' \<or> hd r = CHR ''-'') then tl r else r)
            in if ds \<noteq> [] \<and> list_all isDecimalDigit ds
               then Some (sign * int (digitsValue 10 ds)) else None)
      else None)"

definition unsignedDecimal :: "string \<Rightarrow> real option" where
  \<comment> \<open>StrUnsignedDecimalLiteral other than \<open>Infinity\<close>\<close>
  "unsignedDecimal s =
     (let ip = takeWhile isDecimalDigit s;
          r1 = dropWhile isDecimalDigit s;
          dot = (r1 \<noteq> [] \<and> hd r1 = CHR ''.'');
          fp = (if dot then takeWhile isDecimalDigit (tl r1) else []);
          r2 = (if dot then dropWhile isDecimalDigit (tl r1) else r1)
      in if ip = [] \<and> fp = [] then None
         else (case exponentPart r2 of
                 None \<Rightarrow> None
               | Some e \<Rightarrow>
                   Some ((real (digitsValue 10 ip) + real (digitsValue 10 fp) / 10 ^ length fp)
                           * 10 powi e)))"

definition StringToNumber :: "string \<Rightarrow> converted" where
  "StringToNumber s =
     (let t = trimString s
      in if t = [] then Number 0
         else if take 2 t = ''0x'' \<or> take 2 t = ''0X'' then nonDecimalInteger 16 (drop 2 t)
         else if take 2 t = ''0o'' \<or> take 2 t = ''0O'' then nonDecimalInteger 8 (drop 2 t)
         else if take 2 t = ''0b'' \<or> take 2 t = ''0B'' then nonDecimalInteger 2 (drop 2 t)
         else (let negative = (hd t = CHR ''-'');
                   u = (if hd t = CHR ''+'' \<or> hd t = CHR ''-'' then tl t else t)
               in if u = ''Infinity'' then (if negative then NegInfinity else PosInfinity)
                  else (case unsignedDecimal u of
                          None \<Rightarrow> NotANumber
                        | Some r \<Rightarrow> Number (if negative then - r else r))))"

datatype best = BestNumber int | BestString string

definition score_gt :: "int \<Rightarrow> best \<Rightarrow> bool" where
  \<comment> \<open>\<open>score > bestScore\<close>: a string operand is converted with ToNumber.\<close>
  "score_gt n b =
     (case b of
        BestNumber m \<Rightarrow> n > m
      | BestString s \<Rightarrow>
          (case StringToNumber s of
             NotANumber \<Rightarrow> False
           | NegInfinity \<Rightarrow> True
           | Number r \<Rightarrow> of_int n > r
           | PosInfinity \<Rightarrow> False))"

record legacy_Particle =
  lpart_x :: real
  lpart_y :: real
  lpart_vx :: real
  lpart_vy :: real
  lpart_gravity :: real
  lpart_life :: real
  lpart_decay :: real
  lpart_size :: real
  lpart_color :: string

record legacy_Bird =
  lbird_x :: real
  lbird_y :: real
  lbird_width :: real
  lbird_height :: real
  lbird_velocity :: real
  lbird_gravity :: real
  lbird_jumpStrength :: real
  lbird_rotation :: real
  lbird_wingFrame :: real
  lbird_maxVelocity :: real
  lbird_terminalVelocity :: real

record legacy_Pipe =
  lpipe_x :: real
  lpipe_width :: real
  lpipe_gap :: real
  lpipe_minHeight :: real
  lpipe_maxHeight :: real
  lpipe_topHeight :: real
  lpipe_scored :: bool
  lpipe_speed :: real
  lpipe_highlightOffset :: real

record legacy_Cloud =
  lcloud_x :: real
  lcloud_y :: real
  lcloud_layer :: real
  lcloud_speed :: real
  lcloud_size :: real
  lcloud_opacity :: real

record legacy_Mountain =
  lmnt_layer :: real
  lmnt_speed :: real
  lmnt_offset :: real

record legacy =
  l_canvas_width :: real
  l_canvas_height :: real
  l_gameState :: GameState
  l_score :: int
  l_bestScore :: best
  l_frame :: nat
  l_particles :: "legacy_Particle list"
  l_groundOffset :: real
  l_bird :: legacy_Bird
  l_pipes :: "legacy_Pipe list"
  l_clouds :: "legacy_Cloud list"
  l_mountains :: "legacy_Mountain list"
  l_storage_bestScore :: "string option"
  l_random_stream :: "nat \<Rightarrow> real"
  l_random_used :: nat

definition legacy_Math_random :: "legacy \<Rightarrow> real \<times> legacy" where
  "legacy_Math_random g =
     (l_random_stream g (l_random_used g), g\<lparr>l_random_used := Suc (l_random_used g)\<rparr>)"

definition legacy_new_Particle :: "real \<Rightarrow> real \<Rightarrow> string \<Rightarrow> legacy \<Rightarrow> legacy_Particle \<times> legacy" where
  "legacy_new_Particle x y color g =
     (let (r1, g1) = legacy_Math_random g;
          (r2, g2) = legacy_Math_random g1;
          (r3, g3) = legacy_Math_random g2
      in (\<lparr> lpart_x = x, lpart_y = y,
            lpart_vx = (r1 - 1 / 2) * 4,
            lpart_vy = (r2 - 1 / 2) * 4 - 2,
            lpart_gravity = 3 / 10, lpart_life = 1, lpart_decay = 2 / 100,
            lpart_size = r3 * 4 + 2,
            lpart_color = (if color = [] then ''#FFD700'' else color) \<rparr>, g3))"

definition legacy_push_Particle :: "real \<Rightarrow> real \<Rightarrow> string \<Rightarrow> legacy \<Rightarrow> legacy" where
  "legacy_push_Particle x y color g =
     (let (p, g1) = legacy_new_Particle x y color g in g1\<lparr>l_particles := l_particles g1 @ [p]\<rparr>)"

fun legacy_emit :: "nat \<Rightarrow> real \<Rightarrow> real \<Rightarrow> string \<Rightarrow> legacy \<Rightarrow> legacy" where
  "legacy_emit 0 x y color g = g"
| "legacy_emit (Suc n) x y color g = legacy_emit n x y color (legacy_push_Particle x y color g)"

definition legacy_Particle_update :: "legacy_Particle \<Rightarrow> legacy_Particle" where
  "legacy_Particle_update p =
     (let vy = lpart_vy p + lpart_gravity p
      in p\<lparr> lpart_vy := vy, lpart_x := lpart_x p + lpart_vx p, lpart_y := lpart_y p + vy,
            lpart_life := lpart_life p - lpart_decay p \<rparr>)"

definition legacy_gameOver :: "legacy \<Rightarrow> legacy" where
  "legacy_gameOver g =
     (let g1 = g\<lparr>l_gameState := GAME_OVER\<rparr>
      in if score_gt (l_score g1) (l_bestScore g1)
         then g1\<lparr> l_bestScore := BestNumber (l_score g1),
                  l_storage_bestScore := Some (Number_toString (l_score g1)) \<rparr>
         else g1)"

definition legacy_load_bestScore :: "string option \<Rightarrow> best" where
  \<comment> \<open>\<open>localStorage.getItem('bestScore') || 0\<close>: \<open>null\<close> and the empty string are falsy.\<close>
  "legacy_load_bestScore item =
     (case item of
        None \<Rightarrow> BestNumber 0
      | Some s \<Rightarrow> if s = [] then BestNumber 0 else BestString s)"

definition legacy_new_bird :: "real \<Rightarrow> legacy_Bird" where
  "legacy_new_bird canvasHeight = \<lparr>
     lbird_x = 80, lbird_y = canvasHeight / 2, lbird_width = 34, lbird_height = 24,
     lbird_velocity = 0, lbird_gravity = 6 / 10, lbird_jumpStrength = - 10,
     lbird_rotation = 0, lbird_wingFrame = 0, lbird_maxVelocity = 12,
     lbird_terminalVelocity = 10 \<rparr>"

definition legacy_Bird_jump :: "legacy \<Rightarrow> legacy" where
  "legacy_Bird_jump g =
     (let g1 = g\<lparr>l_bird := (l_bird g)\<lparr>lbird_velocity := lbird_jumpStrength (l_bird g)\<rparr>\<rparr>
      in legacy_emit 5 (lbird_x (l_bird g1)) (lbird_y (l_bird g1) + lbird_height (l_bird g1) / 2)
           ''#FFFFFF'' g1)"

definition legacy_Bird_integrate :: "legacy \<Rightarrow> legacy" where
  "legacy_Bird_integrate g =
     (let b = l_bird g;
          velocity = min (lbird_velocity b + lbird_gravity b) (lbird_terminalVelocity b);
          y = lbird_y b + velocity;
          targetRotation = min (max (velocity * 4) (- 30)) 90;
          rotation = lbird_rotation b + (targetRotation - lbird_rotation b) * (15 / 100);
          wingFrame = remainder (lbird_wingFrame b + 2 / 10) 3
      in g\<lparr>l_bird := b\<lparr> lbird_velocity := velocity, lbird_y := y,
                         lbird_rotation := rotation, lbird_wingFrame := wingFrame \<rparr>\<rparr>)"

definition legacy_Bird_ground :: "legacy \<Rightarrow> legacy" where
  "legacy_Bird_ground g =
     (if lbird_y (l_bird g) + lbird_height (l_bird g) > l_canvas_height g - 100
      then (let g1 = g\<lparr>l_bird := (l_bird g)\<lparr> lbird_y := l_canvas_height g - 100
                                                          - lbird_height (l_bird g),
                                               lbird_velocity := 0 \<rparr>\<rparr>
            in if l_gameState g1 = PLAYING
               then legacy_gameOver
                      (legacy_emit 10 (lbird_x (l_bird g1) + lbird_width (l_bird g1) / 2)
                                      (lbird_y (l_bird g1) + lbird_height (l_bird g1)) ''#DEB887'' g1)
               else g1)
      else g)"

definition legacy_Bird_ceiling :: "legacy \<Rightarrow> legacy" where
  "legacy_Bird_ceiling g =
     (if lbird_y (l_bird g) < 0
      then g\<lparr>l_bird := (l_bird g)\<lparr>lbird_y := 0, lbird_velocity := 0\<rparr>\<rparr>
      else g)"

definition legacy_Bird_update :: "legacy \<Rightarrow> legacy" where
  "legacy_Bird_update g = legacy_Bird_ceiling (legacy_Bird_ground (legacy_Bird_integrate g))"

definition legacy_Bird_reset :: "legacy \<Rightarrow> legacy" where
  "legacy_Bird_reset g =
     g\<lparr>l_bird := (l_bird g)\<lparr> lbird_y := l_canvas_height g / 2, lbird_velocity := 0,
                               lbird_rotation := 0, lbird_wingFrame := 0 \<rparr>\<rparr>"

definition legacy_Particle_isDead :: "legacy_Particle \<Rightarrow> bool" where
  "legacy_Particle_isDead p = (lpart_life p \<le> 0)"

definition legacy_new_Pipe :: "legacy \<Rightarrow> legacy_Pipe \<times> legacy" where
  "legacy_new_Pipe g =
     (let gap = 150;
          minHeight = 50;
          maxHeight = l_canvas_height g - gap - 150;
          (r, g1) = legacy_Math_random g
      in (\<lparr> lpipe_x = l_canvas_width g, lpipe_width = 60,
            lpipe_gap = gap, lpipe_minHeight = minHeight, lpipe_maxHeight = maxHeight,
            lpipe_topHeight = r * (maxHeight - minHeight) + minHeight,
            lpipe_scored = False, lpipe_speed = 25 / 10, lpipe_highlightOffset = 0 \<rparr>, g1))"

definition legacy_Pipe_update :: "legacy_Pipe \<Rightarrow> legacy \<Rightarrow> legacy_Pipe \<times> legacy" where
  "legacy_Pipe_update p g =
     (let p1 = p\<lparr> lpipe_x := lpipe_x p - lpipe_speed p,
                  lpipe_highlightOffset := remainder (lpipe_highlightOffset p + 1 / 2) 20 \<rparr>
      in if \<not> lpipe_scored p1 \<and> lpipe_x p1 + lpipe_width p1 < lbird_x (l_bird g)
         then (p1\<lparr>lpipe_scored := True\<rparr>,
               legacy_emit 8 (lbird_x (l_bird g) + lbird_width (l_bird g))
                             (lbird_y (l_bird g) + lbird_height (l_bird g) / 2) ''#FFD700''
                 (g\<lparr>l_score := l_score g + 1\<rparr>))
         else (p1, g))"

definition legacy_overlaps_x :: "real \<Rightarrow> legacy_Pipe \<Rightarrow> legacy_Bird \<Rightarrow> bool" where
  "legacy_overlaps_x padding p b =
     (lbird_x b + lbird_width b - padding > lpipe_x p
      \<and> lbird_x b + padding < lpipe_x p + lpipe_width p)"

definition legacy_outside_gap :: "real \<Rightarrow> legacy_Pipe \<Rightarrow> legacy_Bird \<Rightarrow> bool" where
  "legacy_outside_gap padding p b =
     (lbird_y b + padding < lpipe_topHeight p
      \<or> lbird_y b + lbird_height b - padding > lpipe_topHeight p + lpipe_gap p)"

definition legacy_right_edge :: "legacy_Pipe \<Rightarrow> real" where
  "legacy_right_edge p = lpipe_x p + lpipe_width p"

definition legacy_Pipe_collidesWith :: "legacy_Pipe \<Rightarrow> legacy_Bird \<Rightarrow> legacy \<Rightarrow> bool \<times> legacy" where
  "legacy_Pipe_collidesWith p b g =
     (if legacy_overlaps_x 5 p b
      then (if legacy_outside_gap 5 p b
            then (True, legacy_emit 15 (lbird_x b + lbird_width b / 2)
                                       (lbird_y b + lbird_height b / 2) ''#FF0000'' g)
            else (False, g))
      else (False, g))"

definition legacy_pipe_step :: "nat \<Rightarrow> legacy \<Rightarrow> legacy" where
  \<comment> \<open>The callback of \<open>pipes.forEach\<close> in \<open>gameLoop\<close>, at index \<open>index\<close>.\<close>
  "legacy_pipe_step index g =
     (let (pipe, g1) = legacy_Pipe_update (l_pipes g ! index) g;
          g2 = g1\<lparr>l_pipes := (l_pipes g1)[index := pipe]\<rparr>;
          (hit, g3) = legacy_Pipe_collidesWith pipe (l_bird g2) g2;
          g4 = (if hit then legacy_gameOver g3 else g3)
      in if lpipe_x pipe + lpipe_width pipe < 0
         then g4\<lparr>l_pipes := splice1 index (l_pipes g4)\<rparr>
         else g4)"

fun legacy_pipes_forEach :: "nat \<Rightarrow> nat \<Rightarrow> legacy \<Rightarrow> legacy" where
  \<comment> \<open>\<open>forEach\<close> fixes the number of indices it visits when it is called (the first
      argument counts those left) and skips an index the array no longer has.\<close>
  "legacy_pipes_forEach 0 index g = g"
| "legacy_pipes_forEach (Suc n) index g =
     legacy_pipes_forEach n (Suc index)
       (if index < length (l_pipes g) then legacy_pipe_step index g else g)"

definition legacy_Cloud_update :: "legacy_Cloud \<Rightarrow> legacy \<Rightarrow> legacy_Cloud \<times> legacy" where
  "legacy_Cloud_update c g =
     (let c1 = c\<lparr>lcloud_x := lcloud_x c - lcloud_speed c\<rparr>
      in if lcloud_x c1 + lcloud_size c1 * 2 < 0
         then (let (r, g1) = legacy_Math_random g
               in (c1\<lparr> lcloud_x := l_canvas_width g + lcloud_size c1,
                       lcloud_y := r * (l_canvas_height g - 200) \<rparr>, g1))
         else (c1, g))"

fun legacy_clouds_forEach :: "legacy_Cloud list \<Rightarrow> legacy \<Rightarrow> legacy_Cloud list \<times> legacy" where
  "legacy_clouds_forEach [] g = ([], g)"
| "legacy_clouds_forEach (c # cs) g =
     (let (c1, g1) = legacy_Cloud_update c g;
          (cs1, g2) = legacy_clouds_forEach cs g1
      in (c1 # cs1, g2))"

definition legacy_update_clouds :: "legacy \<Rightarrow> legacy" where
  "legacy_update_clouds g =
     (let (cs, g1) = legacy_clouds_forEach (l_clouds g) g in g1\<lparr>l_clouds := cs\<rparr>)"

definition legacy_new_Mountain :: "real \<Rightarrow> legacy_Mountain" where
  "legacy_new_Mountain layer = \<lparr> lmnt_layer = layer, lmnt_speed = 3 / 10 * layer, lmnt_offset = 0 \<rparr>"

definition legacy_Mountain_update :: "legacy \<Rightarrow> legacy_Mountain \<Rightarrow> legacy_Mountain" where
  "legacy_Mountain_update g m =
     m\<lparr>lmnt_offset := remainder (lmnt_offset m + lmnt_speed m) (l_canvas_width g)\<rparr>"

definition legacy_update_mountains :: "legacy \<Rightarrow> legacy" where
  "legacy_update_mountains g = g\<lparr>l_mountains := map (legacy_Mountain_update g) (l_mountains g)\<rparr>"

definition legacy_startGame :: "legacy \<Rightarrow> legacy" where
  "legacy_startGame g = legacy_Bird_reset (g\<lparr>l_gameState := PLAYING, l_score := 0, l_pipes := []\<rparr>)"

definition pipeInterval :: nat where
  "pipeInterval = 120"

definition legacy_spawn :: "legacy \<Rightarrow> legacy" where
  "legacy_spawn g =
     (if l_frame g mod pipeInterval = 0
      then (let (p, g1) = legacy_new_Pipe g in g1\<lparr>l_pipes := l_pipes g1 @ [p]\<rparr>)
      else g)"

definition legacy_playing_tick :: "legacy \<Rightarrow> legacy" where
  "legacy_playing_tick g =
     (let g1 = g\<lparr>l_frame := l_frame g + 1\<rparr>;
          g2 = g1\<lparr>l_groundOffset := l_groundOffset g1 + 25 / 10\<rparr>;
          g3 = legacy_spawn g2;
          g4 = legacy_Bird_update g3;
          g5 = legacy_pipes_forEach (length (l_pipes g4)) 0 g4
      in g5\<lparr>l_particles := filter (\<lambda>p. \<not> legacy_Particle_isDead p)
                               (map legacy_Particle_update (l_particles g5))\<rparr>)"

definition legacy_gameLoop :: "legacy \<Rightarrow> legacy" where
  "legacy_gameLoop g =
     (let g1 = legacy_update_mountains (legacy_update_clouds g)
      in if l_gameState g1 = PLAYING then legacy_playing_tick g1 else g1)"

definition legacy_handleJump :: "legacy \<Rightarrow> legacy" where
  "legacy_handleJump g =
     (if l_gameState g = START then legacy_Bird_jump (legacy_startGame g)
      else if l_gameState g = PLAYING then legacy_Bird_jump g
      else if l_gameState g = GAME_OVER then legacy_startGame g
      else g)"

definition legacy_new_Cloud :: "real \<Rightarrow> legacy \<Rightarrow> legacy_Cloud \<times> legacy" where
  "legacy_new_Cloud layer g =
     (let (r1, g1) = legacy_Math_random g;
          (r2, g2) = legacy_Math_random g1;
          (r3, g3) = legacy_Math_random g2;
          (r4, g4) = legacy_Math_random g3
      in (\<lparr> lcloud_x = r1 * l_canvas_width g, lcloud_y = r2 * (l_canvas_height g - 200),
            lcloud_layer = layer, lcloud_speed = (2 / 10 + r3 * (4 / 10)) * layer,
            lcloud_size = (15 + r4 * 25) / layer,
            lcloud_opacity = 3 / 10 + 3 / 10 * layer \<rparr>, g4))"

fun legacy_new_Clouds :: "nat \<Rightarrow> real \<Rightarrow> legacy \<Rightarrow> legacy" where
  "legacy_new_Clouds 0 layer g = g"
| "legacy_new_Clouds (Suc n) layer g =
     legacy_new_Clouds n layer
       (let (c, g1) = legacy_new_Cloud layer g in g1\<lparr>l_clouds := l_clouds g1 @ [c]\<rparr>)"

definition legacy_load :: "string option \<Rightarrow> (nat \<Rightarrow> real) \<Rightarrow> legacy" where
  \<comment> \<open>The top-level statements of the script, the last of which is \<open>gameLoop()\<close>.\<close>
  "legacy_load item rnd =
     legacy_gameLoop (legacy_new_Clouds 4 2 (legacy_new_Clouds 4 1
       \<lparr> l_canvas_width = 400, l_canvas_height = 600, l_gameState = START, l_score = 0,
         l_bestScore = legacy_load_bestScore item, l_frame = 0, l_particles = [],
         l_groundOffset = 0, l_bird = legacy_new_bird 600, l_pipes = [], l_clouds = [],
         l_mountains = [legacy_new_Mountain 1, legacy_new_Mountain 2],
         l_storage_bestScore = item, l_random_stream = rnd, l_random_used = 0 \<rparr>))"

section \<open>Notions used to state the properties\<close>

definition same_tuning :: "config \<Rightarrow> config \<Rightarrow> bool" where
  "same_tuning c c' = (c' = c\<lparr>cfg_debug_showHitboxes := cfg_debug_showHitboxes c'\<rparr>)"

definition follows_score :: "config \<Rightarrow> game \<Rightarrow> bool" where
  "follows_score c g =
     (same_tuning c (CONFIG g) \<and>
      (if cfg_difficulty_enabled c
       then difficultyMultiplier g =
              min (1 + of_int (score g) * cfg_difficulty_speedIncreasePerScore c)
                  (cfg_difficulty_maxSpeedMultiplier c)
            \<and> currentPipeGap g =
              max (cfg_pipe_gap c - of_int (score g) * cfg_difficulty_gapDecreasePerScore c)
                  (cfg_difficulty_minGap c)
       else difficultyMultiplier g = 1 \<and> currentPipeGap g = cfg_pipe_gap c))"

definition writes_best :: "game \<Rightarrow> game \<Rightarrow> bool" where
  \<comment> \<open>From \<open>g\<close> to \<open>g'\<close> the score has not gone down, and either the phase, the best
      score and the stored item are as they were, or the game is over in \<open>g'\<close>, the best
      score is at least the larger of the old best score and the old score and at most
      the larger of the old best score and the new score, and the stored item is the text
      of the new best score if that is higher than the old one and the old item if not.\<close>
  "writes_best g g' =
     (score g \<le> score g'
      \<and> ((gameState g' = gameState g \<and> bestScore g' = bestScore g
             \<and> storage_bestScore g' = storage_bestScore g)
          \<or> (gameState g' = GAME_OVER
              \<and> max (bestScore g) (score g) \<le> bestScore g'
              \<and> bestScore g' \<le> max (bestScore g) (score g')
              \<and> storage_bestScore g'
                  = (if bestScore g < bestScore g'
                     then Some (Number_toString (bestScore g'))
                     else storage_bestScore g))))"

definition bird_bounded :: "config \<Rightarrow> game \<Rightarrow> bool" where
  \<comment> \<open>The bird still has the constants it was built with, and its velocity is not
      less than the jump strength: it is \<open>NaN\<close> or a number from the jump strength up.\<close>
  "bird_bounded c g =
     (same_tuning c (CONFIG g)
      \<and> bird_gravity (bird g) = cfg_bird_gravity c
      \<and> bird_jumpStrength (bird g) = cfg_bird_jumpStrength c
      \<and> bird_terminalVelocity (bird g) = cfg_bird_terminalVelocity c
      \<and> \<not> lt (bird_velocity (bird g)) (Finite (cfg_bird_jumpStrength c)))"

definition bird_numeric :: "game \<Rightarrow> bool" where
  \<comment> \<open>The velocity of the bird is a number.\<close>
  "bird_numeric g = (bird_velocity (bird g) \<noteq> NaN)"

definition pipes_numeric :: "config \<Rightarrow> game \<Rightarrow> bool" where
  \<comment> \<open>Every pipe is at a position that is a number, and while \<open>lastFrameTime\<close> is
      still undefined there is no pipe and no tick of a game has been counted.\<close>
  "pipes_numeric c g =
     (same_tuning c (CONFIG g)
      \<and> (lastFrameTime g = NaN \<longrightarrow> pipes g = [] \<and> frame g = 0)
      \<and> list_all (\<lambda>p. pipe_x p \<noteq> NaN) (pipes g))"

definition capped :: "'a list \<Rightarrow> 'a list" where
  \<comment> \<open>The buffer of particles once a tick has cut it: over 200 entries, only the last
      100 are kept.\<close>
  "capped xs = (if length xs > 200 then drop (length xs - 100) xs else xs)"

fun skipping :: "(legacy_Pipe \<Rightarrow> legacy_Pipe) \<Rightarrow> legacy_Pipe list \<Rightarrow> legacy_Pipe list" where
  \<comment> \<open>What a pass that updates each pipe with \<open>U\<close> and removes it while walking
      forward leaves: after a removal the next pipe moves into the index just visited and
      is passed over, not updated.\<close>
  "skipping U [] = []"
| "skipping U (p # ps) =
     (if legacy_right_edge (U p) < 0
      then (case ps of [] \<Rightarrow> [] | q # qs \<Rightarrow> q # skipping U qs)
      else U p # skipping U ps)"

section \<open>What each operation leaves alone\<close>

text \<open>
  Each operation writes a few of the globals. The lemmas of this section list, operation
  by operation, the globals it does not write.
\<close>

lemma push_Particle_keeps [simp]:
  "canvas_width (push_Particle x y c g) = canvas_width g"
  "canvas_height (push_Particle x y c g) = canvas_height g"
  "CONFIG (push_Particle x y c g) = CONFIG g"
  "gameState (push_Particle x y c g) = gameState g"
  "score (push_Particle x y c g) = score g"
  "bestScore (push_Particle x y c g) = bestScore g"
  "frame (push_Particle x y c g) = frame g"
  "groundOffset (push_Particle x y c g) = groundOffset g"
  "lastFrameTime (push_Particle x y c g) = lastFrameTime g"
  "deltaTime (push_Particle x y c g) = deltaTime g"
  "difficultyMultiplier (push_Particle x y c g) = difficultyMultiplier g"
  "currentPipeGap (push_Particle x y c g) = currentPipeGap g"
  "bird (push_Particle x y c g) = bird g"
  "pipes (push_Particle x y c g) = pipes g"
  "clouds (push_Particle x y c g) = clouds g"
  "mountains (push_Particle x y c g) = mountains g"
  "lastJumpTime (push_Particle x y c g) = lastJumpTime g"
  "storage_bestScore (push_Particle x y c g) = storage_bestScore g"
  "random_stream (push_Particle x y c g) = random_stream g"
  by (simp_all add: push_Particle_def new_Particle_def Math_random_def Let_def split_def)

lemma emit_keeps_all:
  "canvas_width (emit n x y c g) = canvas_width g \<and>
   canvas_height (emit n x y c g) = canvas_height g \<and>
   CONFIG (emit n x y c g) = CONFIG g \<and>
   gameState (emit n x y c g) = gameState g \<and>
   score (emit n x y c g) = score g \<and>
   bestScore (emit n x y c g) = bestScore g \<and>
   frame (emit n x y c g) = frame g \<and>
   groundOffset (emit n x y c g) = groundOffset g \<and>
   lastFrameTime (emit n x y c g) = lastFrameTime g \<and>
   deltaTime (emit n x y c g) = deltaTime g \<and>
   difficultyMultiplier (emit n x y c g) = difficultyMultiplier g \<and>
   currentPipeGap (emit n x y c g) = currentPipeGap g \<and>
   bird (emit n x y c g) = bird g \<and>
   pipes (emit n x y c g) = pipes g \<and>
   clouds (emit n x y c g) = clouds g \<and>
   mountains (emit n x y c g) = mountains g \<and>
   lastJumpTime (emit n x y c g) = lastJumpTime g \<and>
   storage_bestScore (emit n x y c g) = storage_bestScore g \<and>
   random_stream (emit n x y c g) = random_stream g"
  by (induction n arbitrary: g) simp_all

lemma emit_keeps [simp]:
  "canvas_width (emit n x y c g) = canvas_width g"
  "canvas_height (emit n x y c g) = canvas_height g"
  "CONFIG (emit n x y c g) = CONFIG g"
  "gameState (emit n x y c g) = gameState g"
  "score (emit n x y c g) = score g"
  "bestScore (emit n x y c g) = bestScore g"
  "frame (emit n x y c g) = frame g"
  "groundOffset (emit n x y c g) = groundOffset g"
  "lastFrameTime (emit n x y c g) = lastFrameTime g"
  "deltaTime (emit n x y c g) = deltaTime g"
  "difficultyMultiplier (emit n x y c g) = difficultyMultiplier g"
  "currentPipeGap (emit n x y c g) = currentPipeGap g"
  "bird (emit n x y c g) = bird g"
  "pipes (emit n x y c g) = pipes g"
  "clouds (emit n x y c g) = clouds g"
  "mountains (emit n x y c g) = mountains g"
  "lastJumpTime (emit n x y c g) = lastJumpTime g"
  "storage_bestScore (emit n x y c g) = storage_bestScore g"
  "random_stream (emit n x y c g) = random_stream g"
  using emit_keeps_all [of n x y c g] by simp_all

lemma gameOver_keeps [simp]:
  "canvas_width (gameOver g) = canvas_width g"
  "canvas_height (gameOver g) = canvas_height g"
  "CONFIG (gameOver g) = CONFIG g"
  "score (gameOver g) = score g"
  "frame (gameOver g) = frame g"
  "particles (gameOver g) = particles g"
  "groundOffset (gameOver g) = groundOffset g"
  "lastFrameTime (gameOver g) = lastFrameTime g"
  "deltaTime (gameOver g) = deltaTime g"
  "difficultyMultiplier (gameOver g) = difficultyMultiplier g"
  "currentPipeGap (gameOver g) = currentPipeGap g"
  "bird (gameOver g) = bird g"
  "pipes (gameOver g) = pipes g"
  "clouds (gameOver g) = clouds g"
  "mountains (gameOver g) = mountains g"
  "lastJumpTime (gameOver g) = lastJumpTime g"
  "random_stream (gameOver g) = random_stream g"
  "random_used (gameOver g) = random_used g"
  by (simp_all add: gameOver_def Let_def)

lemma updateDifficulty_keeps [simp]:
  "canvas_width (updateDifficulty g) = canvas_width g"
  "canvas_height (updateDifficulty g) = canvas_height g"
  "CONFIG (updateDifficulty g) = CONFIG g"
  "gameState (updateDifficulty g) = gameState g"
  "score (updateDifficulty g) = score g"
  "bestScore (updateDifficulty g) = bestScore g"
  "frame (updateDifficulty g) = frame g"
  "particles (updateDifficulty g) = particles g"
  "groundOffset (updateDifficulty g) = groundOffset g"
  "lastFrameTime (updateDifficulty g) = lastFrameTime g"
  "deltaTime (updateDifficulty g) = deltaTime g"
  "bird (updateDifficulty g) = bird g"
  "pipes (updateDifficulty g) = pipes g"
  "clouds (updateDifficulty g) = clouds g"
  "mountains (updateDifficulty g) = mountains g"
  "lastJumpTime (updateDifficulty g) = lastJumpTime g"
  "storage_bestScore (updateDifficulty g) = storage_bestScore g"
  "random_stream (updateDifficulty g) = random_stream g"
  "random_used (updateDifficulty g) = random_used g"
  by (simp_all add: updateDifficulty_def)

lemma Bird_jump_keeps [simp]:
  "canvas_width (Bird_jump g) = canvas_width g"
  "canvas_height (Bird_jump g) = canvas_height g"
  "CONFIG (Bird_jump g) = CONFIG g"
  "gameState (Bird_jump g) = gameState g"
  "score (Bird_jump g) = score g"
  "bestScore (Bird_jump g) = bestScore g"
  "frame (Bird_jump g) = frame g"
  "groundOffset (Bird_jump g) = groundOffset g"
  "lastFrameTime (Bird_jump g) = lastFrameTime g"
  "deltaTime (Bird_jump g) = deltaTime g"
  "difficultyMultiplier (Bird_jump g) = difficultyMultiplier g"
  "currentPipeGap (Bird_jump g) = currentPipeGap g"
  "pipes (Bird_jump g) = pipes g"
  "clouds (Bird_jump g) = clouds g"
  "mountains (Bird_jump g) = mountains g"
  "lastJumpTime (Bird_jump g) = lastJumpTime g"
  "storage_bestScore (Bird_jump g) = storage_bestScore g"
  "random_stream (Bird_jump g) = random_stream g"
  by (simp_all add: Bird_jump_def Let_def)

lemma Bird_integrate_keeps [simp]:
  "canvas_width (Bird_integrate dt g) = canvas_width g"
  "canvas_height (Bird_integrate dt g) = canvas_height g"
  "CONFIG (Bird_integrate dt g) = CONFIG g"
  "gameState (Bird_integrate dt g) = gameState g"
  "score (Bird_integrate dt g) = score g"
  "bestScore (Bird_integrate dt g) = bestScore g"
  "frame (Bird_integrate dt g) = frame g"
  "particles (Bird_integrate dt g) = particles g"
  "groundOffset (Bird_integrate dt g) = groundOffset g"
  "lastFrameTime (Bird_integrate dt g) = lastFrameTime g"
  "deltaTime (Bird_integrate dt g) = deltaTime g"
  "difficultyMultiplier (Bird_integrate dt g) = difficultyMultiplier g"
  "currentPipeGap (Bird_integrate dt g) = currentPipeGap g"
  "pipes (Bird_integrate dt g) = pipes g"
  "clouds (Bird_integrate dt g) = clouds g"
  "mountains (Bird_integrate dt g) = mountains g"
  "lastJumpTime (Bird_integrate dt g) = lastJumpTime g"
  "storage_bestScore (Bird_integrate dt g) = storage_bestScore g"
  "random_stream (Bird_integrate dt g) = random_stream g"
  "random_used (Bird_integrate dt g) = random_used g"
  by (simp_all add: Bird_integrate_def Let_def)

lemma Bird_ground_keeps [simp]:
  "canvas_width (Bird_ground g) = canvas_width g"
  "canvas_height (Bird_ground g) = canvas_height g"
  "CONFIG (Bird_ground g) = CONFIG g"
  "score (Bird_ground g) = score g"
  "frame (Bird_ground g) = frame g"
  "groundOffset (Bird_ground g) = groundOffset g"
  "lastFrameTime (Bird_ground g) = lastFrameTime g"
  "deltaTime (Bird_ground g) = deltaTime g"
  "difficultyMultiplier (Bird_ground g) = difficultyMultiplier g"
  "currentPipeGap (Bird_ground g) = currentPipeGap g"
  "pipes (Bird_ground g) = pipes g"
  "clouds (Bird_ground g) = clouds g"
  "mountains (Bird_ground g) = mountains g"
  "lastJumpTime (Bird_ground g) = lastJumpTime g"
  "random_stream (Bird_ground g) = random_stream g"
  by (simp_all add: Bird_ground_def Let_def)

lemma Bird_ceiling_keeps [simp]:
  "canvas_width (Bird_ceiling g) = canvas_width g"
  "canvas_height (Bird_ceiling g) = canvas_height g"
  "CONFIG (Bird_ceiling g) = CONFIG g"
  "gameState (Bird_ceiling g) = gameState g"
  "score (Bird_ceiling g) = score g"
  "bestScore (Bird_ceiling g) = bestScore g"
  "frame (Bird_ceiling g) = frame g"
  "particles (Bird_ceiling g) = particles g"
  "groundOffset (Bird_ceiling g) = groundOffset g"
  "lastFrameTime (Bird_ceiling g) = lastFrameTime g"
  "deltaTime (Bird_ceiling g) = deltaTime g"
  "difficultyMultiplier (Bird_ceiling g) = difficultyMultiplier g"
  "currentPipeGap (Bird_ceiling g) = currentPipeGap g"
  "pipes (Bird_ceiling g) = pipes g"
  "clouds (Bird_ceiling g) = clouds g"
  "mountains (Bird_ceiling g) = mountains g"
  "lastJumpTime (Bird_ceiling g) = lastJumpTime g"
  "storage_bestScore (Bird_ceiling g) = storage_bestScore g"
  "random_stream (Bird_ceiling g) = random_stream g"
  "random_used (Bird_ceiling g) = random_used g"
  by (simp_all add: Bird_ceiling_def)

lemma Bird_update_keeps [simp]:
  "canvas_width (Bird_update dt g) = canvas_width g"
  "canvas_height (Bird_update dt g) = canvas_height g"
  "CONFIG (Bird_update dt g) = CONFIG g"
  "score (Bird_update dt g) = score g"
  "frame (Bird_update dt g) = frame g"
  "groundOffset (Bird_update dt g) = groundOffset g"
  "lastFrameTime (Bird_update dt g) = lastFrameTime g"
  "deltaTime (Bird_update dt g) = deltaTime g"
  "difficultyMultiplier (Bird_update dt g) = difficultyMultiplier g"
  "currentPipeGap (Bird_update dt g) = currentPipeGap g"
  "pipes (Bird_update dt g) = pipes g"
  "clouds (Bird_update dt g) = clouds g"
  "mountains (Bird_update dt g) = mountains g"
  "lastJumpTime (Bird_update dt g) = lastJumpTime g"
  "random_stream (Bird_update dt g) = random_stream g"
  by (simp_all add: Bird_update_def)

lemma Bird_reset_keeps [simp]:
  "canvas_width (Bird_reset g) = canvas_width g"
  "canvas_height (Bird_reset g) = canvas_height g"
  "CONFIG (Bird_reset g) = CONFIG g"
  "gameState (Bird_reset g) = gameState g"
  "score (Bird_reset g) = score g"
  "bestScore (Bird_reset g) = bestScore g"
  "frame (Bird_reset g) = frame g"
  "particles (Bird_reset g) = particles g"
  "groundOffset (Bird_reset g) = groundOffset g"
  "lastFrameTime (Bird_reset g) = lastFrameTime g"
  "deltaTime (Bird_reset g) = deltaTime g"
  "difficultyMultiplier (Bird_reset g) = difficultyMultiplier g"
  "currentPipeGap (Bird_reset g) = currentPipeGap g"
  "pipes (Bird_reset g) = pipes g"
  "clouds (Bird_reset g) = clouds g"
  "mountains (Bird_reset g) = mountains g"
  "lastJumpTime (Bird_reset g) = lastJumpTime g"
  "storage_bestScore (Bird_reset g) = storage_bestScore g"
  "random_stream (Bird_reset g) = random_stream g"
  "random_used (Bird_reset g) = random_used g"
  by (simp_all add: Bird_reset_def)

lemma Pipe_update_keeps [simp]:
  "canvas_width (snd (Pipe_update dt p g)) = canvas_width g"
  "canvas_height (snd (Pipe_update dt p g)) = canvas_height g"
  "CONFIG (snd (Pipe_update dt p g)) = CONFIG g"
  "gameState (snd (Pipe_update dt p g)) = gameState g"
  "bestScore (snd (Pipe_update dt p g)) = bestScore g"
  "frame (snd (Pipe_update dt p g)) = frame g"
  "groundOffset (snd (Pipe_update dt p g)) = groundOffset g"
  "lastFrameTime (snd (Pipe_update dt p g)) = lastFrameTime g"
  "deltaTime (snd (Pipe_update dt p g)) = deltaTime g"
  "bird (snd (Pipe_update dt p g)) = bird g"
  "pipes (snd (Pipe_update dt p g)) = pipes g"
  "clouds (snd (Pipe_update dt p g)) = clouds g"
  "mountains (snd (Pipe_update dt p g)) = mountains g"
  "lastJumpTime (snd (Pipe_update dt p g)) = lastJumpTime g"
  "storage_bestScore (snd (Pipe_update dt p g)) = storage_bestScore g"
  "random_stream (snd (Pipe_update dt p g)) = random_stream g"
  by (simp_all add: Pipe_update_def Let_def)

lemma Pipe_collidesWith_keeps [simp]:
  "canvas_width (snd (Pipe_collidesWith p b g)) = canvas_width g"
  "canvas_height (snd (Pipe_collidesWith p b g)) = canvas_height g"
  "CONFIG (snd (Pipe_collidesWith p b g)) = CONFIG g"
  "gameState (snd (Pipe_collidesWith p b g)) = gameState g"
  "score (snd (Pipe_collidesWith p b g)) = score g"
  "bestScore (snd (Pipe_collidesWith p b g)) = bestScore g"
  "frame (snd (Pipe_collidesWith p b g)) = frame g"
  "groundOffset (snd (Pipe_collidesWith p b g)) = groundOffset g"
  "lastFrameTime (snd (Pipe_collidesWith p b g)) = lastFrameTime g"
  "deltaTime (snd (Pipe_collidesWith p b g)) = deltaTime g"
  "difficultyMultiplier (snd (Pipe_collidesWith p b g)) = difficultyMultiplier g"
  "currentPipeGap (snd (Pipe_collidesWith p b g)) = currentPipeGap g"
  "bird (snd (Pipe_collidesWith p b g)) = bird g"
  "pipes (snd (Pipe_collidesWith p b g)) = pipes g"
  "clouds (snd (Pipe_collidesWith p b g)) = clouds g"
  "mountains (snd (Pipe_collidesWith p b g)) = mountains g"
  "lastJumpTime (snd (Pipe_collidesWith p b g)) = lastJumpTime g"
  "storage_bestScore (snd (Pipe_collidesWith p b g)) = storage_bestScore g"
  "random_stream (snd (Pipe_collidesWith p b g)) = random_stream g"
  by (simp_all add: Pipe_collidesWith_def Let_def)

lemma pipe_step_keeps [simp]:
  "canvas_width (pipe_step i g) = canvas_width g"
  "canvas_height (pipe_step i g) = canvas_height g"
  "CONFIG (pipe_step i g) = CONFIG g"
  "frame (pipe_step i g) = frame g"
  "groundOffset (pipe_step i g) = groundOffset g"
  "lastFrameTime (pipe_step i g) = lastFrameTime g"
  "deltaTime (pipe_step i g) = deltaTime g"
  "bird (pipe_step i g) = bird g"
  "clouds (pipe_step i g) = clouds g"
  "mountains (pipe_step i g) = mountains g"
  "lastJumpTime (pipe_step i g) = lastJumpTime g"
  "random_stream (pipe_step i g) = random_stream g"
  by (simp_all add: pipe_step_def Let_def split_def)

lemma pipe_loop_keeps_all:
  "canvas_width (pipe_loop i g) = canvas_width g \<and>
   canvas_height (pipe_loop i g) = canvas_height g \<and>
   CONFIG (pipe_loop i g) = CONFIG g \<and>
   frame (pipe_loop i g) = frame g \<and>
   groundOffset (pipe_loop i g) = groundOffset g \<and>
   lastFrameTime (pipe_loop i g) = lastFrameTime g \<and>
   deltaTime (pipe_loop i g) = deltaTime g \<and>
   bird (pipe_loop i g) = bird g \<and>
   clouds (pipe_loop i g) = clouds g \<and>
   mountains (pipe_loop i g) = mountains g \<and>
   lastJumpTime (pipe_loop i g) = lastJumpTime g \<and>
   random_stream (pipe_loop i g) = random_stream g"
  by (induction i arbitrary: g) simp_all

lemma pipe_loop_keeps [simp]:
  "canvas_width (pipe_loop i g) = canvas_width g"
  "canvas_height (pipe_loop i g) = canvas_height g"
  "CONFIG (pipe_loop i g) = CONFIG g"
  "frame (pipe_loop i g) = frame g"
  "groundOffset (pipe_loop i g) = groundOffset g"
  "lastFrameTime (pipe_loop i g) = lastFrameTime g"
  "deltaTime (pipe_loop i g) = deltaTime g"
  "bird (pipe_loop i g) = bird g"
  "clouds (pipe_loop i g) = clouds g"
  "mountains (pipe_loop i g) = mountains g"
  "lastJumpTime (pipe_loop i g) = lastJumpTime g"
  "random_stream (pipe_loop i g) = random_stream g"
  using pipe_loop_keeps_all [of i g] by simp_all

lemma Cloud_update_keeps [simp]:
  "canvas_width (snd (Cloud_update dt c g)) = canvas_width g"
  "canvas_height (snd (Cloud_update dt c g)) = canvas_height g"
  "CONFIG (snd (Cloud_update dt c g)) = CONFIG g"
  "gameState (snd (Cloud_update dt c g)) = gameState g"
  "score (snd (Cloud_update dt c g)) = score g"
  "bestScore (snd (Cloud_update dt c g)) = bestScore g"
  "frame (snd (Cloud_update dt c g)) = frame g"
  "particles (snd (Cloud_update dt c g)) = particles g"
  "groundOffset (snd (Cloud_update dt c g)) = groundOffset g"
  "lastFrameTime (snd (Cloud_update dt c g)) = lastFrameTime g"
  "deltaTime (snd (Cloud_update dt c g)) = deltaTime g"
  "difficultyMultiplier (snd (Cloud_update dt c g)) = difficultyMultiplier g"
  "currentPipeGap (snd (Cloud_update dt c g)) = currentPipeGap g"
  "bird (snd (Cloud_update dt c g)) = bird g"
  "pipes (snd (Cloud_update dt c g)) = pipes g"
  "clouds (snd (Cloud_update dt c g)) = clouds g"
  "mountains (snd (Cloud_update dt c g)) = mountains g"
  "lastJumpTime (snd (Cloud_update dt c g)) = lastJumpTime g"
  "storage_bestScore (snd (Cloud_update dt c g)) = storage_bestScore g"
  "random_stream (snd (Cloud_update dt c g)) = random_stream g"
  by (simp_all add: Cloud_update_def Math_random_def Let_def split_def)

lemma clouds_forEach_keeps_all:
  "canvas_width (snd (clouds_forEach dt cs g)) = canvas_width g \<and>
   canvas_height (snd (clouds_forEach dt cs g)) = canvas_height g \<and>
   CONFIG (snd (clouds_forEach dt cs g)) = CONFIG g \<and>
   gameState (snd (clouds_forEach dt cs g)) = gameState g \<and>
   score (snd (clouds_forEach dt cs g)) = score g \<and>
   bestScore (snd (clouds_forEach dt cs g)) = bestScore g \<and>
   frame (snd (clouds_forEach dt cs g)) = frame g \<and>
   particles (snd (clouds_forEach dt cs g)) = particles g \<and>
   groundOffset (snd (clouds_forEach dt cs g)) = groundOffset g \<and>
   lastFrameTime (snd (clouds_forEach dt cs g)) = lastFrameTime g \<and>
   deltaTime (snd (clouds_forEach dt cs g)) = deltaTime g \<and>
   difficultyMultiplier (snd (clouds_forEach dt cs g)) = difficultyMultiplier g \<and>
   currentPipeGap (snd (clouds_forEach dt cs g)) = currentPipeGap g \<and>
   bird (snd (clouds_forEach dt cs g)) = bird g \<and>
   pipes (snd (clouds_forEach dt cs g)) = pipes g \<and>
   clouds (snd (clouds_forEach dt cs g)) = clouds g \<and>
   mountains (snd (clouds_forEach dt cs g)) = mountains g \<and>
   lastJumpTime (snd (clouds_forEach dt cs g)) = lastJumpTime g \<and>
   storage_bestScore (snd (clouds_forEach dt cs g)) = storage_bestScore g \<and>
   random_stream (snd (clouds_forEach dt cs g)) = random_stream g"
  by (induction cs arbitrary: g) (simp_all add: split_def Let_def)

lemma clouds_forEach_keeps [simp]:
  "canvas_width (snd (clouds_forEach dt cs g)) = canvas_width g"
  "canvas_height (snd (clouds_forEach dt cs g)) = canvas_height g"
  "CONFIG (snd (clouds_forEach dt cs g)) = CONFIG g"
  "gameState (snd (clouds_forEach dt cs g)) = gameState g"
  "score (snd (clouds_forEach dt cs g)) = score g"
  "bestScore (snd (clouds_forEach dt cs g)) = bestScore g"
  "frame (snd (clouds_forEach dt cs g)) = frame g"
  "particles (snd (clouds_forEach dt cs g)) = particles g"
  "groundOffset (snd (clouds_forEach dt cs g)) = groundOffset g"
  "lastFrameTime (snd (clouds_forEach dt cs g)) = lastFrameTime g"
  "deltaTime (snd (clouds_forEach dt cs g)) = deltaTime g"
  "difficultyMultiplier (snd (clouds_forEach dt cs g)) = difficultyMultiplier g"
  "currentPipeGap (snd (clouds_forEach dt cs g)) = currentPipeGap g"
  "bird (snd (clouds_forEach dt cs g)) = bird g"
  "pipes (snd (clouds_forEach dt cs g)) = pipes g"
  "clouds (snd (clouds_forEach dt cs g)) = clouds g"
  "mountains (snd (clouds_forEach dt cs g)) = mountains g"
  "lastJumpTime (snd (clouds_forEach dt cs g)) = lastJumpTime g"
  "storage_bestScore (snd (clouds_forEach dt cs g)) = storage_bestScore g"
  "random_stream (snd (clouds_forEach dt cs g)) = random_stream g"
  using clouds_forEach_keeps_all [of dt cs g] by simp_all

lemma update_clouds_keeps [simp]:
  "canvas_width (update_clouds g) = canvas_width g"
  "canvas_height (update_clouds g) = canvas_height g"
  "CONFIG (update_clouds g) = CONFIG g"
  "gameState (update_clouds g) = gameState g"
  "score (update_clouds g) = score g"
  "bestScore (update_clouds g) = bestScore g"
  "frame (update_clouds g) = frame g"
  "particles (update_clouds g) = particles g"
  "groundOffset (update_clouds g) = groundOffset g"
  "lastFrameTime (update_clouds g) = lastFrameTime g"
  "deltaTime (update_clouds g) = deltaTime g"
  "difficultyMultiplier (update_clouds g) = difficultyMultiplier g"
  "currentPipeGap (update_clouds g) = currentPipeGap g"
  "bird (update_clouds g) = bird g"
  "pipes (update_clouds g) = pipes g"
  "mountains (update_clouds g) = mountains g"
  "lastJumpTime (update_clouds g) = lastJumpTime g"
  "storage_bestScore (update_clouds g) = storage_bestScore g"
  "random_stream (update_clouds g) = random_stream g"
  by (simp_all add: update_clouds_def split_def Let_def)

lemma update_mountains_keeps [simp]:
  "canvas_width (update_mountains g) = canvas_width g"
  "canvas_height (update_mountains g) = canvas_height g"
  "CONFIG (update_mountains g) = CONFIG g"
  "gameState (update_mountains g) = gameState g"
  "score (update_mountains g) = score g"
  "bestScore (update_mountains g) = bestScore g"
  "frame (update_mountains g) = frame g"
  "particles (update_mountains g) = particles g"
  "groundOffset (update_mountains g) = groundOffset g"
  "lastFrameTime (update_mountains g) = lastFrameTime g"
  "deltaTime (update_mountains g) = deltaTime g"
  "difficultyMultiplier (update_mountains g) = difficultyMultiplier g"
  "currentPipeGap (update_mountains g) = currentPipeGap g"
  "bird (update_mountains g) = bird g"
  "pipes (update_mountains g) = pipes g"
  "clouds (update_mountains g) = clouds g"
  "lastJumpTime (update_mountains g) = lastJumpTime g"
  "storage_bestScore (update_mountains g) = storage_bestScore g"
  "random_stream (update_mountains g) = random_stream g"
  "random_used (update_mountains g) = random_used g"
  by (simp_all add: update_mountains_def)

lemma clock_keeps [simp]:
  "canvas_width (clock t g) = canvas_width g"
  "canvas_height (clock t g) = canvas_height g"
  "CONFIG (clock t g) = CONFIG g"
  "gameState (clock t g) = gameState g"
  "score (clock t g) = score g"
  "bestScore (clock t g) = bestScore g"
  "frame (clock t g) = frame g"
  "particles (clock t g) = particles g"
  "groundOffset (clock t g) = groundOffset g"
  "difficultyMultiplier (clock t g) = difficultyMultiplier g"
  "currentPipeGap (clock t g) = currentPipeGap g"
  "bird (clock t g) = bird g"
  "pipes (clock t g) = pipes g"
  "clouds (clock t g) = clouds g"
  "mountains (clock t g) = mountains g"
  "lastJumpTime (clock t g) = lastJumpTime g"
  "storage_bestScore (clock t g) = storage_bestScore g"
  "random_stream (clock t g) = random_stream g"
  "random_used (clock t g) = random_used g"
  by (simp_all add: clock_def Let_def)

lemma spawn_keeps [simp]:
  "canvas_width (spawn g) = canvas_width g"
  "canvas_height (spawn g) = canvas_height g"
  "CONFIG (spawn g) = CONFIG g"
  "gameState (spawn g) = gameState g"
  "score (spawn g) = score g"
  "bestScore (spawn g) = bestScore g"
  "frame (spawn g) = frame g"
  "particles (spawn g) = particles g"
  "groundOffset (spawn g) = groundOffset g"
  "lastFrameTime (spawn g) = lastFrameTime g"
  "deltaTime (spawn g) = deltaTime g"
  "difficultyMultiplier (spawn g) = difficultyMultiplier g"
  "currentPipeGap (spawn g) = currentPipeGap g"
  "bird (spawn g) = bird g"
  "clouds (spawn g) = clouds g"
  "mountains (spawn g) = mountains g"
  "lastJumpTime (spawn g) = lastJumpTime g"
  "storage_bestScore (spawn g) = storage_bestScore g"
  "random_stream (spawn g) = random_stream g"
  by (simp_all add: spawn_def new_Pipe_def Math_random_def Let_def split_def)

lemma update_particles_keeps [simp]:
  "canvas_width (update_particles g) = canvas_width g"
  "canvas_height (update_particles g) = canvas_height g"
  "CONFIG (update_particles g) = CONFIG g"
  "gameState (update_particles g) = gameState g"
  "score (update_particles g) = score g"
  "bestScore (update_particles g) = bestScore g"
  "frame (update_particles g) = frame g"
  "groundOffset (update_particles g) = groundOffset g"
  "lastFrameTime (update_particles g) = lastFrameTime g"
  "deltaTime (update_particles g) = deltaTime g"
  "difficultyMultiplier (update_particles g) = difficultyMultiplier g"
  "currentPipeGap (update_particles g) = currentPipeGap g"
  "bird (update_particles g) = bird g"
  "pipes (update_particles g) = pipes g"
  "clouds (update_particles g) = clouds g"
  "mountains (update_particles g) = mountains g"
  "lastJumpTime (update_particles g) = lastJumpTime g"
  "storage_bestScore (update_particles g) = storage_bestScore g"
  "random_stream (update_particles g) = random_stream g"
  "random_used (update_particles g) = random_used g"
  by (simp_all add: update_particles_def Let_def)

lemma playing_tick_keeps [simp]:
  "canvas_width (playing_tick g) = canvas_width g"
  "canvas_height (playing_tick g) = canvas_height g"
  "CONFIG (playing_tick g) = CONFIG g"
  "lastFrameTime (playing_tick g) = lastFrameTime g"
  "deltaTime (playing_tick g) = deltaTime g"
  "clouds (playing_tick g) = clouds g"
  "mountains (playing_tick g) = mountains g"
  "lastJumpTime (playing_tick g) = lastJumpTime g"
  "random_stream (playing_tick g) = random_stream g"
  by (simp_all add: playing_tick_def Let_def)

lemma gameLoop_keeps [simp]:
  "canvas_width (gameLoop t g) = canvas_width g"
  "canvas_height (gameLoop t g) = canvas_height g"
  "CONFIG (gameLoop t g) = CONFIG g"
  "lastJumpTime (gameLoop t g) = lastJumpTime g"
  "random_stream (gameLoop t g) = random_stream g"
  by (simp_all add: gameLoop_def Let_def)

lemma startGame_keeps [simp]:
  "canvas_width (startGame g) = canvas_width g"
  "canvas_height (startGame g) = canvas_height g"
  "CONFIG (startGame g) = CONFIG g"
  "bestScore (startGame g) = bestScore g"
  "groundOffset (startGame g) = groundOffset g"
  "lastFrameTime (startGame g) = lastFrameTime g"
  "deltaTime (startGame g) = deltaTime g"
  "clouds (startGame g) = clouds g"
  "mountains (startGame g) = mountains g"
  "lastJumpTime (startGame g) = lastJumpTime g"
  "storage_bestScore (startGame g) = storage_bestScore g"
  "random_stream (startGame g) = random_stream g"
  "random_used (startGame g) = random_used g"
  by (simp_all add: startGame_def)

lemma pauseGame_keeps [simp]:
  "canvas_width (pauseGame now g) = canvas_width g"
  "canvas_height (pauseGame now g) = canvas_height g"
  "CONFIG (pauseGame now g) = CONFIG g"
  "score (pauseGame now g) = score g"
  "bestScore (pauseGame now g) = bestScore g"
  "frame (pauseGame now g) = frame g"
  "particles (pauseGame now g) = particles g"
  "groundOffset (pauseGame now g) = groundOffset g"
  "deltaTime (pauseGame now g) = deltaTime g"
  "difficultyMultiplier (pauseGame now g) = difficultyMultiplier g"
  "currentPipeGap (pauseGame now g) = currentPipeGap g"
  "bird (pauseGame now g) = bird g"
  "pipes (pauseGame now g) = pipes g"
  "clouds (pauseGame now g) = clouds g"
  "mountains (pauseGame now g) = mountains g"
  "lastJumpTime (pauseGame now g) = lastJumpTime g"
  "storage_bestScore (pauseGame now g) = storage_bestScore g"
  "random_stream (pauseGame now g) = random_stream g"
  "random_used (pauseGame now g) = random_used g"
  by (simp_all add: pauseGame_def)

lemma handleJump_keeps [simp]:
  "canvas_width (handleJump now g) = canvas_width g"
  "canvas_height (handleJump now g) = canvas_height g"
  "CONFIG (handleJump now g) = CONFIG g"
  "bestScore (handleJump now g) = bestScore g"
  "groundOffset (handleJump now g) = groundOffset g"
  "lastFrameTime (handleJump now g) = lastFrameTime g"
  "deltaTime (handleJump now g) = deltaTime g"
  "clouds (handleJump now g) = clouds g"
  "mountains (handleJump now g) = mountains g"
  "storage_bestScore (handleJump now g) = storage_bestScore g"
  "random_stream (handleJump now g) = random_stream g"
  by (simp_all add: handleJump_def Let_def)

lemma new_Cloud_keeps [simp]:
  "canvas_width (snd (new_Cloud layer g)) = canvas_width g"
  "canvas_height (snd (new_Cloud layer g)) = canvas_height g"
  "CONFIG (snd (new_Cloud layer g)) = CONFIG g"
  "gameState (snd (new_Cloud layer g)) = gameState g"
  "score (snd (new_Cloud layer g)) = score g"
  "bestScore (snd (new_Cloud layer g)) = bestScore g"
  "frame (snd (new_Cloud layer g)) = frame g"
  "particles (snd (new_Cloud layer g)) = particles g"
  "groundOffset (snd (new_Cloud layer g)) = groundOffset g"
  "lastFrameTime (snd (new_Cloud layer g)) = lastFrameTime g"
  "deltaTime (snd (new_Cloud layer g)) = deltaTime g"
  "difficultyMultiplier (snd (new_Cloud layer g)) = difficultyMultiplier g"
  "currentPipeGap (snd (new_Cloud layer g)) = currentPipeGap g"
  "bird (snd (new_Cloud layer g)) = bird g"
  "pipes (snd (new_Cloud layer g)) = pipes g"
  "clouds (snd (new_Cloud layer g)) = clouds g"
  "mountains (snd (new_Cloud layer g)) = mountains g"
  "lastJumpTime (snd (new_Cloud layer g)) = lastJumpTime g"
  "storage_bestScore (snd (new_Cloud layer g)) = storage_bestScore g"
  "random_stream (snd (new_Cloud layer g)) = random_stream g"
  by (simp_all add: new_Cloud_def Math_random_def Let_def split_def)

lemma new_Clouds_keeps_all:
  "canvas_width (new_Clouds n layer g) = canvas_width g \<and>
   canvas_height (new_Clouds n layer g) = canvas_height g \<and>
   CONFIG (new_Clouds n layer g) = CONFIG g \<and>
   gameState (new_Clouds n layer g) = gameState g \<and>
   score (new_Clouds n layer g) = score g \<and>
   bestScore (new_Clouds n layer g) = bestScore g \<and>
   frame (new_Clouds n layer g) = frame g \<and>
   particles (new_Clouds n layer g) = particles g \<and>
   groundOffset (new_Clouds n layer g) = groundOffset g \<and>
   lastFrameTime (new_Clouds n layer g) = lastFrameTime g \<and>
   deltaTime (new_Clouds n layer g) = deltaTime g \<and>
   difficultyMultiplier (new_Clouds n layer g) = difficultyMultiplier g \<and>
   currentPipeGap (new_Clouds n layer g) = currentPipeGap g \<and>
   bird (new_Clouds n layer g) = bird g \<and>
   pipes (new_Clouds n layer g) = pipes g \<and>
   mountains (new_Clouds n layer g) = mountains g \<and>
   lastJumpTime (new_Clouds n layer g) = lastJumpTime g \<and>
   storage_bestScore (new_Clouds n layer g) = storage_bestScore g \<and>
   random_stream (new_Clouds n layer g) = random_stream g"
  by (induction n arbitrary: g) (simp_all add: split_def Let_def)

lemma new_Clouds_keeps [simp]:
  "canvas_width (new_Clouds n layer g) = canvas_width g"
  "canvas_height (new_Clouds n layer g) = canvas_height g"
  "CONFIG (new_Clouds n layer g) = CONFIG g"
  "gameState (new_Clouds n layer g) = gameState g"
  "score (new_Clouds n layer g) = score g"
  "bestScore (new_Clouds n layer g) = bestScore g"
  "frame (new_Clouds n layer g) = frame g"
  "particles (new_Clouds n layer g) = particles g"
  "groundOffset (new_Clouds n layer g) = groundOffset g"
  "lastFrameTime (new_Clouds n layer g) = lastFrameTime g"
  "deltaTime (new_Clouds n layer g) = deltaTime g"
  "difficultyMultiplier (new_Clouds n layer g) = difficultyMultiplier g"
  "currentPipeGap (new_Clouds n layer g) = currentPipeGap g"
  "bird (new_Clouds n layer g) = bird g"
  "pipes (new_Clouds n layer g) = pipes g"
  "mountains (new_Clouds n layer g) = mountains g"
  "lastJumpTime (new_Clouds n layer g) = lastJumpTime g"
  "storage_bestScore (new_Clouds n layer g) = storage_bestScore g"
  "random_stream (new_Clouds n layer g) = random_stream g"
  using new_Clouds_keeps_all [of n layer g] by simp_all

subsection \<open>The fixed-step game\<close>

lemma legacy_push_Particle_keeps [simp]:
  "l_canvas_width (legacy_push_Particle x y c g) = l_canvas_width g"
  "l_canvas_height (legacy_push_Particle x y c g) = l_canvas_height g"
  "l_gameState (legacy_push_Particle x y c g) = l_gameState g"
  "l_score (legacy_push_Particle x y c g) = l_score g"
  "l_bestScore (legacy_push_Particle x y c g) = l_bestScore g"
  "l_frame (legacy_push_Particle x y c g) = l_frame g"
  "l_groundOffset (legacy_push_Particle x y c g) = l_groundOffset g"
  "l_bird (legacy_push_Particle x y c g) = l_bird g"
  "l_pipes (legacy_push_Particle x y c g) = l_pipes g"
  "l_clouds (legacy_push_Particle x y c g) = l_clouds g"
  "l_mountains (legacy_push_Particle x y c g) = l_mountains g"
  "l_storage_bestScore (legacy_push_Particle x y c g) = l_storage_bestScore g"
  "l_random_stream (legacy_push_Particle x y c g) = l_random_stream g"
  by (simp_all add: legacy_push_Particle_def legacy_new_Particle_def legacy_Math_random_def Let_def split_def)

lemma legacy_emit_keeps_all:
  "l_canvas_width (legacy_emit n x y c g) = l_canvas_width g \<and>
   l_canvas_height (legacy_emit n x y c g) = l_canvas_height g \<and>
   l_gameState (legacy_emit n x y c g) = l_gameState g \<and>
   l_score (legacy_emit n x y c g) = l_score g \<and>
   l_bestScore (legacy_emit n x y c g) = l_bestScore g \<and>
   l_frame (legacy_emit n x y c g) = l_frame g \<and>
   l_groundOffset (legacy_emit n x y c g) = l_groundOffset g \<and>
   l_bird (legacy_emit n x y c g) = l_bird g \<and>
   l_pipes (legacy_emit n x y c g) = l_pipes g \<and>
   l_clouds (legacy_emit n x y c g) = l_clouds g \<and>
   l_mountains (legacy_emit n x y c g) = l_mountains g \<and>
   l_storage_bestScore (legacy_emit n x y c g) = l_storage_bestScore g \<and>
   l_random_stream (legacy_emit n x y c g) = l_random_stream g"
  by (induction n arbitrary: g) simp_all

lemma legacy_emit_keeps [simp]:
  "l_canvas_width (legacy_emit n x y c g) = l_canvas_width g"
  "l_canvas_height (legacy_emit n x y c g) = l_canvas_height g"
  "l_gameState (legacy_emit n x y c g) = l_gameState g"
  "l_score (legacy_emit n x y c g) = l_score g"
  "l_bestScore (legacy_emit n x y c g) = l_bestScore g"
  "l_frame (legacy_emit n x y c g) = l_frame g"
  "l_groundOffset (legacy_emit n x y c g) = l_groundOffset g"
  "l_bird (legacy_emit n x y c g) = l_bird g"
  "l_pipes (legacy_emit n x y c g) = l_pipes g"
  "l_clouds (legacy_emit n x y c g) = l_clouds g"
  "l_mountains (legacy_emit n x y c g) = l_mountains g"
  "l_storage_bestScore (legacy_emit n x y c g) = l_storage_bestScore g"
  "l_random_stream (legacy_emit n x y c g) = l_random_stream g"
  using legacy_emit_keeps_all [of n x y c g] by simp_all

lemma legacy_gameOver_keeps [simp]:
  "l_canvas_width (legacy_gameOver g) = l_canvas_width g"
  "l_canvas_height (legacy_gameOver g) = l_canvas_height g"
  "l_score (legacy_gameOver g) = l_score g"
  "l_frame (legacy_gameOver g) = l_frame g"
  "l_particles (legacy_gameOver g) = l_particles g"
  "l_groundOffset (legacy_gameOver g) = l_groundOffset g"
  "l_bird (legacy_gameOver g) = l_bird g"
  "l_pipes (legacy_gameOver g) = l_pipes g"
  "l_clouds (legacy_gameOver g) = l_clouds g"
  "l_mountains (legacy_gameOver g) = l_mountains g"
  "l_random_stream (legacy_gameOver g) = l_random_stream g"
  "l_random_used (legacy_gameOver g) = l_random_used g"
  by (simp_all add: legacy_gameOver_def Let_def)

lemma legacy_Bird_jump_keeps [simp]:
  "l_canvas_width (legacy_Bird_jump g) = l_canvas_width g"
  "l_canvas_height (legacy_Bird_jump g) = l_canvas_height g"
  "l_gameState (legacy_Bird_jump g) = l_gameState g"
  "l_score (legacy_Bird_jump g) = l_score g"
  "l_bestScore (legacy_Bird_jump g) = l_bestScore g"
  "l_frame (legacy_Bird_jump g) = l_frame g"
  "l_groundOffset (legacy_Bird_jump g) = l_groundOffset g"
  "l_pipes (legacy_Bird_jump g) = l_pipes g"
  "l_clouds (legacy_Bird_jump g) = l_clouds g"
  "l_mountains (legacy_Bird_jump g) = l_mountains g"
  "l_storage_bestScore (legacy_Bird_jump g) = l_storage_bestScore g"
  "l_random_stream (legacy_Bird_jump g) = l_random_stream g"
  by (simp_all add: legacy_Bird_jump_def Let_def)

lemma legacy_Bird_integrate_keeps [simp]:
  "l_canvas_width (legacy_Bird_integrate g) = l_canvas_width g"
  "l_canvas_height (legacy_Bird_integrate g) = l_canvas_height g"
  "l_gameState (legacy_Bird_integrate g) = l_gameState g"
  "l_score (legacy_Bird_integrate g) = l_score g"
  "l_bestScore (legacy_Bird_integrate g) = l_bestScore g"
  "l_frame (legacy_Bird_integrate g) = l_frame g"
  "l_particles (legacy_Bird_integrate g) = l_particles g"
  "l_groundOffset (legacy_Bird_integrate g) = l_groundOffset g"
  "l_pipes (legacy_Bird_integrate g) = l_pipes g"
  "l_clouds (legacy_Bird_integrate g) = l_clouds g"
  "l_mountains (legacy_Bird_integrate g) = l_mountains g"
  "l_storage_bestScore (legacy_Bird_integrate g) = l_storage_bestScore g"
  "l_random_stream (legacy_Bird_integrate g) = l_random_stream g"
  "l_random_used (legacy_Bird_integrate g) = l_random_used g"
  by (simp_all add: legacy_Bird_integrate_def Let_def)

lemma legacy_Bird_ground_keeps [simp]:
  "l_canvas_width (legacy_Bird_ground g) = l_canvas_width g"
  "l_canvas_height (legacy_Bird_ground g) = l_canvas_height g"
  "l_score (legacy_Bird_ground g) = l_score g"
  "l_frame (legacy_Bird_ground g) = l_frame g"
  "l_groundOffset (legacy_Bird_ground g) = l_groundOffset g"
  "l_pipes (legacy_Bird_ground g) = l_pipes g"
  "l_clouds (legacy_Bird_ground g) = l_clouds g"
  "l_mountains (legacy_Bird_ground g) = l_mountains g"
  "l_random_stream (legacy_Bird_ground g) = l_random_stream g"
  by (simp_all add: legacy_Bird_ground_def Let_def)

lemma legacy_Bird_ceiling_keeps [simp]:
  "l_canvas_width (legacy_Bird_ceiling g) = l_canvas_width g"
  "l_canvas_height (legacy_Bird_ceiling g) = l_canvas_height g"
  "l_gameState (legacy_Bird_ceiling g) = l_gameState g"
  "l_score (legacy_Bird_ceiling g) = l_score g"
  "l_bestScore (legacy_Bird_ceiling g) = l_bestScore g"
  "l_frame (legacy_Bird_ceiling g) = l_frame g"
  "l_particles (legacy_Bird_ceiling g) = l_particles g"
  "l_groundOffset (legacy_Bird_ceiling g) = l_groundOffset g"
  "l_pipes (legacy_Bird_ceiling g) = l_pipes g"
  "l_clouds (legacy_Bird_ceiling g) = l_clouds g"
  "l_mountains (legacy_Bird_ceiling g) = l_mountains g"
  "l_storage_bestScore (legacy_Bird_ceiling g) = l_storage_bestScore g"
  "l_random_stream (legacy_Bird_ceiling g) = l_random_stream g"
  "l_random_used (legacy_Bird_ceiling g) = l_random_used g"
  by (simp_all add: legacy_Bird_ceiling_def)

lemma legacy_Bird_update_keeps [simp]:
  "l_canvas_width (legacy_Bird_update g) = l_canvas_width g"
  "l_canvas_height (legacy_Bird_update g) = l_canvas_height g"
  "l_score (legacy_Bird_update g) = l_score g"
  "l_frame (legacy_Bird_update g) = l_frame g"
  "l_groundOffset (legacy_Bird_update g) = l_groundOffset g"
  "l_pipes (legacy_Bird_update g) = l_pipes g"
  "l_clouds (legacy_Bird_update g) = l_clouds g"
  "l_mountains (legacy_Bird_update g) = l_mountains g"
  "l_random_stream (legacy_Bird_update g) = l_random_stream g"
  by (simp_all add: legacy_Bird_update_def)

lemma legacy_Bird_reset_keeps [simp]:
  "l_canvas_width (legacy_Bird_reset g) = l_canvas_width g"
  "l_canvas_height (legacy_Bird_reset g) = l_canvas_height g"
  "l_gameState (legacy_Bird_reset g) = l_gameState g"
  "l_score (legacy_Bird_reset g) = l_score g"
  "l_bestScore (legacy_Bird_reset g) = l_bestScore g"
  "l_frame (legacy_Bird_reset g) = l_frame g"
  "l_particles (legacy_Bird_reset g) = l_particles g"
  "l_groundOffset (legacy_Bird_reset g) = l_groundOffset g"
  "l_pipes (legacy_Bird_reset g) = l_pipes g"
  "l_clouds (legacy_Bird_reset g) = l_clouds g"
  "l_mountains (legacy_Bird_reset g) = l_mountains g"
  "l_storage_bestScore (legacy_Bird_reset g) = l_storage_bestScore g"
  "l_random_stream (legacy_Bird_reset g) = l_random_stream g"
  "l_random_used (legacy_Bird_reset g) = l_random_used g"
  by (simp_all add: legacy_Bird_reset_def)

lemma legacy_Pipe_update_keeps [simp]:
  "l_canvas_width (snd (legacy_Pipe_update p g)) = l_canvas_width g"
  "l_canvas_height (snd (legacy_Pipe_update p g)) = l_canvas_height g"
  "l_gameState (snd (legacy_Pipe_update p g)) = l_gameState g"
  "l_bestScore (snd (legacy_Pipe_update p g)) = l_bestScore g"
  "l_frame (snd (legacy_Pipe_update p g)) = l_frame g"
  "l_groundOffset (snd (legacy_Pipe_update p g)) = l_groundOffset g"
  "l_bird (snd (legacy_Pipe_update p g)) = l_bird g"
  "l_pipes (snd (legacy_Pipe_update p g)) = l_pipes g"
  "l_clouds (snd (legacy_Pipe_update p g)) = l_clouds g"
  "l_mountains (snd (legacy_Pipe_update p g)) = l_mountains g"
  "l_storage_bestScore (snd (legacy_Pipe_update p g)) = l_storage_bestScore g"
  "l_random_stream (snd (legacy_Pipe_update p g)) = l_random_stream g"
  by (simp_all add: legacy_Pipe_update_def Let_def)

lemma legacy_Pipe_collidesWith_keeps [simp]:
  "l_canvas_width (snd (legacy_Pipe_collidesWith p b g)) = l_canvas_width g"
  "l_canvas_height (snd (legacy_Pipe_collidesWith p b g)) = l_canvas_height g"
  "l_gameState (snd (legacy_Pipe_collidesWith p b g)) = l_gameState g"
  "l_score (snd (legacy_Pipe_collidesWith p b g)) = l_score g"
  "l_bestScore (snd (legacy_Pipe_collidesWith p b g)) = l_bestScore g"
  "l_frame (snd (legacy_Pipe_collidesWith p b g)) = l_frame g"
  "l_groundOffset (snd (legacy_Pipe_collidesWith p b g)) = l_groundOffset g"
  "l_bird (snd (legacy_Pipe_collidesWith p b g)) = l_bird g"
  "l_pipes (snd (legacy_Pipe_collidesWith p b g)) = l_pipes g"
  "l_clouds (snd (legacy_Pipe_collidesWith p b g)) = l_clouds g"
  "l_mountains (snd (legacy_Pipe_collidesWith p b g)) = l_mountains g"
  "l_storage_bestScore (snd (legacy_Pipe_collidesWith p b g)) = l_storage_bestScore g"
  "l_random_stream (snd (legacy_Pipe_collidesWith p b g)) = l_random_stream g"
  by (simp_all add: legacy_Pipe_collidesWith_def)

lemma legacy_pipe_step_keeps [simp]:
  "l_canvas_width (legacy_pipe_step i g) = l_canvas_width g"
  "l_canvas_height (legacy_pipe_step i g) = l_canvas_height g"
  "l_frame (legacy_pipe_step i g) = l_frame g"
  "l_groundOffset (legacy_pipe_step i g) = l_groundOffset g"
  "l_bird (legacy_pipe_step i g) = l_bird g"
  "l_clouds (legacy_pipe_step i g) = l_clouds g"
  "l_mountains (legacy_pipe_step i g) = l_mountains g"
  "l_random_stream (legacy_pipe_step i g) = l_random_stream g"
  by (simp_all add: legacy_pipe_step_def Let_def split_def)

lemma legacy_pipes_forEach_keeps_all:
  "l_canvas_width (legacy_pipes_forEach n i g) = l_canvas_width g \<and>
   l_canvas_height (legacy_pipes_forEach n i g) = l_canvas_height g \<and>
   l_frame (legacy_pipes_forEach n i g) = l_frame g \<and>
   l_groundOffset (legacy_pipes_forEach n i g) = l_groundOffset g \<and>
   l_bird (legacy_pipes_forEach n i g) = l_bird g \<and>
   l_clouds (legacy_pipes_forEach n i g) = l_clouds g \<and>
   l_mountains (legacy_pipes_forEach n i g) = l_mountains g \<and>
   l_random_stream (legacy_pipes_forEach n i g) = l_random_stream g"
  by (induction n arbitrary: i g) simp_all

lemma legacy_pipes_forEach_keeps [simp]:
  "l_canvas_width (legacy_pipes_forEach n i g) = l_canvas_width g"
  "l_canvas_height (legacy_pipes_forEach n i g) = l_canvas_height g"
  "l_frame (legacy_pipes_forEach n i g) = l_frame g"
  "l_groundOffset (legacy_pipes_forEach n i g) = l_groundOffset g"
  "l_bird (legacy_pipes_forEach n i g) = l_bird g"
  "l_clouds (legacy_pipes_forEach n i g) = l_clouds g"
  "l_mountains (legacy_pipes_forEach n i g) = l_mountains g"
  "l_random_stream (legacy_pipes_forEach n i g) = l_random_stream g"
  using legacy_pipes_forEach_keeps_all [of n i g] by simp_all

lemma legacy_Cloud_update_keeps [simp]:
  "l_canvas_width (snd (legacy_Cloud_update c g)) = l_canvas_width g"
  "l_canvas_height (snd (legacy_Cloud_update c g)) = l_canvas_height g"
  "l_gameState (snd (legacy_Cloud_update c g)) = l_gameState g"
  "l_score (snd (legacy_Cloud_update c g)) = l_score g"
  "l_bestScore (snd (legacy_Cloud_update c g)) = l_bestScore g"
  "l_frame (snd (legacy_Cloud_update c g)) = l_frame g"
  "l_particles (snd (legacy_Cloud_update c g)) = l_particles g"
  "l_groundOffset (snd (legacy_Cloud_update c g)) = l_groundOffset g"
  "l_bird (snd (legacy_Cloud_update c g)) = l_bird g"
  "l_pipes (snd (legacy_Cloud_update c g)) = l_pipes g"
  "l_clouds (snd (legacy_Cloud_update c g)) = l_clouds g"
  "l_mountains (snd (legacy_Cloud_update c g)) = l_mountains g"
  "l_storage_bestScore (snd (legacy_Cloud_update c g)) = l_storage_bestScore g"
  "l_random_stream (snd (legacy_Cloud_update c g)) = l_random_stream g"
  by (simp_all add: legacy_Cloud_update_def legacy_Math_random_def Let_def split_def)

lemma legacy_clouds_forEach_keeps_all:
  "l_canvas_width (snd (legacy_clouds_forEach cs g)) = l_canvas_width g \<and>
   l_canvas_height (snd (legacy_clouds_forEach cs g)) = l_canvas_height g \<and>
   l_gameState (snd (legacy_clouds_forEach cs g)) = l_gameState g \<and>
   l_score (snd (legacy_clouds_forEach cs g)) = l_score g \<and>
   l_bestScore (snd (legacy_clouds_forEach cs g)) = l_bestScore g \<and>
   l_frame (snd (legacy_clouds_forEach cs g)) = l_frame g \<and>
   l_particles (snd (legacy_clouds_forEach cs g)) = l_particles g \<and>
   l_groundOffset (snd (legacy_clouds_forEach cs g)) = l_groundOffset g \<and>
   l_bird (snd (legacy_clouds_forEach cs g)) = l_bird g \<and>
   l_pipes (snd (legacy_clouds_forEach cs g)) = l_pipes g \<and>
   l_clouds (snd (legacy_clouds_forEach cs g)) = l_clouds g \<and>
   l_mountains (snd (legacy_clouds_forEach cs g)) = l_mountains g \<and>
   l_storage_bestScore (snd (legacy_clouds_forEach cs g)) = l_storage_bestScore g \<and>
   l_random_stream (snd (legacy_clouds_forEach cs g)) = l_random_stream g"
  by (induction cs arbitrary: g) (simp_all add: split_def Let_def)

lemma legacy_clouds_forEach_keeps [simp]:
  "l_canvas_width (snd (legacy_clouds_forEach cs g)) = l_canvas_width g"
  "l_canvas_height (snd (legacy_clouds_forEach cs g)) = l_canvas_height g"
  "l_gameState (snd (legacy_clouds_forEach cs g)) = l_gameState g"
  "l_score (snd (legacy_clouds_forEach cs g)) = l_score g"
  "l_bestScore (snd (legacy_clouds_forEach cs g)) = l_bestScore g"
  "l_frame (snd (legacy_clouds_forEach cs g)) = l_frame g"
  "l_particles (snd (legacy_clouds_forEach cs g)) = l_particles g"
  "l_groundOffset (snd (legacy_clouds_forEach cs g)) = l_groundOffset g"
  "l_bird (snd (legacy_clouds_forEach cs g)) = l_bird g"
  "l_pipes (snd (legacy_clouds_forEach cs g)) = l_pipes g"
  "l_clouds (snd (legacy_clouds_forEach cs g)) = l_clouds g"
  "l_mountains (snd (legacy_clouds_forEach cs g)) = l_mountains g"
  "l_storage_bestScore (snd (legacy_clouds_forEach cs g)) = l_storage_bestScore g"
  "l_random_stream (snd (legacy_clouds_forEach cs g)) = l_random_stream g"
  using legacy_clouds_forEach_keeps_all [of cs g] by simp_all

lemma legacy_update_clouds_keeps [simp]:
  "l_canvas_width (legacy_update_clouds g) = l_canvas_width g"
  "l_canvas_height (legacy_update_clouds g) = l_canvas_height g"
  "l_gameState (legacy_update_clouds g) = l_gameState g"
  "l_score (legacy_update_clouds g) = l_score g"
  "l_bestScore (legacy_update_clouds g) = l_bestScore g"
  "l_frame (legacy_update_clouds g) = l_frame g"
  "l_particles (legacy_update_clouds g) = l_particles g"
  "l_groundOffset (legacy_update_clouds g) = l_groundOffset g"
  "l_bird (legacy_update_clouds g) = l_bird g"
  "l_pipes (legacy_update_clouds g) = l_pipes g"
  "l_mountains (legacy_update_clouds g) = l_mountains g"
  "l_storage_bestScore (legacy_update_clouds g) = l_storage_bestScore g"
  "l_random_stream (legacy_update_clouds g) = l_random_stream g"
  by (simp_all add: legacy_update_clouds_def split_def Let_def)

lemma legacy_update_mountains_keeps [simp]:
  "l_canvas_width (legacy_update_mountains g) = l_canvas_width g"
  "l_canvas_height (legacy_update_mountains g) = l_canvas_height g"
  "l_gameState (legacy_update_mountains g) = l_gameState g"
  "l_score (legacy_update_mountains g) = l_score g"
  "l_bestScore (legacy_update_mountains g) = l_bestScore g"
  "l_frame (legacy_update_mountains g) = l_frame g"
  "l_particles (legacy_update_mountains g) = l_particles g"
  "l_groundOffset (legacy_update_mountains g) = l_groundOffset g"
  "l_bird (legacy_update_mountains g) = l_bird g"
  "l_pipes (legacy_update_mountains g) = l_pipes g"
  "l_clouds (legacy_update_mountains g) = l_clouds g"
  "l_storage_bestScore (legacy_update_mountains g) = l_storage_bestScore g"
  "l_random_stream (legacy_update_mountains g) = l_random_stream g"
  "l_random_used (legacy_update_mountains g) = l_random_used g"
  by (simp_all add: legacy_update_mountains_def)

lemma legacy_spawn_keeps [simp]:
  "l_canvas_width (legacy_spawn g) = l_canvas_width g"
  "l_canvas_height (legacy_spawn g) = l_canvas_height g"
  "l_gameState (legacy_spawn g) = l_gameState g"
  "l_score (legacy_spawn g) = l_score g"
  "l_bestScore (legacy_spawn g) = l_bestScore g"
  "l_frame (legacy_spawn g) = l_frame g"
  "l_particles (legacy_spawn g) = l_particles g"
  "l_groundOffset (legacy_spawn g) = l_groundOffset g"
  "l_bird (legacy_spawn g) = l_bird g"
  "l_clouds (legacy_spawn g) = l_clouds g"
  "l_mountains (legacy_spawn g) = l_mountains g"
  "l_storage_bestScore (legacy_spawn g) = l_storage_bestScore g"
  "l_random_stream (legacy_spawn g) = l_random_stream g"
  by (simp_all add: legacy_spawn_def legacy_new_Pipe_def legacy_Math_random_def Let_def split_def)

lemma legacy_startGame_keeps [simp]:
  "l_canvas_width (legacy_startGame g) = l_canvas_width g"
  "l_canvas_height (legacy_startGame g) = l_canvas_height g"
  "l_bestScore (legacy_startGame g) = l_bestScore g"
  "l_frame (legacy_startGame g) = l_frame g"
  "l_particles (legacy_startGame g) = l_particles g"
  "l_groundOffset (legacy_startGame g) = l_groundOffset g"
  "l_clouds (legacy_startGame g) = l_clouds g"
  "l_mountains (legacy_startGame g) = l_mountains g"
  "l_storage_bestScore (legacy_startGame g) = l_storage_bestScore g"
  "l_random_stream (legacy_startGame g) = l_random_stream g"
  "l_random_used (legacy_startGame g) = l_random_used g"
  by (simp_all add: legacy_startGame_def)

lemma legacy_new_Cloud_keeps [simp]:
  "l_canvas_width (snd (legacy_new_Cloud layer g)) = l_canvas_width g"
  "l_canvas_height (snd (legacy_new_Cloud layer g)) = l_canvas_height g"
  "l_gameState (snd (legacy_new_Cloud layer g)) = l_gameState g"
  "l_score (snd (legacy_new_Cloud layer g)) = l_score g"
  "l_bestScore (snd (legacy_new_Cloud layer g)) = l_bestScore g"
  "l_frame (snd (legacy_new_Cloud layer g)) = l_frame g"
  "l_particles (snd (legacy_new_Cloud layer g)) = l_particles g"
  "l_groundOffset (snd (legacy_new_Cloud layer g)) = l_groundOffset g"
  "l_bird (snd (legacy_new_Cloud layer g)) = l_bird g"
  "l_pipes (snd (legacy_new_Cloud layer g)) = l_pipes g"
  "l_clouds (snd (legacy_new_Cloud layer g)) = l_clouds g"
  "l_mountains (snd (legacy_new_Cloud layer g)) = l_mountains g"
  "l_storage_bestScore (snd (legacy_new_Cloud layer g)) = l_storage_bestScore g"
  "l_random_stream (snd (legacy_new_Cloud layer g)) = l_random_stream g"
  by (simp_all add: legacy_new_Cloud_def legacy_Math_random_def Let_def split_def)

lemma legacy_new_Clouds_keeps_all:
  "l_canvas_width (legacy_new_Clouds n layer g) = l_canvas_width g \<and>
   l_canvas_height (legacy_new_Clouds n layer g) = l_canvas_height g \<and>
   l_gameState (legacy_new_Clouds n layer g) = l_gameState g \<and>
   l_score (legacy_new_Clouds n layer g) = l_score g \<and>
   l_bestScore (legacy_new_Clouds n layer g) = l_bestScore g \<and>
   l_frame (legacy_new_Clouds n layer g) = l_frame g \<and>
   l_particles (legacy_new_Clouds n layer g) = l_particles g \<and>
   l_groundOffset (legacy_new_Clouds n layer g) = l_groundOffset g \<and>
   l_bird (legacy_new_Clouds n layer g) = l_bird g \<and>
   l_pipes (legacy_new_Clouds n layer g) = l_pipes g \<and>
   l_mountains (legacy_new_Clouds n layer g) = l_mountains g \<and>
   l_storage_bestScore (legacy_new_Clouds n layer g) = l_storage_bestScore g \<and>
   l_random_stream (legacy_new_Clouds n layer g) = l_random_stream g"
  by (induction n arbitrary: g) (simp_all add: split_def Let_def)

lemma legacy_new_Clouds_keeps [simp]:
  "l_canvas_width (legacy_new_Clouds n layer g) = l_canvas_width g"
  "l_canvas_height (legacy_new_Clouds n layer g) = l_canvas_height g"
  "l_gameState (legacy_new_Clouds n layer g) = l_gameState g"
  "l_score (legacy_new_Clouds n layer g) = l_score g"
  "l_bestScore (legacy_new_Clouds n layer g) = l_bestScore g"
  "l_frame (legacy_new_Clouds n layer g) = l_frame g"
  "l_particles (legacy_new_Clouds n layer g) = l_particles g"
  "l_groundOffset (legacy_new_Clouds n layer g) = l_groundOffset g"
  "l_bird (legacy_new_Clouds n layer g) = l_bird g"
  "l_pipes (legacy_new_Clouds n layer g) = l_pipes g"
  "l_mountains (legacy_new_Clouds n layer g) = l_mountains g"
  "l_storage_bestScore (legacy_new_Clouds n layer g) = l_storage_bestScore g"
  "l_random_stream (legacy_new_Clouds n layer g) = l_random_stream g"
  using legacy_new_Clouds_keeps_all [of n layer g] by simp_all


subsection \<open>The state after loading\<close>

lemma load_fields [simp]:
  "CONFIG (load c item now rnd) = c"
  "gameState (load c item now rnd) = START"
  "score (load c item now rnd) = 0"
  "bestScore (load c item now rnd) = load_bestScore item"
  "difficultyMultiplier (load c item now rnd) = 1"
  "currentPipeGap (load c item now rnd) = cfg_pipe_gap c"
  "bird (load c item now rnd) = new_bird c (cfg_canvas_height c)"
  "pipes (load c item now rnd) = []"
  "particles (load c item now rnd) = []"
  "frame (load c item now rnd) = 0"
  "lastFrameTime (load c item now rnd) = NaN"
  "deltaTime (load c item now rnd) = NaN"
  "lastJumpTime (load c item now rnd) = 0"
  "canvas_width (load c item now rnd) = cfg_canvas_width c"
  "canvas_height (load c item now rnd) = cfg_canvas_height c"
  "storage_bestScore (load c item now rnd) = item"
  "random_stream (load c item now rnd) = rnd"
  by (simp_all add: load_def gameLoop_def clock_def Let_def)

lemma legacy_load_fields [simp]:
  "l_gameState (legacy_load item rnd) = START"
  "l_score (legacy_load item rnd) = 0"
  "l_bestScore (legacy_load item rnd) = legacy_load_bestScore item"
  "l_bird (legacy_load item rnd) = legacy_new_bird 600"
  "l_groundOffset (legacy_load item rnd) = 0"
  "l_pipes (legacy_load item rnd) = []"
  "l_particles (legacy_load item rnd) = []"
  "l_frame (legacy_load item rnd) = 0"
  "l_canvas_width (legacy_load item rnd) = 400"
  "l_canvas_height (legacy_load item rnd) = 600"
  "l_storage_bestScore (legacy_load item rnd) = item"
  "l_random_stream (legacy_load item rnd) = rnd"
  by (simp_all add: legacy_load_def legacy_gameLoop_def Let_def)

section \<open>Difficulty follows the score\<close>

lemma gameOver_gameState [simp]: "gameState (gameOver g) = GAME_OVER"
  by (simp add: gameOver_def Let_def)

lemma same_tuning_fields:
  assumes "same_tuning c c'"
  shows "cfg_difficulty_enabled c' = cfg_difficulty_enabled c"
    and "cfg_difficulty_speedIncreasePerScore c' = cfg_difficulty_speedIncreasePerScore c"
    and "cfg_difficulty_maxSpeedMultiplier c' = cfg_difficulty_maxSpeedMultiplier c"
    and "cfg_difficulty_gapDecreasePerScore c' = cfg_difficulty_gapDecreasePerScore c"
    and "cfg_difficulty_minGap c' = cfg_difficulty_minGap c"
    and "cfg_pipe_gap c' = cfg_pipe_gap c"
    and "cfg_physics_targetFPS c' = cfg_physics_targetFPS c"
proof -
  have e: "c' = c\<lparr>cfg_debug_showHitboxes := cfg_debug_showHitboxes c'\<rparr>"
    using assms by (simp add: same_tuning_def)
  show "cfg_difficulty_enabled c' = cfg_difficulty_enabled c" by (subst e) simp
  show "cfg_difficulty_speedIncreasePerScore c' = cfg_difficulty_speedIncreasePerScore c" by (subst e) simp
  show "cfg_difficulty_maxSpeedMultiplier c' = cfg_difficulty_maxSpeedMultiplier c" by (subst e) simp
  show "cfg_difficulty_gapDecreasePerScore c' = cfg_difficulty_gapDecreasePerScore c" by (subst e) simp
  show "cfg_difficulty_minGap c' = cfg_difficulty_minGap c" by (subst e) simp
  show "cfg_pipe_gap c' = cfg_pipe_gap c" by (subst e) simp
  show "cfg_physics_targetFPS c' = cfg_physics_targetFPS c" by (subst e) simp
qed

lemma follows_score_cong:
  "CONFIG g' = CONFIG g \<Longrightarrow> score g' = score g \<Longrightarrow>
   difficultyMultiplier g' = difficultyMultiplier g \<Longrightarrow> currentPipeGap g' = currentPipeGap g \<Longrightarrow>
   follows_score c g' = follows_score c g"
  by (simp add: follows_score_def)

lemma follows_score_updateDifficulty:
  "same_tuning c (CONFIG g) \<Longrightarrow>
   (\<not> cfg_difficulty_enabled c \<longrightarrow> difficultyMultiplier g = 1 \<and> currentPipeGap g = cfg_pipe_gap c) \<Longrightarrow>
   follows_score c (updateDifficulty g)"
  by (simp add: follows_score_def updateDifficulty_def same_tuning_fields)

lemma follows_score_emit [simp]:
  "follows_score c (emit n x y col g) = follows_score c g"
  by (rule follows_score_cong) simp_all

lemma follows_score_Pipe_update:
  assumes "follows_score c g"
  shows "follows_score c (snd (Pipe_update dt p g))"
proof -
  have "follows_score c (updateDifficulty (g\<lparr>score := score g + 1\<rparr>))"
    using assms by (intro follows_score_updateDifficulty) (auto simp: follows_score_def)
  then show ?thesis using assms by (simp add: Pipe_update_def Let_def)
qed

lemma follows_score_pipe_step:
  assumes "follows_score c g"
  shows "follows_score c (pipe_step i g)"
proof -
  let ?u = "Pipe_update (deltaTime g) (pipes g ! i) g"
  have 1: "follows_score c (snd ?u)" using assms by (rule follows_score_Pipe_update)
  have "follows_score c (pipe_step i g) = follows_score c (snd ?u)"
    by (rule follows_score_cong) (simp_all add: pipe_step_def Let_def split_def)
  with 1 show ?thesis by simp
qed

lemma follows_score_pipe_loop:
  "follows_score c g \<Longrightarrow> follows_score c (pipe_loop i g)"
  by (induction i arbitrary: g) (simp_all add: follows_score_pipe_step)


lemma follows_score_playing_tick:
  assumes "follows_score c g"
  shows "follows_score c (playing_tick g)"
proof -
  have 1: "\<And>f G. follows_score c (Bird_update (deltaTime g)
                      (spawn (g\<lparr>frame := f, groundOffset := G\<rparr>))) = follows_score c g"
    by (rule follows_score_cong) simp_all
  have 2: "\<And>h. follows_score c (update_particles h) = follows_score c h"
    by (rule follows_score_cong) simp_all
  show ?thesis
    using assms by (simp add: playing_tick_def Let_def 2 follows_score_pipe_loop 1)
qed

lemma follows_score_gameLoop:
  assumes "follows_score c g"
  shows "follows_score c (gameLoop t g)"
proof -
  let ?g1 = "update_mountains (update_clouds (clock t g))"
  have "follows_score c ?g1 = follows_score c g"
    by (rule follows_score_cong) simp_all
  with assms have "follows_score c ?g1" by simp
  then show ?thesis by (simp add: gameLoop_def Let_def follows_score_playing_tick)
qed

lemma follows_score_startGame:
  assumes "same_tuning c (CONFIG g)"
      and "1 \<le> cfg_difficulty_maxSpeedMultiplier c"
      and "cfg_difficulty_minGap c \<le> cfg_pipe_gap c"
  shows "follows_score c (startGame g)"
  using assms by (simp add: follows_score_def startGame_def same_tuning_fields)

lemma follows_score_Bird_jump:
  "follows_score c (Bird_jump g) = follows_score c g"
  by (rule follows_score_cong) simp_all

lemma follows_score_handleJump:
  assumes "follows_score c g"
      and "1 \<le> cfg_difficulty_maxSpeedMultiplier c"
      and "cfg_difficulty_minGap c \<le> cfg_pipe_gap c"
  shows "follows_score c (handleJump now g)"
proof -
  have t: "same_tuning c (CONFIG (g\<lparr>lastJumpTime := now\<rparr>))"
    using assms(1) by (simp add: follows_score_def)
  have s: "follows_score c (startGame (g\<lparr>lastJumpTime := now\<rparr>))"
    using t assms(2,3) by (rule follows_score_startGame)
  have k: "follows_score c (g\<lparr>lastJumpTime := now\<rparr>)"
    using assms(1) by (simp add: follows_score_def)
  show ?thesis
    using assms(1) s k by (simp add: handleJump_def Let_def follows_score_Bird_jump)
qed

lemma follows_score_pauseGame:
  "follows_score c (pauseGame now g) = follows_score c g"
  by (rule follows_score_cong) simp_all

lemma follows_score_keydown:
  assumes "follows_score c g"
      and "1 \<le> cfg_difficulty_maxSpeedMultiplier c"
      and "cfg_difficulty_minGap c \<le> cfg_pipe_gap c"
  shows "follows_score c (keydown k now g)"
proof (cases k)
  case Ctrl_KeyD
  have "same_tuning c (CONFIG g)" using assms(1) by (simp add: follows_score_def)
  then have "CONFIG g = c\<lparr>cfg_debug_showHitboxes := cfg_debug_showHitboxes (CONFIG g)\<rparr>"
    by (simp add: same_tuning_def)
  then have "same_tuning c ((CONFIG g)\<lparr>cfg_debug_showHitboxes := \<not> cfg_debug_showHitboxes (CONFIG g)\<rparr>)"
    unfolding same_tuning_def by (metis config.select_convs(25) config.surjective config.update_convs(25))
  with assms(1) Ctrl_KeyD show ?thesis by (simp add: keydown_def follows_score_def)
qed (use assms in \<open>simp_all add: keydown_def follows_score_handleJump follows_score_pauseGame\<close>)

lemma follows_score_handle:
  assumes "follows_score c g"
      and "1 \<le> cfg_difficulty_maxSpeedMultiplier c"
      and "cfg_difficulty_minGap c \<le> cfg_pipe_gap c"
  shows "follows_score c (handle e g)"
  using assms
  by (cases e) (simp_all add: follows_score_gameLoop follows_score_handleJump follows_score_keydown)

lemma follows_score_run:
  assumes "follows_score c g"
      and "1 \<le> cfg_difficulty_maxSpeedMultiplier c"
      and "cfg_difficulty_minGap c \<le> cfg_pipe_gap c"
  shows "follows_score c (run es g)"
  using assms(1)
proof (induction es arbitrary: g)
  case Nil
  then show ?case by simp
next
  case (Cons e es)
  have "follows_score c (handle e g)"
    using Cons.prems assms(2,3) by (rule follows_score_handle)
  then show ?case by (simp add: Cons.IH)
qed

lemma follows_score_load:
  assumes "1 \<le> cfg_difficulty_maxSpeedMultiplier c"
      and "cfg_difficulty_minGap c \<le> cfg_pipe_gap c"
  shows "follows_score c (load c item now rnd)"
  using assms by (simp add: follows_score_def same_tuning_def)


section \<open>Reading back the stored best score\<close>

lemma digitValue_char_of:
  "d < 10 \<Longrightarrow> digitValue (char_of (48 + d)) = Some (d::nat)"
  by (simp add: digitValue_def Let_def)

lemma isRadixDigit_char_of: "(d::nat) < 10 \<Longrightarrow> isRadixDigit 10 (char_of (48 + d))"
  by (simp add: isRadixDigit_def digitValue_char_of)

lemma natDigits_all: "list_all (isRadixDigit 10) (natDigits n)"
proof (induction n rule: natDigits.induct)
  case (1 n)
  show ?case
  proof (cases "n < 10")
    case True
    then show ?thesis by (subst natDigits.simps) (simp add: isRadixDigit_char_of)
  next
    case False
    then show ?thesis using 1 by (subst natDigits.simps) (simp add: isRadixDigit_char_of)
  qed
qed

lemma natDigits_nonempty: "natDigits n \<noteq> []"
  by (subst natDigits.simps) simp

lemma digitsValue_snoc: "digitsValue R (Z @ [c]) = digitsValue R Z * R + the (digitValue c)"
  by (simp add: digitsValue_def)

lemma digitsValue_natDigits: "digitsValue 10 (natDigits n) = n"
proof (induction n rule: natDigits.induct)
  case (1 n)
  show ?case
  proof (cases "n < 10")
    case True
    then show ?thesis by (subst natDigits.simps) (simp add: digitsValue_def digitValue_char_of)
  next
    case False
    then have "digitsValue 10 (natDigits (n div 10)) = n div 10" using 1 by simp
    with False show ?thesis
      by (subst natDigits.simps) (simp add: digitsValue_snoc digitValue_char_of)
  qed
qed

lemma hd_natDigits: "\<exists>d::nat. d < 10 \<and> hd (natDigits n) = char_of (48 + d)"
proof (induction n rule: natDigits.induct)
  case (1 n)
  show ?case
  proof (cases "n < 10")
    case True
    then show ?thesis by (subst natDigits.simps) auto
  next
    case False
    then show ?thesis using 1 natDigits_nonempty [of "n div 10"]
      by (subst natDigits.simps) simp
  qed
qed

lemma natDigits_no_prefix:
  "take 2 (natDigits n) \<noteq> ''0x''" "take 2 (natDigits n) \<noteq> ''0X''"
proof -
  have "\<not> isRadixDigit 10 CHR ''x''" "\<not> isRadixDigit 10 CHR ''X''"
    by (simp_all add: isRadixDigit_def digitValue_def Let_def)
  moreover have "list_all (isRadixDigit 10) (take 2 (natDigits n))"
    using natDigits_all [of n] by (simp add: list_all_iff) (meson in_set_takeD)
  ultimately show "take 2 (natDigits n) \<noteq> ''0x''" "take 2 (natDigits n) \<noteq> ''0X''"
    by auto
qed

lemma hd_natDigits_plain:
  "\<not> isWhiteSpace (hd (natDigits n))" "hd (natDigits n) \<noteq> CHR ''-''" "hd (natDigits n) \<noteq> CHR ''+''"
proof -
  obtain d :: nat where d: "d < 10" "hd (natDigits n) = char_of (48 + d)"
    using hd_natDigits by blast
  have r: "isRadixDigit 10 (hd (natDigits n))" using d by (simp add: isRadixDigit_char_of)
  have "\<not> isRadixDigit 10 CHR ''-''" "\<not> isRadixDigit 10 CHR ''+''"
    by (simp_all add: isRadixDigit_def digitValue_def Let_def)
  with r show "hd (natDigits n) \<noteq> CHR ''-''" "hd (natDigits n) \<noteq> CHR ''+''" by auto
  have "\<And>c. isWhiteSpace c \<Longrightarrow> \<not> isRadixDigit 10 c"
    by (auto simp add: isWhiteSpace_def isRadixDigit_def digitValue_def Let_def)
  with r show "\<not> isWhiteSpace (hd (natDigits n))" by auto
qed



lemma parseInt_natDigits: "parseInt (natDigits n) = Some (int n)"
proof -
  have 1: "dropWhile isWhiteSpace (natDigits n) = natDigits n"
    using hd_natDigits_plain(1) [of n] natDigits_nonempty [of n]
    by (cases "natDigits n") simp_all
  have 2: "takeWhile (isRadixDigit 10) (natDigits n) = natDigits n"
    using natDigits_all [of n] by (simp add: list_all_iff)
  show ?thesis
    by (simp add: parseInt_def Let_def 1 2 natDigits_no_prefix hd_natDigits_plain
                  natDigits_nonempty digitsValue_natDigits)
qed

lemma parseInt_Number_toString: "parseInt (Number_toString n) = Some n"
proof (cases "n < 0")
  case False
  then show ?thesis by (simp add: Number_toString_def parseInt_natDigits)
next
  case True
  have 2: "takeWhile (isRadixDigit 10) (natDigits (nat (- n))) = natDigits (nat (- n))"
    using natDigits_all [of "nat (- n)"] by (simp add: list_all_iff)
  have w: "\<not> isWhiteSpace CHR ''-''" by (simp add: isWhiteSpace_def)
  show ?thesis using True
    by (simp add: Number_toString_def parseInt_def Let_def w 2 natDigits_no_prefix
                  natDigits_nonempty digitsValue_natDigits)
qed

lemma load_bestScore_Number_toString: "load_bestScore (Some (Number_toString n)) = n"
  by (simp add: load_bestScore_def getItem_toString_def parseInt_Number_toString)

section \<open>Where the best score is written\<close>

lemma gameOver_bestScore: "bestScore (gameOver g) = max (bestScore g) (score g)"
  by (simp add: gameOver_def Let_def)

lemma gameOver_storage:
  "storage_bestScore (gameOver g) =
     (if bestScore g < score g then Some (Number_toString (score g)) else storage_bestScore g)"
  by (simp add: gameOver_def Let_def)

text \<open>
  Within one tick the best score is written only by a call of \<open>gameOver\<close>, with the
  score of the moment of the call.
\<close>

lemma writes_best_refl [simp]: "writes_best g g"
  by (simp add: writes_best_def)

lemma writes_best_trans:
  assumes "writes_best g h" and "writes_best h k"
  shows "writes_best g k"
proof -
  have s: "score g \<le> score h" "score h \<le> score k"
    using assms by (simp_all add: writes_best_def)
  consider
      (same) "gameState h = gameState g" "bestScore h = bestScore g"
             "storage_bestScore h = storage_bestScore g"
    | (over) "gameState h = GAME_OVER" "max (bestScore g) (score g) \<le> bestScore h"
             "bestScore h \<le> max (bestScore g) (score h)"
             "storage_bestScore h = (if bestScore g < bestScore h
                                     then Some (Number_toString (bestScore h))
                                     else storage_bestScore g)"
    using assms(1) unfolding writes_best_def by blast
  then show ?thesis
  proof cases
    case same
    consider
        (same') "gameState k = gameState h" "bestScore k = bestScore h"
                "storage_bestScore k = storage_bestScore h"
      | (over') "gameState k = GAME_OVER" "max (bestScore h) (score h) \<le> bestScore k"
                "bestScore k \<le> max (bestScore h) (score k)"
                "storage_bestScore k = (if bestScore h < bestScore k
                                        then Some (Number_toString (bestScore k))
                                        else storage_bestScore h)"
      using assms(2) unfolding writes_best_def by blast
    then show ?thesis
    proof cases
      case same'
      with same s show ?thesis by (simp add: writes_best_def)
    next
      case over'
      have "max (bestScore g) (score g) \<le> bestScore k"
        using over'(2) same(2) s(1) by simp
      with over' same s show ?thesis by (simp add: writes_best_def)
    qed
  next
    case over
    consider
        (same') "gameState k = gameState h" "bestScore k = bestScore h"
                "storage_bestScore k = storage_bestScore h"
      | (over') "gameState k = GAME_OVER" "max (bestScore h) (score h) \<le> bestScore k"
                "bestScore k \<le> max (bestScore h) (score k)"
                "storage_bestScore k = (if bestScore h < bestScore k
                                        then Some (Number_toString (bestScore k))
                                        else storage_bestScore h)"
      using assms(2) unfolding writes_best_def by blast
    then show ?thesis
    proof cases
      case same'
      have "bestScore k \<le> max (bestScore g) (score k)"
        using over(3) same'(2) s(2) by simp
      with over same' s show ?thesis by (simp add: writes_best_def)
    next
      case over'
      have 1: "max (bestScore g) (score g) \<le> bestScore k"
        using over(2) over'(2) by simp
      have 2: "bestScore k \<le> max (bestScore g) (score k)"
        using over(3) over'(3) s(2) by simp
      have 3: "bestScore g \<le> bestScore h" "bestScore h \<le> bestScore k"
        using over(2) over'(2) by simp_all
      have "storage_bestScore k = (if bestScore g < bestScore k
                                   then Some (Number_toString (bestScore k))
                                   else storage_bestScore g)"
      proof (cases "bestScore h < bestScore k")
        case True
        with 3 over'(4) show ?thesis by simp
      next
        case False
        with 3 have "bestScore k = bestScore h" by simp
        with over(4) over'(4) show ?thesis by simp
      qed
      with over'(1) 1 2 s show ?thesis by (simp add: writes_best_def)
    qed
  qed
qed

lemma writes_best_same:
  "score g \<le> score g' \<Longrightarrow> bestScore g' = bestScore g \<Longrightarrow>
   storage_bestScore g' = storage_bestScore g \<Longrightarrow>
   gameState g' = gameState g \<Longrightarrow> writes_best g g'"
  by (simp add: writes_best_def)

lemma writes_best_gameOver: "writes_best g (gameOver g)"
  by (simp add: writes_best_def gameOver_bestScore gameOver_storage)

lemma writes_best_Bird_ground: "writes_best g (Bird_ground g)"
proof -
  have 1: "writes_best g (g\<lparr>bird := b\<rparr>)" for b
    by (rule writes_best_same) simp_all
  have "writes_best g (emit n x y col (g\<lparr>bird := b\<rparr>))" for n x y col b
    by (rule writes_best_same) simp_all
  then have 2: "writes_best g (gameOver (emit n x y col (g\<lparr>bird := b\<rparr>)))" for n x y col b
    by (rule writes_best_trans) (rule writes_best_gameOver)
  show ?thesis by (simp add: Bird_ground_def Let_def 1 2)
qed

lemma writes_best_Bird_update: "writes_best g (Bird_update dt g)"
proof -
  have i: "writes_best g (Bird_integrate dt g)" by (rule writes_best_same) simp_all
  have gr: "writes_best (Bird_integrate dt g) (Bird_ground (Bird_integrate dt g))"
    by (rule writes_best_Bird_ground)
  have c: "writes_best (Bird_ground (Bird_integrate dt g)) (Bird_update dt g)"
    unfolding Bird_update_def by (rule writes_best_same) simp_all
  show ?thesis by (rule writes_best_trans [OF writes_best_trans [OF i gr] c])
qed

lemma writes_best_pipe_step: "writes_best g (pipe_step i g)"
proof -
  let ?u = "Pipe_update (deltaTime g) (pipes g ! i) g"
  let ?g2 = "(snd ?u)\<lparr>pipes := (pipes (snd ?u))[i := fst ?u]\<rparr>"
  let ?c = "Pipe_collidesWith (fst ?u) (bird ?g2) ?g2"
  let ?g4 = "if fst ?c then gameOver (snd ?c) else snd ?c"
  have s: "score g \<le> score (snd ?c)"
    by (simp add: Pipe_update_def Let_def updateDifficulty_def)
  have 1: "writes_best g (snd ?c)" by (rule writes_best_same [OF s]) simp_all
  have 2: "writes_best (snd ?c) ?g4" by (simp add: writes_best_gameOver)
  have 3: "writes_best ?g4 (pipe_step i g)"
    by (rule writes_best_same) (simp_all add: pipe_step_def Let_def split_def)
  show ?thesis by (rule writes_best_trans [OF writes_best_trans [OF 1 2] 3])
qed

lemma writes_best_pipe_loop: "writes_best g (pipe_loop i g)"
proof (induction i arbitrary: g)
  case 0
  show ?case by simp
next
  case (Suc i)
  show ?case using writes_best_trans [OF writes_best_pipe_step [of g i] Suc [of "pipe_step i g"]]
    by simp
qed

lemma writes_best_playing_tick: "writes_best g (playing_tick g)"
proof -
  have 5: "\<exists>f G. playing_tick g
             = update_particles
                 (pipe_loop (length (pipes (Bird_update (deltaTime g)
                                             (spawn (g\<lparr>frame := f, groundOffset := G\<rparr>)))))
                    (Bird_update (deltaTime g) (spawn (g\<lparr>frame := f, groundOffset := G\<rparr>))))"
    by (simp add: playing_tick_def Let_def) blast
  then obtain f G where 6: "playing_tick g
             = update_particles
                 (pipe_loop (length (pipes (Bird_update (deltaTime g)
                                             (spawn (g\<lparr>frame := f, groundOffset := G\<rparr>)))))
                    (Bird_update (deltaTime g) (spawn (g\<lparr>frame := f, groundOffset := G\<rparr>))))"
    by blast
  let ?g3 = "spawn (g\<lparr>frame := f, groundOffset := G\<rparr>)"
  let ?g4 = "Bird_update (deltaTime g) ?g3"
  let ?g5 = "pipe_loop (length (pipes ?g4)) ?g4"
  have 1: "writes_best g ?g3" by (rule writes_best_same) simp_all
  have 2: "writes_best ?g3 ?g4" by (rule writes_best_Bird_update)
  have 3: "writes_best ?g4 ?g5" by (rule writes_best_pipe_loop)
  have 4: "writes_best ?g5 (update_particles ?g5)" by (rule writes_best_same) simp_all
  have "writes_best g (update_particles ?g5)"
    by (rule writes_best_trans [OF writes_best_trans [OF writes_best_trans [OF 1 2] 3] 4])
  then show ?thesis by (simp only: 6)
qed

lemma writes_best_gameLoop: "writes_best g (gameLoop t g)"
proof -
  let ?g1 = "update_mountains (update_clouds (clock t g))"
  have 1: "writes_best g ?g1" by (rule writes_best_same) simp_all
  have 2: "writes_best ?g1 (gameLoop t g)"
    by (simp add: gameLoop_def Let_def writes_best_playing_tick)
  show ?thesis by (rule writes_best_trans [OF 1 2])
qed

lemma bestScore_keydown:
  "bestScore (keydown k now g) = bestScore g"
  "storage_bestScore (keydown k now g) = storage_bestScore g"
  by (cases k; simp add: keydown_def)+

lemma bestScore_gameLoop_mono: "bestScore g \<le> bestScore (gameLoop t g)"
  using writes_best_gameLoop [of g t] by (auto simp add: writes_best_def)

lemma bestScore_handle_mono: "bestScore g \<le> bestScore (handle e g)"
  by (cases e) (simp_all add: bestScore_gameLoop_mono bestScore_keydown)

lemma bestScore_run_mono: "bestScore g \<le> bestScore (run es g)"
proof (induction es arbitrary: g)
  case Nil
  show ?case by simp
next
  case (Cons e es)
  have "bestScore g \<le> bestScore (handle e g)" by (rule bestScore_handle_mono)
  also have "\<dots> \<le> bestScore (run es (handle e g))" by (rule Cons.IH)
  finally show ?case by simp
qed

lemma legacy_gameOver_number:
  "l_bestScore g = BestNumber b \<Longrightarrow> l_bestScore (legacy_gameOver g) = BestNumber (max b (l_score g))"
  by (simp add: legacy_gameOver_def Let_def score_gt_def)

section \<open>Arithmetic of numbers\<close>

lemma divide_by_NaN_iff [simp]: "divide_by a b = NaN \<longleftrightarrow> a = NaN"
  by (cases a) simp_all

lemma lt_NaN [simp]: "\<not> lt a NaN" "\<not> lt NaN a"
  by (cases a; simp)+

lemma le_NaN [simp]: "\<not> le a NaN" "\<not> le NaN a"
  by (cases a; simp)+

lemma add_NaN [simp]: "add a NaN = NaN" "add NaN a = NaN"
  by (cases a; simp)+

lemma sub_NaN [simp]: "sub a NaN = NaN" "sub NaN a = NaN"
  by (cases a; simp)+

lemma mul_NaN [simp]: "mul a NaN = NaN" "mul NaN a = NaN"
  by (cases a; simp)+

lemma Math_min_NaN [simp]: "Math_min a NaN = NaN" "Math_min NaN a = NaN"
  by (cases a; simp)+

lemma Math_max_NaN [simp]: "Math_max a NaN = NaN" "Math_max NaN a = NaN"
  by (cases a; simp)+

lemma normalized_simps [simp]:
  "normalized g NaN = NaN"
  "normalized g (Finite d) = Finite (d / (1000 / cfg_physics_targetFPS (CONFIG g)))"
  by (simp_all add: normalized_def)

lemma normalized_cong:
  "CONFIG g' = CONFIG g \<Longrightarrow> normalized g' dt = normalized g dt"
  by (simp add: normalized_def)

lemma not_NaN_iff: "a \<noteq> NaN \<longleftrightarrow> (\<exists>x. a = Finite x)"
  by (cases a) simp_all

lemma normalized_NaN_iff [simp]: "normalized g dt = NaN \<longleftrightarrow> dt = NaN"
  by (cases dt) simp_all

lemma normalized_nonneg:
  "0 \<le> cfg_physics_targetFPS (CONFIG g) \<Longrightarrow> \<not> lt dt (Finite 0) \<Longrightarrow>
   \<not> lt (normalized g dt) (Finite 0)"
  by (cases dt) (simp_all add: not_less zero_le_mult_iff)

section \<open>The clock and the counters of a tick\<close>

lemma clock_lastFrameTime [simp]: "lastFrameTime (clock t g) = t"
  by (simp add: clock_def Let_def)

lemma clock_deltaTime [simp]:
  "deltaTime (clock t g) = Math_min (sub t (lastFrameTime g)) (Finite 100)"
  by (simp add: clock_def Let_def)

lemma gameLoop_lastFrameTime: "lastFrameTime (gameLoop t g) = t"
  by (simp add: gameLoop_def Let_def)

lemma gameLoop_deltaTime:
  "deltaTime (gameLoop t g) = Math_min (sub t (lastFrameTime g)) (Finite 100)"
  by (simp add: gameLoop_def Let_def)

lemma gameLoop_frame:
  "frame (gameLoop t g) = (if gameState g = PLAYING then frame g + 1 else frame g)"
  by (simp add: gameLoop_def playing_tick_def Let_def)

lemma gameLoop_groundOffset:
  "groundOffset (gameLoop t g) =
     (if gameState g = PLAYING
      then add (groundOffset g)
               (mul (Finite (cfg_ground_scrollSpeed (CONFIG g)))
                    (normalized g (Math_min (sub t (lastFrameTime g)) (Finite 100))))
      else groundOffset g)"
  by (simp add: gameLoop_def playing_tick_def Let_def normalized_def)

lemma normalized_reference_frame:
  "0 < cfg_physics_targetFPS (CONFIG g) \<Longrightarrow>
   normalized g (Finite (1000 / cfg_physics_targetFPS (CONFIG g))) = Finite 1"
  by simp

section \<open>The bird: integration, boundaries and the velocity bound\<close>

lemma bird_bounded_cong:
  "CONFIG g' = CONFIG g \<Longrightarrow> bird g' = bird g \<Longrightarrow> bird_bounded c g' = bird_bounded c g"
  by (simp add: bird_bounded_def)

lemma Bird_integrate_velocity:
  "bird_velocity (bird (Bird_integrate dt g))
     = Math_min (add (bird_velocity (bird g)) (mul (Finite (bird_gravity (bird g))) (normalized g dt)))
                (Finite (bird_terminalVelocity (bird g)))"
  by (simp add: Bird_integrate_def Let_def)

lemma Bird_integrate_y:
  "bird_y (bird (Bird_integrate dt g))
     = add (bird_y (bird g)) (mul (bird_velocity (bird (Bird_integrate dt g))) (normalized g dt))"
  by (simp add: Bird_integrate_def Let_def)

lemma Bird_integrate_rotation:
  "bird_rotation (bird (Bird_integrate dt g))
     = add (bird_rotation (bird g))
           (mul (sub (Math_min (Math_max (mul (bird_velocity (bird (Bird_integrate dt g))) (Finite 4))
                                         (Finite (- 30)))
                               (Finite 90))
                     (bird_rotation (bird g)))
                (Finite (cfg_physics_rotationEasing (CONFIG g))))"
  by (simp add: Bird_integrate_def Let_def)

lemma Bird_integrate_consts [simp]:
  "bird_x (bird (Bird_integrate dt g)) = bird_x (bird g)"
  "bird_width (bird (Bird_integrate dt g)) = bird_width (bird g)"
  "bird_height (bird (Bird_integrate dt g)) = bird_height (bird g)"
  "bird_gravity (bird (Bird_integrate dt g)) = bird_gravity (bird g)"
  "bird_jumpStrength (bird (Bird_integrate dt g)) = bird_jumpStrength (bird g)"
  "bird_terminalVelocity (bird (Bird_integrate dt g)) = bird_terminalVelocity (bird g)"
  by (simp_all add: Bird_integrate_def Let_def)

lemma Bird_ground_consts [simp]:
  "bird_x (bird (Bird_ground g)) = bird_x (bird g)"
  "bird_width (bird (Bird_ground g)) = bird_width (bird g)"
  "bird_height (bird (Bird_ground g)) = bird_height (bird g)"
  "bird_gravity (bird (Bird_ground g)) = bird_gravity (bird g)"
  "bird_jumpStrength (bird (Bird_ground g)) = bird_jumpStrength (bird g)"
  "bird_terminalVelocity (bird (Bird_ground g)) = bird_terminalVelocity (bird g)"
  by (simp_all add: Bird_ground_def Let_def)

lemma Bird_ceiling_consts [simp]:
  "bird_x (bird (Bird_ceiling g)) = bird_x (bird g)"
  "bird_width (bird (Bird_ceiling g)) = bird_width (bird g)"
  "bird_height (bird (Bird_ceiling g)) = bird_height (bird g)"
  "bird_gravity (bird (Bird_ceiling g)) = bird_gravity (bird g)"
  "bird_jumpStrength (bird (Bird_ceiling g)) = bird_jumpStrength (bird g)"
  "bird_terminalVelocity (bird (Bird_ceiling g)) = bird_terminalVelocity (bird g)"
  by (simp_all add: Bird_ceiling_def)

lemma Bird_update_consts [simp]:
  "bird_x (bird (Bird_update dt g)) = bird_x (bird g)"
  "bird_width (bird (Bird_update dt g)) = bird_width (bird g)"
  "bird_height (bird (Bird_update dt g)) = bird_height (bird g)"
  "bird_gravity (bird (Bird_update dt g)) = bird_gravity (bird g)"
  "bird_jumpStrength (bird (Bird_update dt g)) = bird_jumpStrength (bird g)"
  "bird_terminalVelocity (bird (Bird_update dt g)) = bird_terminalVelocity (bird g)"
  by (simp_all add: Bird_update_def)

lemma groundLine_cong:
  "canvas_height g' = canvas_height g \<Longrightarrow> CONFIG g' = CONFIG g \<Longrightarrow> groundLine g' = groundLine g"
  by (simp add: groundLine_def)

lemma Bird_ground_velocity:
  "bird_velocity (bird (Bird_ground g))
     = (if lt (Finite (groundLine g)) (add (bird_y (bird g)) (Finite (bird_height (bird g))))
        then Finite 0 else bird_velocity (bird g))"
  by (simp add: Bird_ground_def Let_def)

lemma Bird_ground_y:
  "bird_y (bird (Bird_ground g))
     = (if lt (Finite (groundLine g)) (add (bird_y (bird g)) (Finite (bird_height (bird g))))
        then Finite (groundLine g - bird_height (bird g)) else bird_y (bird g))"
  by (simp add: Bird_ground_def Let_def)

lemma Bird_ceiling_velocity:
  "bird_velocity (bird (Bird_ceiling g))
     = (if lt (bird_y (bird g)) (Finite 0) then Finite 0 else bird_velocity (bird g))"
  by (simp add: Bird_ceiling_def)

lemma Bird_ceiling_y:
  "bird_y (bird (Bird_ceiling g))
     = (if lt (bird_y (bird g)) (Finite 0) then Finite 0 else bird_y (bird g))"
  by (simp add: Bird_ceiling_def)

lemma bird_bounded_Bird_update:
  assumes "bird_bounded c g"
      and "0 \<le> cfg_bird_gravity c"
      and "cfg_bird_jumpStrength c \<le> 0"
      and "cfg_bird_jumpStrength c \<le> cfg_bird_terminalVelocity c"
      and "\<not> lt (normalized g dt) (Finite 0)"
  shows "bird_bounded c (Bird_update dt g)"
proof -
  have "\<not> lt (bird_velocity (bird (Bird_integrate dt g))) (Finite (cfg_bird_jumpStrength c))"
  proof (cases "bird_velocity (bird g)")
    case NaN
    then show ?thesis by (simp add: Bird_integrate_velocity)
  next
    case (Finite v)
    show ?thesis
    proof (cases "normalized g dt")
      case NaN
      then show ?thesis by (simp add: Bird_integrate_velocity)
    next
      case n: (Finite n)
      have "0 \<le> bird_gravity (bird g) * n"
        using assms(1,2,5) n by (simp add: bird_bounded_def)
      then show ?thesis
        using assms(1,4) Finite n
        by (simp add: Bird_integrate_velocity bird_bounded_def not_less)
    qed
  qed
  then have "\<not> lt (bird_velocity (bird (Bird_update dt g))) (Finite (cfg_bird_jumpStrength c))"
    using assms(3)
    by (simp add: Bird_update_def Bird_ceiling_velocity Bird_ground_velocity)
  with assms(1) show ?thesis by (simp add: bird_bounded_def)
qed

lemma playing_tick_bird:
  "\<exists>f G. bird (playing_tick g)
           = bird (Bird_update (deltaTime g) (spawn (g\<lparr>frame := f, groundOffset := G\<rparr>)))"
  by (simp add: playing_tick_def Let_def) blast

lemma bird_bounded_playing_tick:
  assumes "bird_bounded c g"
      and "0 \<le> cfg_bird_gravity c"
      and "cfg_bird_jumpStrength c \<le> 0"
      and "cfg_bird_jumpStrength c \<le> cfg_bird_terminalVelocity c"
      and "\<not> lt (normalized g (deltaTime g)) (Finite 0)"
  shows "bird_bounded c (playing_tick g)"
proof -
  have b: "bird_bounded c (Bird_update (deltaTime g) (spawn (g\<lparr>frame := f, groundOffset := G\<rparr>)))"
    for f G
  proof -
    let ?g3 = "spawn (g\<lparr>frame := f, groundOffset := G\<rparr>)"
    have a: "bird_bounded c ?g3"
      using assms(1) by (subst bird_bounded_cong [where g = g]) simp_all
    have n: "normalized ?g3 (deltaTime g) = normalized g (deltaTime g)"
      by (rule normalized_cong) simp
    show ?thesis
      using a assms(2,3,4) by (rule bird_bounded_Bird_update) (simp add: n assms(5))
  qed
  obtain f G where e: "bird (playing_tick g)
      = bird (Bird_update (deltaTime g) (spawn (g\<lparr>frame := f, groundOffset := G\<rparr>)))"
    using playing_tick_bird by blast
  have "bird_bounded c (playing_tick g)
          = bird_bounded c (Bird_update (deltaTime g) (spawn (g\<lparr>frame := f, groundOffset := G\<rparr>)))"
    by (simp add: bird_bounded_def e)
  with b show ?thesis by simp
qed

lemma bird_bounded_gameLoop:
  assumes "bird_bounded c g"
      and "0 \<le> cfg_bird_gravity c"
      and "cfg_bird_jumpStrength c \<le> 0"
      and "cfg_bird_jumpStrength c \<le> cfg_bird_terminalVelocity c"
      and "0 \<le> cfg_physics_targetFPS c"
      and "\<not> lt t (lastFrameTime g)"
  shows "bird_bounded c (gameLoop t g)"
proof -
  let ?g1 = "update_mountains (update_clouds (clock t g))"
  have a: "bird_bounded c ?g1"
    using assms(1) by (subst bird_bounded_cong [where g = g]) simp_all
  have "\<not> lt (deltaTime ?g1) (Finite 0)"
    using assms(6) by (cases t; cases "lastFrameTime g") simp_all
  moreover have "same_tuning c (CONFIG g)"
    using assms(1) by (simp add: bird_bounded_def)
  then have "0 \<le> cfg_physics_targetFPS (CONFIG ?g1)"
    using assms(5) by (simp add: same_tuning_fields(7))
  ultimately have "\<not> lt (normalized ?g1 (deltaTime ?g1)) (Finite 0)"
    by (intro normalized_nonneg)
  with a assms(2,3,4) have "bird_bounded c (playing_tick ?g1)"
    by (intro bird_bounded_playing_tick)
  with a show ?thesis by (simp add: gameLoop_def Let_def)
qed

lemma Bird_jump_velocity [simp]:
  "bird_velocity (bird (Bird_jump g)) = Finite (bird_jumpStrength (bird g))"
  by (simp add: Bird_jump_def Let_def)

lemma Bird_jump_bird:
  "bird (Bird_jump g) = (bird g)\<lparr>bird_velocity := Finite (bird_jumpStrength (bird g))\<rparr>"
  by (simp add: Bird_jump_def Let_def)

lemma Bird_reset_bird:
  "bird (Bird_reset g) = (bird g)\<lparr> bird_y := Finite (canvas_height g / 2), bird_velocity := Finite 0,
                                    bird_rotation := Finite 0, bird_wingFrame := Finite 0 \<rparr>"
  by (simp add: Bird_reset_def)

lemma startGame_bird:
  "bird (startGame g) = (bird g)\<lparr> bird_y := Finite (canvas_height g / 2), bird_velocity := Finite 0,
                                   bird_rotation := Finite 0, bird_wingFrame := Finite 0 \<rparr>"
  by (simp add: startGame_def Bird_reset_def)

lemma bird_bounded_handleJump:
  assumes "bird_bounded c g" and "cfg_bird_jumpStrength c \<le> 0"
  shows "bird_bounded c (handleJump now g)"
  using assms
  by (simp add: handleJump_def Let_def bird_bounded_def Bird_jump_bird startGame_bird)

lemma bird_bounded_pauseGame: "bird_bounded c (pauseGame now g) = bird_bounded c g"
  by (rule bird_bounded_cong) simp_all

lemma same_tuning_toggle:
  assumes "same_tuning c c'"
  shows "same_tuning c (c'\<lparr>cfg_debug_showHitboxes := b\<rparr>)"
proof -
  have "c' = c\<lparr>cfg_debug_showHitboxes := cfg_debug_showHitboxes c'\<rparr>"
    using assms by (simp add: same_tuning_def)
  then have "c'\<lparr>cfg_debug_showHitboxes := b\<rparr> = c\<lparr>cfg_debug_showHitboxes := b\<rparr>"
    by (metis config.update_convs(25) config.surjective)
  then show ?thesis by (simp add: same_tuning_def)
qed

lemma bird_bounded_keydown:
  assumes "bird_bounded c g" and "cfg_bird_jumpStrength c \<le> 0"
  shows "bird_bounded c (keydown k now g)"
proof (cases k)
  case Ctrl_KeyD
  with assms(1) show ?thesis by (simp add: keydown_def bird_bounded_def same_tuning_toggle)
qed (use assms in \<open>simp_all add: keydown_def bird_bounded_handleJump bird_bounded_pauseGame\<close>)

lemma bird_bounded_run:
  assumes "0 \<le> cfg_bird_gravity c"
      and "cfg_bird_jumpStrength c \<le> 0"
      and "cfg_bird_jumpStrength c \<le> cfg_bird_terminalVelocity c"
      and "0 \<le> cfg_physics_targetFPS c"
  shows "bird_bounded c g \<Longrightarrow> monotonic es g \<Longrightarrow> bird_bounded c (run es g)"
proof (induction es arbitrary: g)
  case Nil
  then show ?case by simp
next
  case (Cons e es)
  have "bird_bounded c (handle e g)"
  proof (cases e)
    case (AnimationFrame t)
    with Cons.prems(2) have "\<not> lt (Finite t) (lastFrameTime g)" by simp
    with Cons.prems(1) assms AnimationFrame show ?thesis
      by (simp add: bird_bounded_gameLoop)
  qed (use Cons.prems(1) assms(2) in \<open>simp_all add: bird_bounded_handleJump bird_bounded_keydown\<close>)
  moreover have "monotonic es (handle e g)" using Cons.prems(2) by simp
  ultimately show ?case by (simp add: Cons.IH)
qed

lemma bird_bounded_load:
  "cfg_bird_jumpStrength c \<le> 0 \<Longrightarrow> bird_bounded c (load c item now rnd)"
  by (simp add: bird_bounded_def same_tuning_def new_bird_def)


lemma bird_numeric_cong: "bird g' = bird g \<Longrightarrow> bird_numeric g' = bird_numeric g"
  by (simp add: bird_numeric_def)

lemma bird_numeric_Bird_update:
  assumes "bird_numeric g" and "dt \<noteq> NaN"
  shows "bird_numeric (Bird_update dt g)"
proof -
  obtain v where v: "bird_velocity (bird g) = Finite v"
    using assms(1) by (auto simp add: bird_numeric_def not_NaN_iff)
  obtain d where d: "dt = Finite d"
    using assms(2) by (auto simp add: not_NaN_iff)
  have "bird_velocity (bird (Bird_integrate dt g)) \<noteq> NaN"
    using v d by (simp add: Bird_integrate_velocity)
  then show ?thesis
    by (simp add: bird_numeric_def Bird_update_def Bird_ceiling_velocity Bird_ground_velocity)
qed

lemma bird_numeric_gameLoop:
  assumes "bird_numeric g" and "gameState g \<noteq> PLAYING \<or> lastFrameTime g \<noteq> NaN"
  shows "bird_numeric (gameLoop (Finite t) g)"
proof (cases "gameState g = PLAYING")
  case False
  have "bird (gameLoop (Finite t) g) = bird g"
    using False by (simp add: gameLoop_def Let_def)
  with assms(1) show ?thesis by (simp add: bird_numeric_def)
next
  case True
  then obtain l where l: "lastFrameTime g = Finite l"
    using assms(2) by (auto simp add: not_NaN_iff)
  let ?g1 = "update_mountains (update_clouds (clock (Finite t) g))"
  have d: "deltaTime ?g1 \<noteq> NaN" using l by simp
  have b: "bird_numeric (Bird_update (deltaTime ?g1) (spawn (?g1\<lparr>frame := f, groundOffset := G\<rparr>)))"
    for f G
  proof (rule bird_numeric_Bird_update)
    show "bird_numeric (spawn (?g1\<lparr>frame := f, groundOffset := G\<rparr>))"
      using assms(1) by (subst bird_numeric_cong [where g = g]) simp_all
    show "deltaTime ?g1 \<noteq> NaN" by (rule d)
  qed
  obtain f G where e: "bird (playing_tick ?g1)
      = bird (Bird_update (deltaTime ?g1) (spawn (?g1\<lparr>frame := f, groundOffset := G\<rparr>)))"
    using playing_tick_bird [of ?g1] by blast
  have "bird_numeric (playing_tick ?g1)"
    using b by (simp add: bird_numeric_def e)
  with True show ?thesis by (simp add: gameLoop_def Let_def)
qed

lemma bird_numeric_handleJump: "bird_numeric g \<Longrightarrow> bird_numeric (handleJump now g)"
  by (simp add: handleJump_def Let_def bird_numeric_def Bird_jump_bird startGame_bird)

lemma bird_numeric_keydown: "bird_numeric g \<Longrightarrow> bird_numeric (keydown k now g)"
  by (cases k) (simp_all add: keydown_def bird_numeric_handleJump,
                simp_all add: bird_numeric_def pauseGame_def)

lemma bird_numeric_run:
  "bird_numeric g \<Longrightarrow> timed es g \<Longrightarrow> bird_numeric (run es g)"
proof (induction es arbitrary: g)
  case Nil
  then show ?case by simp
next
  case (Cons e es)
  have "bird_numeric (handle e g)"
  proof (cases e)
    case (AnimationFrame t)
    with Cons.prems show ?thesis by (simp add: bird_numeric_gameLoop)
  qed (use Cons.prems(1) in \<open>simp_all add: bird_numeric_handleJump bird_numeric_keydown\<close>)
  moreover have "timed es (handle e g)" using Cons.prems(2) by simp
  ultimately show ?case by (simp add: Cons.IH)
qed

lemma bird_numeric_load: "bird_numeric (load c item now rnd)"
  by (simp add: bird_numeric_def new_bird_def)
section \<open>Pipes: one update, and the loop of a tick\<close>

lemma Pipe_advance_fields [simp]:
  "pipe_x (Pipe_advance nd p) = sub (pipe_x p) (mul (Finite (pipe_speed p)) nd)"
  "pipe_width (Pipe_advance nd p) = pipe_width p"
  "pipe_scored (Pipe_advance nd p) = pipe_scored p"
  "pipe_speed (Pipe_advance nd p) = pipe_speed p"
  "pipe_gap (Pipe_advance nd p) = pipe_gap p"
  "pipe_topHeight (Pipe_advance nd p) = pipe_topHeight p"
  by (simp_all add: Pipe_advance_def)

lemma right_edge_scored [simp]: "right_edge (p\<lparr>pipe_scored := b\<rparr>) = right_edge p"
  by (simp add: right_edge_def)

lemma Pipe_update_fst:
  "fst (Pipe_update dt p g) =
     (Pipe_advance (normalized g dt) p)
       \<lparr>pipe_scored := pipe_scored p
                        \<or> lt (right_edge (Pipe_advance (normalized g dt) p))
                              (Finite (bird_x (bird g)))\<rparr>"
proof (cases "pipe_scored p")
  case True
  have "q\<lparr>pipe_scored := True\<rparr> = q" if "pipe_scored q" for q :: Pipe
    using that by simp
  then have "(Pipe_advance (normalized g dt) p)\<lparr>pipe_scored := True\<rparr>
               = Pipe_advance (normalized g dt) p"
    using True by simp
  with True show ?thesis by (simp add: Pipe_update_def Let_def)
next
  case False
  have "q\<lparr>pipe_scored := False\<rparr> = q" if "\<not> pipe_scored q" for q :: Pipe
    using that by simp
  then have "(Pipe_advance (normalized g dt) p)\<lparr>pipe_scored := False\<rparr>
               = Pipe_advance (normalized g dt) p"
    using False by simp
  with False show ?thesis by (simp add: Pipe_update_def Let_def right_edge_def)
qed

lemma Pipe_update_score:
  "score (snd (Pipe_update dt p g)) =
     score g + (if \<not> pipe_scored p
                   \<and> lt (right_edge (Pipe_advance (normalized g dt) p))
                         (Finite (bird_x (bird g)))
                then 1 else 0)"
  by (simp add: Pipe_update_def Let_def right_edge_def updateDifficulty_def)

lemma Pipe_update_cong:
  "CONFIG g' = CONFIG g \<Longrightarrow> bird g' = bird g \<Longrightarrow>
   fst (Pipe_update dt p g') = fst (Pipe_update dt p g)"
  by (simp add: Pipe_update_fst normalized_def)

lemma right_edge_Pipe_update:
  "right_edge (fst (Pipe_update dt p g)) = right_edge (Pipe_advance (normalized g dt) p)"
  by (simp add: Pipe_update_fst)

lemma splice1_update: "splice1 i (xs[i := v]) = take i xs @ drop (Suc i) xs"
  by (simp add: splice1_def)

lemma drop_update_same: "i < length xs \<Longrightarrow> drop i (xs[i := v]) = v # drop (Suc i) xs"
  by (simp add: upd_conv_take_nth_drop)

lemma pipe_step_pipes:
  "pipes (pipe_step i g) =
     (let p = fst (Pipe_update (deltaTime g) (pipes g ! i) g)
      in if lt (right_edge p) (Finite 0) then take i (pipes g) @ drop (Suc i) (pipes g)
         else (pipes g)[i := p])"
  by (simp add: pipe_step_def Let_def split_def right_edge_def splice1_update)

lemma pipe_loop_pipes:
  "i \<le> length (pipes g) \<Longrightarrow>
   pipes (pipe_loop i g) =
     filter (\<lambda>p. \<not> lt (right_edge p) (Finite 0))
            (map (\<lambda>p. fst (Pipe_update (deltaTime g) p g)) (take i (pipes g)))
     @ drop i (pipes g)"
proof (induction i arbitrary: g)
  case 0
  then show ?case by simp
next
  case (Suc i)
  let ?g' = "pipe_step i g"
  let ?U = "\<lambda>p. fst (Pipe_update (deltaTime g) p g)"
  let ?p = "?U (pipes g ! i)"
  have i: "i < length (pipes g)" using Suc.prems by simp
  have U: "(\<lambda>p. fst (Pipe_update (deltaTime ?g') p ?g')) = ?U"
    by (rule ext) (simp add: Pipe_update_fst normalized_def)
  have t: "take i (pipes ?g') = take i (pipes g)"
    using i by (simp add: pipe_step_pipes Let_def)
  have d: "drop i (pipes ?g') = (if lt (right_edge ?p) (Finite 0) then [] else [?p]) @ drop (Suc i) (pipes g)"
  proof (cases "lt (right_edge ?p) (Finite 0)")
    case True
    then show ?thesis using i by (simp add: pipe_step_pipes Let_def)
  next
    case False
    have "drop i ((pipes g)[i := ?p]) = ?p # drop (Suc i) (pipes g)"
      using i by (rule drop_update_same)
    with False show ?thesis by (simp add: pipe_step_pipes Let_def)
  qed
  have l: "i \<le> length (pipes ?g')"
    using i by (auto simp add: pipe_step_pipes Let_def)
  have "pipes (pipe_loop (Suc i) g) = pipes (pipe_loop i ?g')" by simp
  also have "\<dots> = filter (\<lambda>p. \<not> lt (right_edge p) (Finite 0)) (map ?U (take i (pipes g)))
                     @ (if lt (right_edge ?p) (Finite 0) then [] else [?p]) @ drop (Suc i) (pipes g)"
    using Suc.IH [OF l] by (simp only: U t d)
  also have "\<dots> = filter (\<lambda>p. \<not> lt (right_edge p) (Finite 0)) (map ?U (take (Suc i) (pipes g)))
                     @ drop (Suc i) (pipes g)"
    using i by (simp add: take_Suc_conv_app_nth)
  finally show ?case .
qed

lemma spawn_pipes:
  "pipes (spawn g) =
     pipes g @ (if frame g mod cfg_pipe_spawnInterval (CONFIG g) = 0 then [fst (new_Pipe g)] else [])"
  by (simp add: spawn_def split_def Let_def new_Pipe_def Math_random_def)

lemma playing_tick_pipes:
  "pipes (playing_tick g) =
     filter (\<lambda>p. \<not> lt (right_edge p) (Finite 0))
       (map (\<lambda>p. fst (Pipe_update (deltaTime g) p g))
            (pipes (spawn (g\<lparr>frame := frame g + 1\<rparr>))))"
proof -
  have U: "(\<lambda>p. fst (Pipe_update (deltaTime g) p (Bird_update d (spawn (g\<lparr>frame := f, groundOffset := G\<rparr>)))))
             = (\<lambda>p. fst (Pipe_update (deltaTime g) p g))" for d f G
    by (rule ext) (simp add: Pipe_update_fst normalized_def)
  have s: "pipes (spawn (g\<lparr>frame := f, groundOffset := G\<rparr>)) = pipes (spawn (g\<lparr>frame := f\<rparr>))" for f G
    by (simp add: spawn_pipes new_Pipe_def Math_random_def split_def Let_def)
  show ?thesis
    by (simp add: playing_tick_def Let_def pipe_loop_pipes U s)
qed

section \<open>Pipes: the whole tick, and the ticks of a life\<close>

lemma new_Pipe_frame: "fst (new_Pipe (g\<lparr>frame := n\<rparr>)) = fst (new_Pipe g)"
  by (simp add: new_Pipe_def Math_random_def Let_def)

lemma gameLoop_pipes:
  assumes "gameState g = PLAYING"
  shows "pipes (gameLoop t g) =
           filter (\<lambda>p. \<not> lt (right_edge p) (Finite 0))
             (map (\<lambda>p. fst (Pipe_update (Math_min (sub t (lastFrameTime g)) (Finite 100)) p g))
                  (pipes g @ (if Suc (frame g) mod cfg_pipe_spawnInterval (CONFIG g) = 0
                              then [fst (new_Pipe (update_mountains (update_clouds (clock t g))))]
                              else [])))"
proof -
  let ?g1 = "update_mountains (update_clouds (clock t g))"
  have U: "(\<lambda>p. fst (Pipe_update (deltaTime ?g1) p ?g1))
             = (\<lambda>p. fst (Pipe_update (Math_min (sub t (lastFrameTime g)) (Finite 100)) p g))"
    by (rule ext) (simp add: Pipe_update_fst normalized_def)
  have s: "pipes (spawn (?g1\<lparr>frame := frame ?g1 + 1\<rparr>))
             = pipes g @ (if Suc (frame g) mod cfg_pipe_spawnInterval (CONFIG g) = 0
                          then [fst (new_Pipe ?g1)] else [])"
    by (simp add: spawn_pipes new_Pipe_frame)
  have "pipes (gameLoop t g) = pipes (playing_tick ?g1)"
    using assms by (simp add: gameLoop_def Let_def)
  then show ?thesis by (simp only: playing_tick_pipes U s)
qed

lemma Pipe_life_snoc: "Pipe_life (ticks @ [tk]) p = Pipe_tick (Pipe_life ticks p) tk"
  by (simp add: Pipe_life_def)

lemma Pipe_tick_fst: "fst (Pipe_tick pn tk) = fst (Pipe_update (fst tk) (fst pn) (snd tk))"
  by (simp add: Pipe_tick_def split_def Let_def)

lemma Pipe_tick_snd:
  "snd (Pipe_tick pn tk) =
     snd pn + (if \<not> pipe_scored (fst pn)
                  \<and> lt (right_edge (fst (Pipe_tick pn tk))) (Finite (bird_x (bird (snd tk))))
               then 1 else 0)"
  by (simp add: Pipe_tick_def split_def Let_def Pipe_update_score right_edge_Pipe_update)

lemma Pipe_tick_scored:
  "pipe_scored (fst (Pipe_tick pn tk)) \<longleftrightarrow>
     pipe_scored (fst pn)
     \<or> lt (right_edge (fst (Pipe_tick pn tk))) (Finite (bird_x (bird (snd tk))))"
  by (simp add: Pipe_tick_fst Pipe_update_fst)

lemma Pipe_life_scored:
  "pipe_scored (fst (Pipe_life ticks p)) \<longleftrightarrow>
     pipe_scored p
     \<or> (\<exists>k<length ticks. lt (right_edge (fst (Pipe_life (take (Suc k) ticks) p)))
                               (Finite (bird_x (bird (snd (ticks ! k))))))"
proof (induction ticks rule: rev_induct)
  case Nil
  show ?case by (simp add: Pipe_life_def)
next
  case (snoc tk ticks)
  let ?P = "\<lambda>ts k. lt (right_edge (fst (Pipe_life (take (Suc k) ts) p)))
                      (Finite (bird_x (bird (snd (ts ! k)))))"
  have old: "?P (ticks @ [tk]) k = ?P ticks k" if "k < length ticks" for k
    using that by (simp add: nth_append)
  have new: "?P (ticks @ [tk]) (length ticks)
               = lt (right_edge (fst (Pipe_life (ticks @ [tk]) p))) (Finite (bird_x (bird (snd tk))))"
    by simp
  have "(\<exists>k<length (ticks @ [tk]). ?P (ticks @ [tk]) k)
          \<longleftrightarrow> (\<exists>k<length ticks. ?P ticks k) \<or> ?P (ticks @ [tk]) (length ticks)"
    using old by (auto simp add: less_Suc_eq)
  then show ?case
    using snoc.IH Pipe_tick_scored [of "Pipe_life ticks p" tk]
    by (simp only: new Pipe_life_snoc) blast
qed

lemma Pipe_life_count:
  "snd (Pipe_life ticks p) =
     (if \<not> pipe_scored p \<and> pipe_scored (fst (Pipe_life ticks p)) then 1 else 0)"
proof (induction ticks rule: rev_induct)
  case Nil
  show ?case by (simp add: Pipe_life_def)
next
  case (snoc tk ticks)
  show ?case
    using snoc.IH Pipe_tick_scored [of "Pipe_life ticks p" tk]
          Pipe_tick_snd [of "Pipe_life ticks p" tk] Pipe_life_scored [of ticks p]
    by (auto simp add: Pipe_life_snoc)
qed

lemma Pipe_life_append:
  "Pipe_life (ts @ us) p = foldl Pipe_tick (Pipe_life ts p) us"
  by (simp add: Pipe_life_def)

lemma foldl_Pipe_tick_scored:
  "pipe_scored (fst pn) \<Longrightarrow>
   pipe_scored (fst (foldl Pipe_tick pn us)) \<and> snd (foldl Pipe_tick pn us) = snd pn"
proof (induction us arbitrary: pn)
  case Nil
  then show ?case by simp
next
  case (Cons u us)
  have "pipe_scored (fst (Pipe_tick pn u))" "snd (Pipe_tick pn u) = snd pn"
    using Cons.prems Pipe_tick_scored [of pn u] Pipe_tick_snd [of pn u] by simp_all
  then show ?case using Cons.IH [of "Pipe_tick pn u"] by simp
qed

lemma legacy_Pipe_update_scored:
  "lpipe_scored (fst (legacy_Pipe_update p g)) \<longleftrightarrow>
     lpipe_scored p \<or> legacy_right_edge (fst (legacy_Pipe_update p g)) < lbird_x (l_bird g)"
  by (simp add: legacy_Pipe_update_def Let_def legacy_right_edge_def)

lemma legacy_Pipe_update_score:
  "l_score (snd (legacy_Pipe_update p g)) =
     l_score g + (if \<not> lpipe_scored p \<and> lpipe_scored (fst (legacy_Pipe_update p g))
                  then 1 else 0)"
  by (simp add: legacy_Pipe_update_def Let_def)

section \<open>The fixed-step game: removing pipes while walking forward\<close>

lemma legacy_Pipe_update_cong:
  "l_bird g' = l_bird g \<Longrightarrow> fst (legacy_Pipe_update p g') = fst (legacy_Pipe_update p g)"
  by (simp add: legacy_Pipe_update_def Let_def)

lemma legacy_pipe_step_pipes:
  "l_pipes (legacy_pipe_step i g) =
     (let p = fst (legacy_Pipe_update (l_pipes g ! i) g)
      in if legacy_right_edge p < 0 then take i (l_pipes g) @ drop (Suc i) (l_pipes g)
         else (l_pipes g)[i := p])"
  by (simp add: legacy_pipe_step_def Let_def split_def legacy_right_edge_def splice1_update)

lemma legacy_pipes_forEach_pipes:
  "length (l_pipes g) - k \<le> n \<Longrightarrow>
   l_pipes (legacy_pipes_forEach n k g) =
     take k (l_pipes g) @ skipping (\<lambda>p. fst (legacy_Pipe_update p g)) (drop k (l_pipes g))"
proof (induction n arbitrary: k g)
  case 0
  then show ?case by simp
next
  case (Suc n)
  let ?U = "\<lambda>p. fst (legacy_Pipe_update p g)"
  show ?case
  proof (cases "k < length (l_pipes g)")
    case False
    then show ?thesis using Suc.IH [of g "Suc k"] by simp
  next
    case True
    let ?g' = "legacy_pipe_step k g"
    let ?p = "?U (l_pipes g ! k)"
    let ?r = "drop (Suc k) (l_pipes g)"
    have U: "(\<lambda>p. fst (legacy_Pipe_update p ?g')) = ?U"
      by (rule ext) (rule legacy_Pipe_update_cong, simp)
    have dk: "drop k (l_pipes g) = l_pipes g ! k # ?r"
      using True by (simp add: Cons_nth_drop_Suc)
    have step: "l_pipes (legacy_pipes_forEach (Suc n) k g) = l_pipes (legacy_pipes_forEach n (Suc k) ?g')"
      using True by simp
    show ?thesis
    proof (cases "legacy_right_edge ?p < 0")
      case gone: True
      have ps': "l_pipes ?g' = take k (l_pipes g) @ ?r"
        using gone by (simp add: legacy_pipe_step_pipes Let_def)
      have len: "length (l_pipes ?g') - Suc k \<le> n"
        using Suc.prems True by (simp add: ps')
      have tk: "take (Suc k) (l_pipes ?g') = take k (l_pipes g) @ take 1 ?r"
        using True by (simp add: ps')
      have dr: "drop (Suc k) (l_pipes ?g') = drop 1 ?r"
        using True by (simp add: ps')
      have "l_pipes (legacy_pipes_forEach n (Suc k) ?g')
              = take k (l_pipes g) @ take 1 ?r @ skipping ?U (drop 1 ?r)"
        using Suc.IH [OF len] by (simp only: U tk dr append_assoc)
      also have "take 1 ?r @ skipping ?U (drop 1 ?r)
                   = (case ?r of [] \<Rightarrow> [] | q # qs \<Rightarrow> q # skipping ?U qs)"
        by (cases ?r) simp_all
      finally show ?thesis using gone by (simp only: step dk skipping.simps if_True)
    next
      case kept: False
      have ps': "l_pipes ?g' = (l_pipes g)[k := ?p]"
        using kept by (simp add: legacy_pipe_step_pipes Let_def)
      have len: "length (l_pipes ?g') - Suc k \<le> n"
        using Suc.prems True by (simp add: ps')
      have tk: "take (Suc k) (l_pipes ?g') = take k (l_pipes g) @ [?p]"
        using True by (simp add: ps' take_Suc_conv_app_nth)
      have dr: "drop (Suc k) (l_pipes ?g') = ?r"
        by (simp add: ps')
      have "l_pipes (legacy_pipes_forEach n (Suc k) ?g')
              = take k (l_pipes g) @ [?p] @ skipping ?U ?r"
        using Suc.IH [OF len] by (simp only: U tk dr append_assoc)
      then show ?thesis using kept by (simp only: step dk skipping.simps if_False) simp
    qed
  qed
qed

lemma legacy_spawn_pipes:
  "l_pipes (legacy_spawn g) =
     l_pipes g @ (if l_frame g mod pipeInterval = 0 then [fst (legacy_new_Pipe g)] else [])"
  by (simp add: legacy_spawn_def split_def Let_def legacy_new_Pipe_def legacy_Math_random_def)

lemma legacy_new_Pipe_frame:
  "fst (legacy_new_Pipe (g\<lparr>l_frame := n, l_groundOffset := x\<rparr>)) = fst (legacy_new_Pipe g)"
  by (simp add: legacy_new_Pipe_def legacy_Math_random_def Let_def)

lemma legacy_gameLoop_pipes:
  assumes "l_gameState g = PLAYING"
  shows "l_pipes (legacy_gameLoop g) =
           skipping (\<lambda>p. fst (legacy_Pipe_update p g))
             (l_pipes g @ (if Suc (l_frame g) mod pipeInterval = 0
                           then [fst (legacy_new_Pipe
                                        (legacy_update_mountains (legacy_update_clouds g)))]
                           else []))"
proof -
  let ?g1 = "legacy_update_mountains (legacy_update_clouds g)"
  let ?g3 = "legacy_spawn (?g1\<lparr>l_frame := l_frame ?g1 + 1,
                                l_groundOffset := l_groundOffset ?g1 + 25 / 10\<rparr>)"
  let ?g4 = "legacy_Bird_update ?g3"
  have b: "lbird_x (l_bird (legacy_Bird_update h)) = lbird_x (l_bird h)" for h
    by (simp add: legacy_Bird_update_def legacy_Bird_ceiling_def legacy_Bird_ground_def
                  legacy_Bird_integrate_def Let_def)
  have U: "(\<lambda>p. fst (legacy_Pipe_update p ?g4)) = (\<lambda>p. fst (legacy_Pipe_update p g))"
    by (rule ext) (simp add: legacy_Pipe_update_def Let_def b)
  have s: "l_pipes ?g4 = l_pipes g @ (if Suc (l_frame g) mod pipeInterval = 0
                                      then [fst (legacy_new_Pipe ?g1)] else [])"
    by (simp add: legacy_spawn_pipes legacy_new_Pipe_frame)
  have "l_pipes (legacy_gameLoop g) = l_pipes (legacy_pipes_forEach (length (l_pipes ?g4)) 0 ?g4)"
    using assms by (simp add: legacy_gameLoop_def legacy_playing_tick_def Let_def)
  also have "\<dots> = skipping (\<lambda>p. fst (legacy_Pipe_update p ?g4)) (l_pipes ?g4)"
    by (subst legacy_pipes_forEach_pipes) simp_all
  finally show ?thesis by (simp only: U s)
qed

section \<open>Starting a game, and the bird within a tick\<close>

lemma length_particles_push:
  "length (particles (push_Particle x y c g)) = Suc (length (particles g))"
  by (simp add: push_Particle_def new_Particle_def Math_random_def Let_def split_def)

lemma length_particles_emit:
  "length (particles (emit n x y c g)) = length (particles g) + n"
  by (induction n arbitrary: g) (simp_all add: length_particles_push)

lemma startGame_fields [simp]:
  "gameState (startGame g) = PLAYING"
  "score (startGame g) = 0"
  "pipes (startGame g) = []"
  "particles (startGame g) = []"
  "frame (startGame g) = 0"
  "difficultyMultiplier (startGame g) = 1"
  "currentPipeGap (startGame g) = cfg_pipe_gap (CONFIG g)"
  by (simp_all add: startGame_def Bird_reset_def)

lemma startGame_ignores_phase: "startGame (g\<lparr>gameState := s\<rparr>) = startGame g"
  by (simp add: startGame_def Bird_reset_def)

lemma legacy_startGame_fields [simp]:
  "l_gameState (legacy_startGame g) = PLAYING"
  "l_score (legacy_startGame g) = 0"
  "l_pipes (legacy_startGame g) = []"
  "l_bird (legacy_startGame g)
     = (l_bird g)\<lparr> lbird_y := l_canvas_height g / 2, lbird_velocity := 0,
                     lbird_rotation := 0, lbird_wingFrame := 0 \<rparr>"
  by (simp_all add: legacy_startGame_def legacy_Bird_reset_def)

lemma legacy_startGame_ignores_phase:
  "legacy_startGame (g\<lparr>l_gameState := s\<rparr>) = legacy_startGame g"
  by (simp add: legacy_startGame_def legacy_Bird_reset_def)

lemma legacy_Bird_jump_velocity:
  "lbird_velocity (l_bird (legacy_Bird_jump g)) = lbird_jumpStrength (l_bird g)"
  by (simp add: legacy_Bird_jump_def Let_def)

lemma Bird_ground_bird:
  "bird (Bird_ground g) =
     (if lt (Finite (groundLine g)) (add (bird_y (bird g)) (Finite (bird_height (bird g))))
      then (bird g)\<lparr>bird_y := Finite (groundLine g - bird_height (bird g)),
                     bird_velocity := Finite 0\<rparr>
      else bird g)"
  by (simp add: Bird_ground_def Let_def)

lemma Bird_ceiling_bird:
  "bird (Bird_ceiling g) =
     (if lt (bird_y (bird g)) (Finite 0)
      then (bird g)\<lparr>bird_y := Finite 0, bird_velocity := Finite 0\<rparr> else bird g)"
  by (simp add: Bird_ceiling_def)

lemma Bird_integrate_bird_cong:
  "bird g' = bird g \<Longrightarrow> CONFIG g' = CONFIG g \<Longrightarrow>
   bird (Bird_integrate dt g') = bird (Bird_integrate dt g)"
  by (simp add: Bird_integrate_def Let_def normalized_def)

lemma Bird_update_bird_cong:
  assumes "bird g' = bird g" and "CONFIG g' = CONFIG g" and "canvas_height g' = canvas_height g"
  shows "bird (Bird_update dt g') = bird (Bird_update dt g)"
proof -
  have i: "bird (Bird_integrate dt g') = bird (Bird_integrate dt g)"
    using assms(1,2) by (rule Bird_integrate_bird_cong)
  have l: "groundLine (Bird_integrate dt g') = groundLine (Bird_integrate dt g)"
    using assms(2,3) by (simp add: groundLine_def)
  have "bird (Bird_ground (Bird_integrate dt g')) = bird (Bird_ground (Bird_integrate dt g))"
    by (simp only: Bird_ground_bird i l)
  then show ?thesis by (simp only: Bird_update_def Bird_ceiling_bird)
qed

lemma gameLoop_bird:
  assumes "gameState g = PLAYING"
  shows "bird (gameLoop t g)
           = bird (Bird_update (Math_min (sub t (lastFrameTime g)) (Finite 100)) g)"
proof -
  let ?g1 = "update_mountains (update_clouds (clock t g))"
  obtain f G where e: "bird (playing_tick ?g1)
      = bird (Bird_update (deltaTime ?g1) (spawn (?g1\<lparr>frame := f, groundOffset := G\<rparr>)))"
    using playing_tick_bird [of ?g1] by blast
  have "bird (gameLoop t g) = bird (playing_tick ?g1)"
    using assms by (simp add: gameLoop_def Let_def)
  also have "\<dots> = bird (Bird_update (Math_min (sub t (lastFrameTime g)) (Finite 100))
                          (spawn (?g1\<lparr>frame := f, groundOffset := G\<rparr>)))"
    by (simp add: e)
  also have "\<dots> = bird (Bird_update (Math_min (sub t (lastFrameTime g)) (Finite 100)) g)"
    by (rule Bird_update_bird_cong) simp_all
  finally show ?thesis .
qed

text \<open>
  A tick whose time difference is \<open>NaN\<close> leaves \<open>NaN\<close> in the bird's velocity and
  position. This is the first animation frame after loading when a jump input has started
  a game before it.
\<close>

lemma Bird_update_NaN:
  "bird_velocity (bird (Bird_update NaN g)) = NaN"
  "bird_y (bird (Bird_update NaN g)) = NaN"
  by (simp_all add: Bird_update_def Bird_ceiling_def Bird_ground_def Bird_integrate_def Let_def)

lemma handleJump_load:
  assumes "jumpCooldown \<le> now"
  shows "gameState (handleJump now (load c item now0 rnd)) = PLAYING"
    and "lastFrameTime (handleJump now (load c item now0 rnd)) = NaN"
    and "bird_velocity (bird (handleJump now (load c item now0 rnd)))
           = Finite (cfg_bird_jumpStrength c)"
  using assms by (simp_all add: handleJump_def Let_def Bird_jump_bird startGame_bird new_bird_def)
section \<open>A tick outside the phase PLAYING\<close>

lemma gameLoop_idle:
  assumes "gameState g \<noteq> PLAYING"
  shows "canvas_width (gameLoop t g) = canvas_width g"
    and "canvas_height (gameLoop t g) = canvas_height g"
    and "CONFIG (gameLoop t g) = CONFIG g"
    and "gameState (gameLoop t g) = gameState g"
    and "score (gameLoop t g) = score g"
    and "bestScore (gameLoop t g) = bestScore g"
    and "frame (gameLoop t g) = frame g"
    and "particles (gameLoop t g) = particles g"
    and "groundOffset (gameLoop t g) = groundOffset g"
    and "difficultyMultiplier (gameLoop t g) = difficultyMultiplier g"
    and "currentPipeGap (gameLoop t g) = currentPipeGap g"
    and "bird (gameLoop t g) = bird g"
    and "pipes (gameLoop t g) = pipes g"
    and "lastJumpTime (gameLoop t g) = lastJumpTime g"
    and "storage_bestScore (gameLoop t g) = storage_bestScore g"
    and "random_stream (gameLoop t g) = random_stream g"
  using assms by (simp_all add: gameLoop_def Let_def)

section \<open>The best score after loading\<close>

lemma load_unparseable:
  "parseInt (getItem_toString item) = None \<Longrightarrow> bestScore (load c item now rnd) = 0"
  by (simp add: load_bestScore_def)

lemma load_absent: "bestScore (load c None now rnd) = 0"
  by (simp add: load_bestScore_def getItem_toString_def parseInt_def isWhiteSpace_def
                isRadixDigit_def digitValue_def Let_def)

lemma StringToNumber_abc: "StringToNumber ''abc'' = NotANumber"
  by (simp add: StringToNumber_def trimString_def isWhiteSpace_def unsignedDecimal_def
                isDecimalDigit_def isRadixDigit_def digitValue_def Let_def)

section \<open>The fixed-step game: comparing a score with the stored text\<close>

lemma digit_not_space: "isRadixDigit 10 c \<Longrightarrow> \<not> isWhiteSpace c"
  by (auto simp add: isWhiteSpace_def isRadixDigit_def digitValue_def Let_def)

lemma trimString_plain:
  assumes "xs \<noteq> []" and "\<not> isWhiteSpace (hd xs)" and "\<not> isWhiteSpace (last xs)"
  shows "trimString xs = xs"
proof -
  have 1: "dropWhile isWhiteSpace xs = xs"
    using assms(1,2) by (cases xs) simp_all
  have "rev xs \<noteq> []" "\<not> isWhiteSpace (hd (rev xs))"
    using assms(1,3) by (simp_all add: hd_rev)
  then have 2: "dropWhile isWhiteSpace (rev xs) = rev xs"
    by (cases "rev xs") simp_all
  show ?thesis by (simp add: trimString_def 1 2)
qed

lemma last_natDigits: "isRadixDigit 10 (last (natDigits n))"
  using natDigits_all [of n] natDigits_nonempty [of n]
  by (simp add: list_all_iff)

lemma hd_natDigits_digit: "isRadixDigit 10 (hd (natDigits n))"
  using natDigits_all [of n] natDigits_nonempty [of n]
  by (simp add: list_all_iff)

lemma take2_digits:
  assumes "list_all (isRadixDigit 10) ds" and "\<not> isRadixDigit 10 b"
  shows "take 2 ds \<noteq> [a, b]"
proof
  assume e: "take 2 ds = [a, b]"
  have "b \<in> set (take 2 ds)" by (simp add: e)
  then have "b \<in> set ds" by (rule in_set_takeD)
  with assms(1) have "isRadixDigit 10 b" by (simp add: list_all_iff)
  with assms(2) show False by simp
qed

lemma letters_not_digits:
  "\<not> isRadixDigit 10 CHR ''x''" "\<not> isRadixDigit 10 CHR ''X''"
  "\<not> isRadixDigit 10 CHR ''o''" "\<not> isRadixDigit 10 CHR ''O''"
  "\<not> isRadixDigit 10 CHR ''b''" "\<not> isRadixDigit 10 CHR ''B''"
  "\<not> isRadixDigit 10 CHR ''-''" "\<not> isRadixDigit 10 CHR ''+''"
  "\<not> isRadixDigit 10 CHR ''I''"
  by (simp_all add: isRadixDigit_def digitValue_def Let_def)

lemma unsignedDecimal_natDigits: "unsignedDecimal (natDigits n) = Some (real n)"
proof -
  have t: "takeWhile isDecimalDigit (natDigits n) = natDigits n"
    using natDigits_all [of n] by (simp add: list_all_iff isDecimalDigit_def)
  have d: "dropWhile isDecimalDigit (natDigits n) = []"
    using natDigits_all [of n] by (simp add: list_all_iff isDecimalDigit_def)
  have z: "digitsValue 10 [] = 0" by (simp add: digitsValue_def)
  show ?thesis
    by (simp add: unsignedDecimal_def Let_def t d natDigits_nonempty exponentPart_def
                  digitsValue_natDigits z)
qed

lemma natDigits_not_Infinity: "natDigits n \<noteq> ''Infinity''"
proof
  assume "natDigits n = ''Infinity''"
  then have "hd (natDigits n) = CHR ''I''" by simp
  with hd_natDigits_digit [of n] letters_not_digits(9) show False by simp
qed

lemma StringToNumber_natDigits: "StringToNumber (natDigits n) = Number (real n)"
proof -
  have tr: "trimString (natDigits n) = natDigits n"
    by (rule trimString_plain)
       (simp_all add: natDigits_nonempty digit_not_space hd_natDigits_digit last_natDigits)
  have p: "take 2 (natDigits n) \<noteq> ''0x''" "take 2 (natDigits n) \<noteq> ''0X''"
          "take 2 (natDigits n) \<noteq> ''0o''" "take 2 (natDigits n) \<noteq> ''0O''"
          "take 2 (natDigits n) \<noteq> ''0b''" "take 2 (natDigits n) \<noteq> ''0B''"
    by (rule take2_digits [OF natDigits_all], rule letters_not_digits)+
  have s: "hd (natDigits n) \<noteq> CHR ''-''" "hd (natDigits n) \<noteq> CHR ''+''"
    using hd_natDigits_digit [of n] letters_not_digits(7,8) by auto
  show ?thesis
    by (simp add: StringToNumber_def Let_def tr p s natDigits_nonempty
                  natDigits_not_Infinity unsignedDecimal_natDigits)
qed

lemma StringToNumber_Number_toString:
  "StringToNumber (Number_toString n) = Number (of_int n)"
proof (cases "n < 0")
  case False
  then show ?thesis by (simp add: Number_toString_def StringToNumber_natDigits)
next
  case True
  let ?ds = "natDigits (nat (- n))"
  have m: "\<not> isWhiteSpace CHR ''-''" by (simp add: isWhiteSpace_def)
  have tr: "trimString (CHR ''-'' # ?ds) = CHR ''-'' # ?ds"
    by (rule trimString_plain)
       (simp_all add: natDigits_nonempty digit_not_space last_natDigits m)
  have p: "take 2 (CHR ''-'' # ?ds) \<noteq> ''0x''" "take 2 (CHR ''-'' # ?ds) \<noteq> ''0X''"
          "take 2 (CHR ''-'' # ?ds) \<noteq> ''0o''" "take 2 (CHR ''-'' # ?ds) \<noteq> ''0O''"
          "take 2 (CHR ''-'' # ?ds) \<noteq> ''0b''" "take 2 (CHR ''-'' # ?ds) \<noteq> ''0B''"
    by simp_all
  show ?thesis using True
    by (simp add: Number_toString_def StringToNumber_def Let_def tr p
                  natDigits_not_Infinity unsignedDecimal_natDigits)
qed

lemma legacy_gameOver_string:
  assumes "l_bestScore g = BestString s" and "StringToNumber s = Number (of_int b)"
  shows "l_bestScore (legacy_gameOver g)
           = (if b < l_score g then BestNumber (l_score g) else BestString s)"
  using assms by (simp add: legacy_gameOver_def Let_def score_gt_def)

section \<open>Particles within a tick\<close>

lemma Particle_update_cong:
  "CONFIG g' = CONFIG g \<Longrightarrow> Particle_update g' dt q = Particle_update g dt q"
  by (simp add: Particle_update_def normalized_def)

lemma update_particles_particles:
  "particles (update_particles g) =
     filter (\<lambda>q. \<not> Particle_isDead q)
            (map (Particle_update g (deltaTime g)) (capped (particles g)))"
proof -
  have "Particle_update (g\<lparr>particles := xs\<rparr>) = Particle_update g" for xs
    by (intro ext Particle_update_cong) simp
  then show ?thesis by (simp add: update_particles_def Let_def capped_def)
qed

lemma particles_push: "\<exists>a. particles (push_Particle x y col g) = particles g @ a"
  by (simp add: push_Particle_def new_Particle_def Math_random_def Let_def split_def)

lemma particles_emit: "\<exists>a. particles (emit n x y col g) = particles g @ a"
proof (induction n arbitrary: g)
  case 0
  show ?case by simp
next
  case (Suc n)
  obtain a where a: "particles (push_Particle x y col g) = particles g @ a"
    using particles_push by blast
  obtain b where b: "particles (emit n x y col (push_Particle x y col g))
                       = particles (push_Particle x y col g) @ b"
    using Suc by blast
  show ?case by (simp add: a b)
qed

lemma particles_gameOver [simp]: "particles (gameOver g) = particles g"
  by (simp add: gameOver_def Let_def)

lemma particles_Bird_update:
  "\<exists>a. particles (Bird_update dt g) = particles g @ a"
proof -
  have e: "\<exists>a. particles (emit n x y col (g\<lparr>bird := b\<rparr>)) = particles g @ a" for n x y col b
    using particles_emit [of n x y col "g\<lparr>bird := b\<rparr>"] by simp
  have "\<exists>a. particles (Bird_ground (Bird_integrate dt g)) = particles g @ a"
    using e by (simp add: Bird_ground_def Bird_integrate_def Let_def)
  then show ?thesis by (simp add: Bird_update_def)
qed

lemma particles_Pipe_update:
  "\<exists>a. particles (snd (Pipe_update dt p g)) = particles g @ a"
proof -
  have "\<exists>a. particles (emit n x y col (updateDifficulty (g\<lparr>score := s\<rparr>))) = particles g @ a"
    for n x y col s
    using particles_emit [of n x y col "updateDifficulty (g\<lparr>score := s\<rparr>)"] by simp
  then show ?thesis by (simp add: Pipe_update_def Let_def)
qed

lemma particles_Pipe_collidesWith:
  "\<exists>a. particles (snd (Pipe_collidesWith p b g)) = particles g @ a"
  using particles_emit by (simp add: Pipe_collidesWith_def Let_def)

lemma particles_pipe_step: "\<exists>a. particles (pipe_step i g) = particles g @ a"
proof -
  let ?u = "Pipe_update (deltaTime g) (pipes g ! i) g"
  let ?g2 = "(snd ?u)\<lparr>pipes := (pipes (snd ?u))[i := fst ?u]\<rparr>"
  let ?c = "Pipe_collidesWith (fst ?u) (bird ?g2) ?g2"
  obtain a where a: "particles (snd ?u) = particles g @ a"
    using particles_Pipe_update by blast
  obtain b where b: "particles (snd ?c) = particles ?g2 @ b"
    using particles_Pipe_collidesWith by blast
  have s: "particles ?g2 = particles g @ a" using a by simp
  have e: "particles (pipe_step i g) = particles (snd ?c)"
    by (simp add: pipe_step_def Let_def split_def)
  have "particles (pipe_step i g) = particles g @ (a @ b)"
    by (simp only: e b s append_assoc)
  then show ?thesis by blast
qed

lemma particles_pipe_loop: "\<exists>a. particles (pipe_loop i g) = particles g @ a"
proof (induction i arbitrary: g)
  case 0
  show ?case by simp
next
  case (Suc i)
  obtain a where a: "particles (pipe_step i g) = particles g @ a"
    using particles_pipe_step by blast
  obtain b where b: "particles (pipe_loop i (pipe_step i g)) = particles (pipe_step i g) @ b"
    using Suc by blast
  show ?case by (simp add: a b)
qed

lemma playing_tick_split:
  "\<exists>h. playing_tick g = update_particles h \<and> CONFIG h = CONFIG g
        \<and> deltaTime h = deltaTime g \<and> (\<exists>a. particles h = particles g @ a)"
proof -
  have 1: "\<exists>a. particles (pipe_loop n (Bird_update d (spawn (g\<lparr>frame := f, groundOffset := G\<rparr>))))
             = particles g @ a" for n d f G
  proof -
    let ?g3 = "spawn (g\<lparr>frame := f, groundOffset := G\<rparr>)"
    obtain a where a: "particles (Bird_update d ?g3) = particles ?g3 @ a"
      using particles_Bird_update by blast
    obtain b where b: "particles (pipe_loop n (Bird_update d ?g3)) = particles (Bird_update d ?g3) @ b"
      using particles_pipe_loop by blast
    show ?thesis by (simp add: a b)
  qed
  show ?thesis
    unfolding playing_tick_def Let_def
    by (rule exI, intro conjI, rule refl) (simp_all add: 1)
qed

lemma playing_tick_particles:
  "\<exists>added. particles (playing_tick g) =
     filter (\<lambda>q. \<not> Particle_isDead q)
            (map (Particle_update g (deltaTime g)) (capped (particles g @ added)))"
proof -
  obtain h a where h: "playing_tick g = update_particles h" "CONFIG h = CONFIG g"
      "deltaTime h = deltaTime g" "particles h = particles g @ a"
    using playing_tick_split [of g] by blast
  have P: "Particle_update h = Particle_update g"
    using h(2) by (intro ext Particle_update_cong)
  have "particles (playing_tick g) =
     filter (\<lambda>q. \<not> Particle_isDead q)
            (map (Particle_update g (deltaTime g)) (capped (particles g @ a)))"
    by (simp only: h(1) update_particles_particles P h(3,4))
  then show ?thesis by blast
qed

lemma gameLoop_particles:
  assumes "gameState g = PLAYING"
  shows "\<exists>added. particles (gameLoop t g) =
           filter (\<lambda>q. \<not> Particle_isDead q)
                  (map (Particle_update g (Math_min (sub t (lastFrameTime g)) (Finite 100)))
                       (capped (particles g @ added)))"
proof -
  let ?g1 = "update_mountains (update_clouds (clock t g))"
  have P: "Particle_update ?g1 = Particle_update g"
    by (intro ext Particle_update_cong) simp
  obtain added where "particles (playing_tick ?g1) =
     filter (\<lambda>q. \<not> Particle_isDead q)
            (map (Particle_update ?g1 (deltaTime ?g1)) (capped (particles ?g1 @ added)))"
    using playing_tick_particles by blast
  then have "particles (gameLoop t g) =
           filter (\<lambda>q. \<not> Particle_isDead q)
                  (map (Particle_update g (Math_min (sub t (lastFrameTime g)) (Finite 100)))
                       (capped (particles g @ added)))"
    using assms by (simp add: gameLoop_def Let_def P)
  then show ?thesis by blast
qed

lemma playing_tick_unfold:
  "\<exists>G. playing_tick g
        = (let h = Bird_update (deltaTime g) (spawn (g\<lparr>frame := Suc (frame g), groundOffset := G\<rparr>))
           in update_particles (pipe_loop (length (pipes h)) h))"
  by (simp add: playing_tick_def Let_def) blast
section \<open>The best score over a tick\<close>

lemma gameLoop_writes_best:
  "score g \<le> score (gameLoop t g)"
  "gameState (gameLoop t g) \<noteq> GAME_OVER \<Longrightarrow>
     bestScore (gameLoop t g) = bestScore g
     \<and> storage_bestScore (gameLoop t g) = storage_bestScore g"
  "gameState g = PLAYING \<Longrightarrow> gameState (gameLoop t g) = GAME_OVER \<Longrightarrow>
     max (bestScore g) (score g) \<le> bestScore (gameLoop t g)
     \<and> bestScore (gameLoop t g) \<le> max (bestScore g) (score (gameLoop t g))
     \<and> storage_bestScore (gameLoop t g)
         = (if bestScore g < bestScore (gameLoop t g)
            then Some (Number_toString (bestScore (gameLoop t g)))
            else storage_bestScore g)"
  using writes_best_gameLoop [of g t] by (auto simp add: writes_best_def)

text \<open>
  A tick at the target rate in which the bird lands, in a game without pipes.
\<close>

lemma landing_tick:
  assumes "bird g = (new_bird CONFIG0 600)\<lparr>bird_y := Finite 470, bird_velocity := Finite 10\<rparr>"
      and "CONFIG g = CONFIG0" and "canvas_height g = 600" and "gameState g = PLAYING"
      and "pipes g = []" and "frame g = 0" and "lastFrameTime g = Finite 0"
  shows "gameState (gameLoop (Finite (1000 / 60)) g) = GAME_OVER"
    and "score (gameLoop (Finite (1000 / 60)) g) = score g"
proof -
  have landing: "gameState (Bird_update d h) = GAME_OVER"
    if "bird h = (new_bird CONFIG0 600)\<lparr>bird_y := Finite 470, bird_velocity := Finite 10\<rparr>"
       and "CONFIG h = CONFIG0" and "canvas_height h = 600" and "gameState h = PLAYING"
       and "d = Finite (1000 / 60)" for h d
    using that
    by (simp add: Bird_update_def Bird_ceiling_def Bird_ground_def Bird_integrate_def
                  Let_def groundLine_def normalized_def new_bird_def CONFIG0_def)
  define g1 where "g1 = update_mountains (update_clouds (clock (Finite (1000 / 60)) g))"
  have f1: "gameState g1 = PLAYING" "CONFIG g1 = CONFIG0" "canvas_height g1 = 600"
           "score g1 = score g" "frame g1 = 0" "deltaTime g1 = Finite (1000 / 60)" "pipes g1 = []"
           "bird g1 = (new_bird CONFIG0 600)\<lparr>bird_y := Finite 470, bird_velocity := Finite 10\<rparr>"
    using assms by (simp_all add: g1_def)
  obtain X where t: "playing_tick g1
      = (let h = Bird_update (deltaTime g1) (spawn (g1\<lparr>frame := Suc (frame g1), groundOffset := X\<rparr>))
         in update_particles (pipe_loop (length (pipes h)) h))"
    using playing_tick_unfold [of g1] by blast
  define g3 where "g3 = spawn (g1\<lparr>frame := Suc (frame g1), groundOffset := X\<rparr>)"
  have f3: "gameState g3 = PLAYING" "CONFIG g3 = CONFIG0" "canvas_height g3 = 600"
           "score g3 = score g" "pipes g3 = []"
           "bird g3 = (new_bird CONFIG0 600)\<lparr>bird_y := Finite 470, bird_velocity := Finite 10\<rparr>"
    using f1 by (simp_all add: g3_def spawn_pipes) (simp add: CONFIG0_def)
  define g4 where "g4 = Bird_update (deltaTime g1) g3"
  have f4: "gameState g4 = GAME_OVER"
    unfolding g4_def by (rule landing [OF f3(6) f3(2) f3(3) f3(1) f1(6)])
  have k4: "pipes g4 = []" "score g4 = score g"
    using f3 by (simp_all add: g4_def)
  have "playing_tick g1 = update_particles (pipe_loop (length (pipes g4)) g4)"
    by (simp only: t Let_def g3_def [symmetric] g4_def [symmetric])
  then have "playing_tick g1 = update_particles g4"
    by (simp add: k4(1))
  moreover have "gameLoop (Finite (1000 / 60)) g
                   = (if gameState g1 = PLAYING then playing_tick g1 else g1)"
    by (simp only: gameLoop_def Let_def g1_def [symmetric])
  ultimately have e: "gameLoop (Finite (1000 / 60)) g = update_particles g4"
    using f1(1) by simp
  show "gameState (gameLoop (Finite (1000 / 60)) g) = GAME_OVER"
    unfolding e using f4 by simp
  show "score (gameLoop (Finite (1000 / 60)) g) = score g"
    unfolding e using k4(2) by simp
qed
section \<open>No pipe is ever at a position that is not a number\<close>

text \<open>
  The time difference of a tick is \<open>NaN\<close> only while \<open>lastFrameTime\<close> is undefined, and
  then there is no pipe to move: a game that a jump input starts before the first
  animation frame has no pipes and has counted no tick, and its first tick spawns none
  unless the spawn interval is 1. So \<open>drawPipe\<close>, whose call of \<open>createLinearGradient\<close>
  is the one drawing call that raises an exception for an argument that is not a number,
  is never given such an argument.
\<close>

lemma same_tuning_spawnInterval:
  assumes "same_tuning c c'"
  shows "cfg_pipe_spawnInterval c' = cfg_pipe_spawnInterval c"
proof -
  have e: "c' = c\<lparr>cfg_debug_showHitboxes := cfg_debug_showHitboxes c'\<rparr>"
    using assms by (simp add: same_tuning_def)
  show ?thesis by (subst e) simp
qed

lemma pipe_x_Pipe_update:
  "pipe_x (fst (Pipe_update (Finite d) p g)) \<noteq> NaN \<longleftrightarrow> pipe_x p \<noteq> NaN"
  by (cases "pipe_x p") (simp_all add: Pipe_update_fst)

lemma pipes_numeric_gameLoop:
  assumes "pipes_numeric c g" and "cfg_pipe_spawnInterval c \<noteq> 1"
  shows "pipes_numeric c (gameLoop (Finite t) g)"
proof (cases "gameState g = PLAYING")
  case False
  then show ?thesis
    using assms(1) by (simp add: pipes_numeric_def gameLoop_idle gameLoop_lastFrameTime)
next
  case True
  let ?new = "if Suc (frame g) mod cfg_pipe_spawnInterval (CONFIG g) = 0
              then [fst (new_Pipe (update_mountains (update_clouds (clock (Finite t) g))))]
              else []"
  have s: "same_tuning c (CONFIG g)"
    using assms(1) by (simp add: pipes_numeric_def)
  have i: "cfg_pipe_spawnInterval (CONFIG g) \<noteq> 1"
    using assms(2) by (simp add: same_tuning_spawnInterval [OF s])
  have n: "list_all (\<lambda>p. pipe_x p \<noteq> NaN) ?new"
    by (simp add: new_Pipe_def split_def Let_def)
  have "list_all (\<lambda>p. pipe_x p \<noteq> NaN) (pipes (gameLoop (Finite t) g))"
  proof (cases "lastFrameTime g")
    case NaN
    then have "pipes g = []" "frame g = 0"
      using assms(1) by (simp_all add: pipes_numeric_def)
    moreover have "Suc 0 mod cfg_pipe_spawnInterval (CONFIG g) \<noteq> 0"
      using i by (cases "cfg_pipe_spawnInterval (CONFIG g)") (simp_all add: mod_Suc)
    ultimately show ?thesis by (simp add: gameLoop_pipes [OF True])
  next
    case (Finite l)
    have "list_all (\<lambda>p. pipe_x p \<noteq> NaN) (pipes g @ ?new)"
      using assms(1) n by (simp add: pipes_numeric_def)
    then have m: "list_all (\<lambda>p. pipe_x p \<noteq> NaN)
                 (map (\<lambda>p. fst (Pipe_update (Finite (min (t - l) 100)) p g)) (pipes g @ ?new))"
      by (simp only: list_all_iff set_map ball_simps pipe_x_Pipe_update)
    have f: "list_all P xs \<Longrightarrow> list_all P (filter K xs)"
      for P K and xs :: "Pipe list"
      by (simp add: list_all_iff)
    have d: "Math_min (sub (Finite t) (lastFrameTime g)) (Finite 100) = Finite (min (t - l) 100)"
      using Finite by simp
    have "pipes (gameLoop (Finite t) g)
            = filter (\<lambda>p. \<not> lt (right_edge p) (Finite 0))
                (map (\<lambda>p. fst (Pipe_update (Finite (min (t - l) 100)) p g)) (pipes g @ ?new))"
      by (simp only: gameLoop_pipes [OF True] d)
    then show ?thesis
      using f [OF m] by simp
  qed
  then show ?thesis
    using assms(1) by (simp add: pipes_numeric_def gameLoop_lastFrameTime)
qed

lemma pipes_numeric_handleJump:
  "pipes_numeric c g \<Longrightarrow> pipes_numeric c (handleJump now g)"
  by (simp add: pipes_numeric_def handleJump_def Let_def)

lemma pipes_numeric_keydown:
  assumes "pipes_numeric c g"
  shows "pipes_numeric c (keydown k now g)"
proof (cases k)
  case Ctrl_KeyD
  with assms show ?thesis by (simp add: keydown_def pipes_numeric_def same_tuning_toggle)
qed (use assms in \<open>simp_all add: keydown_def pipes_numeric_handleJump\<close>,
     simp_all add: pipes_numeric_def pauseGame_def)

lemma pipes_numeric_run:
  assumes "cfg_pipe_spawnInterval c \<noteq> 1"
  shows "list_all (\<lambda>p. pipe_x p \<noteq> NaN) (pipes (run es (load c item now rnd)))"
proof -
  have "pipes_numeric c g \<Longrightarrow> pipes_numeric c (run es g)" for g
  proof (induction es arbitrary: g)
    case Nil
    then show ?case by simp
  next
    case (Cons e es)
    have "pipes_numeric c (handle e g)"
      using Cons.prems assms
      by (cases e) (simp_all add: pipes_numeric_gameLoop pipes_numeric_handleJump
                                  pipes_numeric_keydown)
    then show ?case by (simp add: Cons.IH)
  qed
  moreover have "pipes_numeric c (load c item now rnd)"
    by (simp add: pipes_numeric_def same_tuning_def)
  ultimately show ?thesis by (simp add: pipes_numeric_def)
qed
section \<open>The claims\<close>




text \<open>
  C2 as stated fails where the bottom edge only reaches the ground line. \<open>bird.update\<close>
  tests \<open>y + height > groundLine\<close>: a bird that lands with its bottom edge exactly on the
  line keeps its velocity, and the game goes on for that tick.
\<close>

theorem ground_reached_counterexample:
  "add (bird_y (bird (Bird_integrate (Finite (1000 / 60)) ((load CONFIG0 None 0 zeros)
          \<lparr>gameState := PLAYING,
           bird := (new_bird CONFIG0 600)\<lparr>bird_y := Finite 466, bird_velocity := Finite 10\<rparr>\<rparr>)))) (Finite (bird_height (bird ((load CONFIG0 None 0 zeros)
          \<lparr>gameState := PLAYING,
           bird := (new_bird CONFIG0 600)\<lparr>bird_y := Finite 466, bird_velocity := Finite 10\<rparr>\<rparr>)))) = Finite (groundLine ((load CONFIG0 None 0 zeros)
          \<lparr>gameState := PLAYING,
           bird := (new_bird CONFIG0 600)\<lparr>bird_y := Finite 466, bird_velocity := Finite 10\<rparr>\<rparr>))
   \<and> gameState ((load CONFIG0 None 0 zeros)
          \<lparr>gameState := PLAYING,
           bird := (new_bird CONFIG0 600)\<lparr>bird_y := Finite 466, bird_velocity := Finite 10\<rparr>\<rparr>) = PLAYING
   \<and> bird_velocity (bird (Bird_update (Finite (1000 / 60)) ((load CONFIG0 None 0 zeros)
          \<lparr>gameState := PLAYING,
           bird := (new_bird CONFIG0 600)\<lparr>bird_y := Finite 466, bird_velocity := Finite 10\<rparr>\<rparr>))) = Finite 10
   \<and> gameState (Bird_update (Finite (1000 / 60)) ((load CONFIG0 None 0 zeros)
          \<lparr>gameState := PLAYING,
           bird := (new_bird CONFIG0 600)\<lparr>bird_y := Finite 466, bird_velocity := Finite 10\<rparr>\<rparr>)) = PLAYING
   \<and> lbird_y (l_bird (legacy_Bird_integrate ((legacy_load None zeros)
          \<lparr>l_gameState := PLAYING,
           l_bird := (legacy_new_bird 600)\<lparr>lbird_y := 466, lbird_velocity := 10\<rparr>\<rparr>))) + lbird_height (l_bird ((legacy_load None zeros)
          \<lparr>l_gameState := PLAYING,
           l_bird := (legacy_new_bird 600)\<lparr>lbird_y := 466, lbird_velocity := 10\<rparr>\<rparr>)) = l_canvas_height ((legacy_load None zeros)
          \<lparr>l_gameState := PLAYING,
           l_bird := (legacy_new_bird 600)\<lparr>lbird_y := 466, lbird_velocity := 10\<rparr>\<rparr>) - 100
   \<and> lbird_velocity (l_bird (legacy_Bird_update ((legacy_load None zeros)
          \<lparr>l_gameState := PLAYING,
           l_bird := (legacy_new_bird 600)\<lparr>lbird_y := 466, lbird_velocity := 10\<rparr>\<rparr>))) = 10
   \<and> l_gameState (legacy_Bird_update ((legacy_load None zeros)
          \<lparr>l_gameState := PLAYING,
           l_bird := (legacy_new_bird 600)\<lparr>lbird_y := 466, lbird_velocity := 10\<rparr>\<rparr>)) = PLAYING"
  by (simp add: Bird_update_def Bird_ceiling_def Bird_ground_def Bird_integrate_def Let_def
                groundLine_def normalized_def new_bird_def CONFIG0_def
                legacy_Bird_update_def legacy_Bird_ceiling_def legacy_Bird_ground_def
                legacy_Bird_integrate_def legacy_new_bird_def)

text \<open>
  C2, amended. During \<open>bird.update\<close>, if after the integration step the bird's bottom edge
  is strictly below the ground line, the velocity becomes 0, \<open>y\<close> becomes
  \<open>groundLine - height\<close> (the bird is not taller than the ground line is high), and the
  game is over if and only if the phase was PLAYING: then \<open>gameOver\<close> has run, and in
  any other phase the phase, the best score, the stored item and the particles are as
  before. If the bottom edge is not below the line (it is on or above it, or the position
  is not a number) the phase and the best score are as before and the velocity is the
  integrated one, or 0 at the ceiling. The fixed-step script does the same with the
  ground line at \<open>canvas.height - 100\<close>.
\<close>

theorem ground_contact:
  "(lt (Finite (groundLine g))
       (add (bird_y (bird (Bird_integrate dt g))) (Finite (bird_height (bird g)))) \<longrightarrow>
      bird_velocity (bird (Bird_update dt g)) = Finite 0
      \<and> (bird_height (bird g) \<le> groundLine g \<longrightarrow>
            bird_y (bird (Bird_update dt g)) = Finite (groundLine g - bird_height (bird g)))
      \<and> (gameState g = PLAYING \<longrightarrow>
            gameState (Bird_update dt g) = GAME_OVER
            \<and> bestScore (Bird_update dt g) = max (bestScore g) (score g))
      \<and> (gameState g \<noteq> PLAYING \<longrightarrow>
            gameState (Bird_update dt g) = gameState g
            \<and> bestScore (Bird_update dt g) = bestScore g
            \<and> storage_bestScore (Bird_update dt g) = storage_bestScore g
            \<and> particles (Bird_update dt g) = particles g))
   \<and> (\<not> lt (Finite (groundLine g))
           (add (bird_y (bird (Bird_integrate dt g))) (Finite (bird_height (bird g)))) \<longrightarrow>
      gameState (Bird_update dt g) = gameState g
      \<and> bestScore (Bird_update dt g) = bestScore g
      \<and> bird_velocity (bird (Bird_update dt g))
          = (if lt (bird_y (bird (Bird_integrate dt g))) (Finite 0) then Finite 0
             else bird_velocity (bird (Bird_integrate dt g))))
   \<and> (lbird_y (l_bird (legacy_Bird_integrate lg)) + lbird_height (l_bird lg)
         > l_canvas_height lg - 100 \<longrightarrow>
      lbird_velocity (l_bird (legacy_Bird_update lg)) = 0
      \<and> (lbird_height (l_bird lg) \<le> l_canvas_height lg - 100 \<longrightarrow>
            lbird_y (l_bird (legacy_Bird_update lg))
              = l_canvas_height lg - 100 - lbird_height (l_bird lg))
      \<and> (l_gameState lg = PLAYING \<longrightarrow> l_gameState (legacy_Bird_update lg) = GAME_OVER)
      \<and> (l_gameState lg \<noteq> PLAYING \<longrightarrow>
            l_gameState (legacy_Bird_update lg) = l_gameState lg
            \<and> l_bestScore (legacy_Bird_update lg) = l_bestScore lg
            \<and> l_storage_bestScore (legacy_Bird_update lg) = l_storage_bestScore lg
            \<and> l_particles (legacy_Bird_update lg) = l_particles lg))"
proof -
  let ?gi = "Bird_integrate dt g"
  let ?li = "legacy_Bird_integrate lg"
  have h: "bird_height (bird ?gi) = bird_height (bird g)" by simp
  have gl: "groundLine ?gi = groundLine g" by (rule groundLine_cong) simp_all
  have hit: "lt (Finite (groundLine g)) (add (bird_y (bird ?gi)) (Finite (bird_height (bird g)))) \<Longrightarrow>
               bird_velocity (bird (Bird_update dt g)) = Finite 0
               \<and> (bird_height (bird g) \<le> groundLine g \<longrightarrow>
                     bird_y (bird (Bird_update dt g)) = Finite (groundLine g - bird_height (bird g)))
               \<and> (gameState g = PLAYING \<longrightarrow>
                     gameState (Bird_update dt g) = GAME_OVER
                     \<and> bestScore (Bird_update dt g) = max (bestScore g) (score g))
               \<and> (gameState g \<noteq> PLAYING \<longrightarrow>
                     gameState (Bird_update dt g) = gameState g
                     \<and> bestScore (Bird_update dt g) = bestScore g
                     \<and> storage_bestScore (Bird_update dt g) = storage_bestScore g
                     \<and> particles (Bird_update dt g) = particles g)"
    by (simp add: Bird_update_def Bird_ceiling_def Bird_ground_def Let_def h gl
                  gameOver_bestScore)
  have miss: "\<not> lt (Finite (groundLine g)) (add (bird_y (bird ?gi)) (Finite (bird_height (bird g)))) \<Longrightarrow>
                gameState (Bird_update dt g) = gameState g
                \<and> bestScore (Bird_update dt g) = bestScore g
                \<and> bird_velocity (bird (Bird_update dt g))
                    = (if lt (bird_y (bird ?gi)) (Finite 0) then Finite 0
                       else bird_velocity (bird ?gi))"
    by (simp add: Bird_update_def Bird_ceiling_def Bird_ground_def Let_def h gl)
  have lh: "lbird_height (l_bird ?li) = lbird_height (l_bird lg)"
    by (simp add: legacy_Bird_integrate_def Let_def)
  have old: "lbird_y (l_bird ?li) + lbird_height (l_bird lg) > l_canvas_height lg - 100 \<Longrightarrow>
               lbird_velocity (l_bird (legacy_Bird_update lg)) = 0
               \<and> (lbird_height (l_bird lg) \<le> l_canvas_height lg - 100 \<longrightarrow>
                     lbird_y (l_bird (legacy_Bird_update lg))
                       = l_canvas_height lg - 100 - lbird_height (l_bird lg))
               \<and> (l_gameState lg = PLAYING \<longrightarrow> l_gameState (legacy_Bird_update lg) = GAME_OVER)
               \<and> (l_gameState lg \<noteq> PLAYING \<longrightarrow>
                     l_gameState (legacy_Bird_update lg) = l_gameState lg
                     \<and> l_bestScore (legacy_Bird_update lg) = l_bestScore lg
                     \<and> l_storage_bestScore (legacy_Bird_update lg) = l_storage_bestScore lg
                     \<and> l_particles (legacy_Bird_update lg) = l_particles lg)"
    by (simp add: legacy_Bird_update_def legacy_Bird_ceiling_def legacy_Bird_ground_def
                  Let_def lh legacy_gameOver_def)
  show ?thesis using hit miss old by blast
qed

theorem ground_contact_witness:
  "lt (Finite (groundLine ((load CONFIG0 None 0 zeros)
          \<lparr>gameState := PLAYING,
           bird := (new_bird CONFIG0 600)\<lparr>bird_y := Finite 470, bird_velocity := Finite 10\<rparr>\<rparr>))) (add (bird_y (bird (Bird_integrate (Finite (1000 / 60)) ((load CONFIG0 None 0 zeros)
          \<lparr>gameState := PLAYING,
           bird := (new_bird CONFIG0 600)\<lparr>bird_y := Finite 470, bird_velocity := Finite 10\<rparr>\<rparr>)))) (Finite (bird_height (bird ((load CONFIG0 None 0 zeros)
          \<lparr>gameState := PLAYING,
           bird := (new_bird CONFIG0 600)\<lparr>bird_y := Finite 470, bird_velocity := Finite 10\<rparr>\<rparr>)))))
   \<and> bird_height (bird ((load CONFIG0 None 0 zeros)
          \<lparr>gameState := PLAYING,
           bird := (new_bird CONFIG0 600)\<lparr>bird_y := Finite 470, bird_velocity := Finite 10\<rparr>\<rparr>)) \<le> groundLine ((load CONFIG0 None 0 zeros)
          \<lparr>gameState := PLAYING,
           bird := (new_bird CONFIG0 600)\<lparr>bird_y := Finite 470, bird_velocity := Finite 10\<rparr>\<rparr>)
   \<and> gameState ((load CONFIG0 None 0 zeros)
          \<lparr>gameState := PLAYING,
           bird := (new_bird CONFIG0 600)\<lparr>bird_y := Finite 470, bird_velocity := Finite 10\<rparr>\<rparr>) = PLAYING
   \<and> bird_velocity (bird (Bird_update (Finite (1000 / 60)) ((load CONFIG0 None 0 zeros)
          \<lparr>gameState := PLAYING,
           bird := (new_bird CONFIG0 600)\<lparr>bird_y := Finite 470, bird_velocity := Finite 10\<rparr>\<rparr>))) = Finite 0
   \<and> bird_y (bird (Bird_update (Finite (1000 / 60)) ((load CONFIG0 None 0 zeros)
          \<lparr>gameState := PLAYING,
           bird := (new_bird CONFIG0 600)\<lparr>bird_y := Finite 470, bird_velocity := Finite 10\<rparr>\<rparr>))) = Finite 476
   \<and> gameState (Bird_update (Finite (1000 / 60)) ((load CONFIG0 None 0 zeros)
          \<lparr>gameState := PLAYING,
           bird := (new_bird CONFIG0 600)\<lparr>bird_y := Finite 470, bird_velocity := Finite 10\<rparr>\<rparr>)) = GAME_OVER
   \<and> lbird_y (l_bird (legacy_Bird_integrate ((legacy_load None zeros)
          \<lparr>l_gameState := PLAYING,
           l_bird := (legacy_new_bird 600)\<lparr>lbird_y := 470, lbird_velocity := 10\<rparr>\<rparr>))) + lbird_height (l_bird ((legacy_load None zeros)
          \<lparr>l_gameState := PLAYING,
           l_bird := (legacy_new_bird 600)\<lparr>lbird_y := 470, lbird_velocity := 10\<rparr>\<rparr>)) > l_canvas_height ((legacy_load None zeros)
          \<lparr>l_gameState := PLAYING,
           l_bird := (legacy_new_bird 600)\<lparr>lbird_y := 470, lbird_velocity := 10\<rparr>\<rparr>) - 100
   \<and> lbird_velocity (l_bird (legacy_Bird_update ((legacy_load None zeros)
          \<lparr>l_gameState := PLAYING,
           l_bird := (legacy_new_bird 600)\<lparr>lbird_y := 470, lbird_velocity := 10\<rparr>\<rparr>))) = 0
   \<and> lbird_y (l_bird (legacy_Bird_update ((legacy_load None zeros)
          \<lparr>l_gameState := PLAYING,
           l_bird := (legacy_new_bird 600)\<lparr>lbird_y := 470, lbird_velocity := 10\<rparr>\<rparr>))) = 476
   \<and> l_gameState (legacy_Bird_update ((legacy_load None zeros)
          \<lparr>l_gameState := PLAYING,
           l_bird := (legacy_new_bird 600)\<lparr>lbird_y := 470, lbird_velocity := 10\<rparr>\<rparr>)) = GAME_OVER"
proof -
  have 1: "lt (Finite (groundLine ((load CONFIG0 None 0 zeros)
          \<lparr>gameState := PLAYING,
           bird := (new_bird CONFIG0 600)\<lparr>bird_y := Finite 470, bird_velocity := Finite 10\<rparr>\<rparr>))) (add (bird_y (bird (Bird_integrate (Finite (1000 / 60)) ((load CONFIG0 None 0 zeros)
          \<lparr>gameState := PLAYING,
           bird := (new_bird CONFIG0 600)\<lparr>bird_y := Finite 470, bird_velocity := Finite 10\<rparr>\<rparr>)))) (Finite (bird_height (bird ((load CONFIG0 None 0 zeros)
          \<lparr>gameState := PLAYING,
           bird := (new_bird CONFIG0 600)\<lparr>bird_y := Finite 470, bird_velocity := Finite 10\<rparr>\<rparr>)))))"
    by (simp add: Bird_integrate_def Let_def groundLine_def normalized_def new_bird_def CONFIG0_def)
  have 2: "bird_height (bird ((load CONFIG0 None 0 zeros)
          \<lparr>gameState := PLAYING,
           bird := (new_bird CONFIG0 600)\<lparr>bird_y := Finite 470, bird_velocity := Finite 10\<rparr>\<rparr>)) \<le> groundLine ((load CONFIG0 None 0 zeros)
          \<lparr>gameState := PLAYING,
           bird := (new_bird CONFIG0 600)\<lparr>bird_y := Finite 470, bird_velocity := Finite 10\<rparr>\<rparr>)"
    by (simp add: groundLine_def new_bird_def CONFIG0_def)
  have 3: "gameState ((load CONFIG0 None 0 zeros)
          \<lparr>gameState := PLAYING,
           bird := (new_bird CONFIG0 600)\<lparr>bird_y := Finite 470, bird_velocity := Finite 10\<rparr>\<rparr>) = PLAYING" by simp
  have 4: "groundLine ((load CONFIG0 None 0 zeros)
          \<lparr>gameState := PLAYING,
           bird := (new_bird CONFIG0 600)\<lparr>bird_y := Finite 470, bird_velocity := Finite 10\<rparr>\<rparr>) - bird_height (bird ((load CONFIG0 None 0 zeros)
          \<lparr>gameState := PLAYING,
           bird := (new_bird CONFIG0 600)\<lparr>bird_y := Finite 470, bird_velocity := Finite 10\<rparr>\<rparr>)) = 476"
    by (simp add: groundLine_def new_bird_def CONFIG0_def)
  have 5: "lbird_y (l_bird (legacy_Bird_integrate ((legacy_load None zeros)
          \<lparr>l_gameState := PLAYING,
           l_bird := (legacy_new_bird 600)\<lparr>lbird_y := 470, lbird_velocity := 10\<rparr>\<rparr>))) + lbird_height (l_bird ((legacy_load None zeros)
          \<lparr>l_gameState := PLAYING,
           l_bird := (legacy_new_bird 600)\<lparr>lbird_y := 470, lbird_velocity := 10\<rparr>\<rparr>)) > l_canvas_height ((legacy_load None zeros)
          \<lparr>l_gameState := PLAYING,
           l_bird := (legacy_new_bird 600)\<lparr>lbird_y := 470, lbird_velocity := 10\<rparr>\<rparr>) - 100"
    by (simp add: legacy_Bird_integrate_def Let_def legacy_new_bird_def)
  have 6: "lbird_height (l_bird ((legacy_load None zeros)
          \<lparr>l_gameState := PLAYING,
           l_bird := (legacy_new_bird 600)\<lparr>lbird_y := 470, lbird_velocity := 10\<rparr>\<rparr>)) = 24" "l_canvas_height ((legacy_load None zeros)
          \<lparr>l_gameState := PLAYING,
           l_bird := (legacy_new_bird 600)\<lparr>lbird_y := 470, lbird_velocity := 10\<rparr>\<rparr>) = 600" "l_gameState ((legacy_load None zeros)
          \<lparr>l_gameState := PLAYING,
           l_bird := (legacy_new_bird 600)\<lparr>lbird_y := 470, lbird_velocity := 10\<rparr>\<rparr>) = PLAYING"
    by (simp_all add: legacy_new_bird_def)
  show ?thesis
    using 1 2 3 4 5 6 ground_contact [where dt = "Finite (1000 / 60)" and g = "((load CONFIG0 None 0 zeros)
          \<lparr>gameState := PLAYING,
           bird := (new_bird CONFIG0 600)\<lparr>bird_y := Finite 470, bird_velocity := Finite 10\<rparr>\<rparr>)" and lg = "((legacy_load None zeros)
          \<lparr>l_gameState := PLAYING,
           l_bird := (legacy_new_bird 600)\<lparr>lbird_y := 470, lbird_velocity := 10\<rparr>\<rparr>)"]
    by simp
qed

text \<open>
  C3. One call of \<open>pipe.update\<close> leaves \<open>scored\<close> true exactly when it was true before or
  the right edge \<open>x + width\<close>, after the move of this call, is strictly left of the bird's
  \<open>x\<close>, and it adds 1 to \<open>score\<close> exactly when the flag goes from false to true, otherwise
  nothing. Over the ticks of a pipe's life, whatever the globals are at each tick, the
  flag is true after the ticks exactly when it was true at the start or some tick left
  the right edge strictly left of the bird; the calls add 1 to the score in total when the
  flag went from false to true and 0 otherwise; and once the flag is true further ticks
  leave it true and add nothing. The fixed-step script behaves the same in one call.
\<close>

theorem scored_once:
  "(pipe_scored (fst (Pipe_update dt p g)) \<longleftrightarrow>
      pipe_scored p \<or> lt (right_edge (fst (Pipe_update dt p g))) (Finite (bird_x (bird g))))
   \<and> score (snd (Pipe_update dt p g))
       = score g + (if \<not> pipe_scored p \<and> pipe_scored (fst (Pipe_update dt p g))
                    then 1 else 0)
   \<and> (pipe_scored (fst (Pipe_life ticks p)) \<longleftrightarrow>
        pipe_scored p
        \<or> (\<exists>k<length ticks. lt (right_edge (fst (Pipe_life (take (Suc k) ticks) p)))
                                  (Finite (bird_x (bird (snd (ticks ! k)))))))
   \<and> snd (Pipe_life ticks p)
       = (if \<not> pipe_scored p \<and> pipe_scored (fst (Pipe_life ticks p)) then 1 else 0)
   \<and> (pipe_scored (fst (Pipe_life ticks p)) \<longrightarrow>
        pipe_scored (fst (Pipe_life (ticks @ later) p))
        \<and> snd (Pipe_life (ticks @ later) p) = snd (Pipe_life ticks p))
   \<and> (lpipe_scored (fst (legacy_Pipe_update lp lg)) \<longleftrightarrow>
        lpipe_scored lp
        \<or> legacy_right_edge (fst (legacy_Pipe_update lp lg)) < lbird_x (l_bird lg))
   \<and> l_score (snd (legacy_Pipe_update lp lg))
       = l_score lg + (if \<not> lpipe_scored lp \<and> lpipe_scored (fst (legacy_Pipe_update lp lg))
                       then 1 else 0)"
proof -
  have a: "pipe_scored (fst (Pipe_update dt p g)) \<longleftrightarrow>
             pipe_scored p \<or> lt (right_edge (fst (Pipe_update dt p g))) (Finite (bird_x (bird g)))"
    by (simp add: Pipe_update_fst)
  have b: "score (snd (Pipe_update dt p g))
             = score g + (if \<not> pipe_scored p \<and> pipe_scored (fst (Pipe_update dt p g))
                          then 1 else 0)"
    by (simp add: Pipe_update_score Pipe_update_fst)
  have c: "pipe_scored (fst (Pipe_life ticks p)) \<longrightarrow>
             pipe_scored (fst (Pipe_life (ticks @ later) p))
             \<and> snd (Pipe_life (ticks @ later) p) = snd (Pipe_life ticks p)"
    using foldl_Pipe_tick_scored [of "Pipe_life ticks p" later]
    by (simp add: Pipe_life_append)
  show ?thesis
    using a b c Pipe_life_scored [of ticks p] Pipe_life_count [of ticks p]
          legacy_Pipe_update_scored [of lp lg] legacy_Pipe_update_score [of lp lg]
    by blast
qed

theorem scored_once_witness:
  "\<not> pipe_scored \<lparr> pipe_x = Finite 21, pipe_width = 60, pipe_gap = 150, pipe_minHeight = 50,
        pipe_maxHeight = 300, pipe_topHeight = 175, pipe_scored = False,
        pipe_speed = 25 / 10, pipe_highlightOffset = Finite 0 \<rparr>
   \<and> pipe_scored (fst (Pipe_life [(Finite (1000 / 60), load CONFIG0 None 0 zeros), (Finite (1000 / 60), load CONFIG0 None 0 zeros)] \<lparr> pipe_x = Finite 21, pipe_width = 60, pipe_gap = 150, pipe_minHeight = 50,
        pipe_maxHeight = 300, pipe_topHeight = 175, pipe_scored = False,
        pipe_speed = 25 / 10, pipe_highlightOffset = Finite 0 \<rparr>))
   \<and> snd (Pipe_life [(Finite (1000 / 60), load CONFIG0 None 0 zeros), (Finite (1000 / 60), load CONFIG0 None 0 zeros)] \<lparr> pipe_x = Finite 21, pipe_width = 60, pipe_gap = 150, pipe_minHeight = 50,
        pipe_maxHeight = 300, pipe_topHeight = 175, pipe_scored = False,
        pipe_speed = 25 / 10, pipe_highlightOffset = Finite 0 \<rparr>) = 1
   \<and> lpipe_scored (fst (legacy_Pipe_update \<lparr> lpipe_x = 21, lpipe_width = 60, lpipe_gap = 150, lpipe_minHeight = 50,
        lpipe_maxHeight = 300, lpipe_topHeight = 175, lpipe_scored = False,
        lpipe_speed = 25 / 10, lpipe_highlightOffset = 0 \<rparr> (legacy_load None zeros)))
   \<and> l_score (snd (legacy_Pipe_update \<lparr> lpipe_x = 21, lpipe_width = 60, lpipe_gap = 150, lpipe_minHeight = 50,
        lpipe_maxHeight = 300, lpipe_topHeight = 175, lpipe_scored = False,
        lpipe_speed = 25 / 10, lpipe_highlightOffset = 0 \<rparr> (legacy_load None zeros))) = 1"
proof -
  have 1: "lt (right_edge (fst (Pipe_life (take (Suc 0) [(Finite (1000 / 60), load CONFIG0 None 0 zeros), (Finite (1000 / 60), load CONFIG0 None 0 zeros)]) \<lparr> pipe_x = Finite 21, pipe_width = 60, pipe_gap = 150, pipe_minHeight = 50,
        pipe_maxHeight = 300, pipe_topHeight = 175, pipe_scored = False,
        pipe_speed = 25 / 10, pipe_highlightOffset = Finite 0 \<rparr>)))
              (Finite (bird_x (bird (snd ([(Finite (1000 / 60), load CONFIG0 None 0 zeros), (Finite (1000 / 60), load CONFIG0 None 0 zeros)] ! 0)))))"
    by (simp add: Pipe_life_def Pipe_tick_def split_def Let_def Pipe_update_fst
                  right_edge_def normalized_def new_bird_def CONFIG0_def)
  have 2: "(0::nat) < length [(Finite (1000 / 60), load CONFIG0 None 0 zeros), (Finite (1000 / 60), load CONFIG0 None 0 zeros)]" by simp
  have 3: "\<exists>k<length [(Finite (1000 / 60), load CONFIG0 None 0 zeros), (Finite (1000 / 60), load CONFIG0 None 0 zeros)]. lt (right_edge (fst (Pipe_life (take (Suc k) [(Finite (1000 / 60), load CONFIG0 None 0 zeros), (Finite (1000 / 60), load CONFIG0 None 0 zeros)]) \<lparr> pipe_x = Finite 21, pipe_width = 60, pipe_gap = 150, pipe_minHeight = 50,
        pipe_maxHeight = 300, pipe_topHeight = 175, pipe_scored = False,
        pipe_speed = 25 / 10, pipe_highlightOffset = Finite 0 \<rparr>)))
                            (Finite (bird_x (bird (snd ([(Finite (1000 / 60), load CONFIG0 None 0 zeros), (Finite (1000 / 60), load CONFIG0 None 0 zeros)] ! k)))))"
    using 1 2 by blast
  have 4: "legacy_right_edge (fst (legacy_Pipe_update \<lparr> lpipe_x = 21, lpipe_width = 60, lpipe_gap = 150, lpipe_minHeight = 50,
        lpipe_maxHeight = 300, lpipe_topHeight = 175, lpipe_scored = False,
        lpipe_speed = 25 / 10, lpipe_highlightOffset = 0 \<rparr> (legacy_load None zeros)))
             < lbird_x (l_bird (legacy_load None zeros))"
    by (simp add: legacy_Pipe_update_def Let_def legacy_right_edge_def legacy_new_bird_def)
  show ?thesis
    using 3 4 scored_once [where dt = "Finite 0" and g = "load CONFIG0 None 0 zeros" and later = "[]"
                           and lg = "legacy_load None zeros" and ticks = "[(Finite (1000 / 60), load CONFIG0 None 0 zeros), (Finite (1000 / 60), load CONFIG0 None 0 zeros)]" and p = "\<lparr> pipe_x = Finite 21, pipe_width = 60, pipe_gap = 150, pipe_minHeight = 50,
        pipe_maxHeight = 300, pipe_topHeight = 175, pipe_scored = False,
        pipe_speed = 25 / 10, pipe_highlightOffset = Finite 0 \<rparr>"
                           and lp = "\<lparr> lpipe_x = 21, lpipe_width = 60, lpipe_gap = 150, lpipe_minHeight = 50,
        lpipe_maxHeight = 300, lpipe_topHeight = 175, lpipe_scored = False,
        lpipe_speed = 25 / 10, lpipe_highlightOffset = 0 \<rparr>"]
    by simp
qed

text \<open>
  C4. \<open>pipe.collidesWith(bird)\<close> returns true exactly when the bird's box, shrunk by the
  hitbox padding on every side, overlaps the pipe's band \<open>x .. x + width\<close> and its top is
  above \<open>topHeight\<close> or its bottom is below \<open>topHeight + gap\<close>. So a shrunk box between
  \<open>topHeight\<close> and \<open>topHeight + gap\<close> never collides, and one that overlaps the band and
  breaches either bound always does. The comparisons are those of the script: for a pipe
  and a bird whose positions are numbers they are the comparisons of the reals, and a
  position that is not a number never collides. The fixed-step script does the same
  with a padding of 5.
\<close>

theorem collidesWith_iff:
  "(fst (Pipe_collidesWith p b g) \<longleftrightarrow>
      (lt (pipe_x p) (Finite (bird_x b + bird_width b - cfg_bird_hitboxPadding (CONFIG g)))
       \<and> lt (Finite (bird_x b + cfg_bird_hitboxPadding (CONFIG g)))
             (add (pipe_x p) (Finite (pipe_width p))))
      \<and> (lt (add (bird_y b) (Finite (cfg_bird_hitboxPadding (CONFIG g))))
             (Finite (pipe_topHeight p))
         \<or> lt (Finite (pipe_topHeight p + pipe_gap p))
               (sub (add (bird_y b) (Finite (bird_height b)))
                    (Finite (cfg_bird_hitboxPadding (CONFIG g))))))
   \<and> (pipe_x p = Finite x \<and> bird_y b = Finite y \<longrightarrow>
        (fst (Pipe_collidesWith p b g) \<longleftrightarrow>
           (bird_x b + bird_width b - cfg_bird_hitboxPadding (CONFIG g) > x
            \<and> bird_x b + cfg_bird_hitboxPadding (CONFIG g) < x + pipe_width p)
           \<and> (y + cfg_bird_hitboxPadding (CONFIG g) < pipe_topHeight p
              \<or> y + bird_height b - cfg_bird_hitboxPadding (CONFIG g)
                  > pipe_topHeight p + pipe_gap p)))
   \<and> (pipe_x p = NaN \<or> bird_y b = NaN \<longrightarrow> \<not> fst (Pipe_collidesWith p b g))
   \<and> (fst (legacy_Pipe_collidesWith lp lb lg) \<longleftrightarrow>
      (lbird_x lb + lbird_width lb - 5 > lpipe_x lp
       \<and> lbird_x lb + 5 < lpipe_x lp + lpipe_width lp)
      \<and> (lbird_y lb + 5 < lpipe_topHeight lp
         \<or> lbird_y lb + lbird_height lb - 5 > lpipe_topHeight lp + lpipe_gap lp))"
  by (auto simp add: Pipe_collidesWith_def legacy_Pipe_collidesWith_def overlaps_x_def
                outside_gap_def legacy_overlaps_x_def legacy_outside_gap_def right_edge_def
                Let_def)

theorem collidesWith_iff_witness:
  "fst (Pipe_collidesWith
          \<lparr> pipe_x = Finite 100, pipe_width = 60, pipe_gap = 150, pipe_minHeight = 50,
            pipe_maxHeight = 300, pipe_topHeight = 200, pipe_scored = False,
            pipe_speed = 25 / 10, pipe_highlightOffset = Finite 0 \<rparr>
          ((new_bird CONFIG0 600)\<lparr>bird_y := Finite 190\<rparr>)
          (load CONFIG0 None 0 zeros))
   \<and> \<not> fst (Pipe_collidesWith
          \<lparr> pipe_x = Finite 100, pipe_width = 60, pipe_gap = 150, pipe_minHeight = 50,
            pipe_maxHeight = 300, pipe_topHeight = 200, pipe_scored = False,
            pipe_speed = 25 / 10, pipe_highlightOffset = Finite 0 \<rparr>
          ((new_bird CONFIG0 600)\<lparr>bird_y := Finite 195\<rparr>)
          (load CONFIG0 None 0 zeros))
   \<and> \<not> fst (Pipe_collidesWith
          \<lparr> pipe_x = Finite 100, pipe_width = 60, pipe_gap = 150, pipe_minHeight = 50,
            pipe_maxHeight = 300, pipe_topHeight = 200, pipe_scored = False,
            pipe_speed = 25 / 10, pipe_highlightOffset = Finite 0 \<rparr>
          ((new_bird CONFIG0 600)\<lparr>bird_y := NaN\<rparr>)
          (load CONFIG0 None 0 zeros))
   \<and> fst (legacy_Pipe_collidesWith
          \<lparr> lpipe_x = 100, lpipe_width = 60, lpipe_gap = 150, lpipe_minHeight = 50,
            lpipe_maxHeight = 300, lpipe_topHeight = 200, lpipe_scored = False,
            lpipe_speed = 25 / 10, lpipe_highlightOffset = 0 \<rparr>
          ((legacy_new_bird 600)\<lparr>lbird_y := 190\<rparr>)
          (legacy_load None zeros))"
  using collidesWith_iff
          [where p = "\<lparr> pipe_x = Finite 100, pipe_width = 60, pipe_gap = 150, pipe_minHeight = 50,
            pipe_maxHeight = 300, pipe_topHeight = 200, pipe_scored = False,
            pipe_speed = 25 / 10, pipe_highlightOffset = Finite 0 \<rparr>"
             and b = "(new_bird CONFIG0 600)\<lparr>bird_y := Finite 190\<rparr>"
             and g = "load CONFIG0 None 0 zeros" and x = 100 and y = 190
             and lp = "\<lparr> lpipe_x = 100, lpipe_width = 60, lpipe_gap = 150, lpipe_minHeight = 50,
            lpipe_maxHeight = 300, lpipe_topHeight = 200, lpipe_scored = False,
            lpipe_speed = 25 / 10, lpipe_highlightOffset = 0 \<rparr>"
             and lb = "(legacy_new_bird 600)\<lparr>lbird_y := 190\<rparr>"
             and lg = "legacy_load None zeros"]
        collidesWith_iff
          [where p = "\<lparr> pipe_x = Finite 100, pipe_width = 60, pipe_gap = 150, pipe_minHeight = 50,
            pipe_maxHeight = 300, pipe_topHeight = 200, pipe_scored = False,
            pipe_speed = 25 / 10, pipe_highlightOffset = Finite 0 \<rparr>"
             and b = "(new_bird CONFIG0 600)\<lparr>bird_y := Finite 195\<rparr>"
             and g = "load CONFIG0 None 0 zeros" and x = 100 and y = 195
             and lp = "\<lparr> lpipe_x = 100, lpipe_width = 60, lpipe_gap = 150, lpipe_minHeight = 50,
            lpipe_maxHeight = 300, lpipe_topHeight = 200, lpipe_scored = False,
            lpipe_speed = 25 / 10, lpipe_highlightOffset = 0 \<rparr>"
             and lb = "(legacy_new_bird 600)\<lparr>lbird_y := 190\<rparr>"
             and lg = "legacy_load None zeros"]
        collidesWith_iff
          [where p = "\<lparr> pipe_x = Finite 100, pipe_width = 60, pipe_gap = 150, pipe_minHeight = 50,
            pipe_maxHeight = 300, pipe_topHeight = 200, pipe_scored = False,
            pipe_speed = 25 / 10, pipe_highlightOffset = Finite 0 \<rparr>"
             and b = "(new_bird CONFIG0 600)\<lparr>bird_y := NaN\<rparr>"
             and g = "load CONFIG0 None 0 zeros" and x = 100 and y = 195
             and lp = "\<lparr> lpipe_x = 100, lpipe_width = 60, lpipe_gap = 150, lpipe_minHeight = 50,
            lpipe_maxHeight = 300, lpipe_topHeight = 200, lpipe_scored = False,
            lpipe_speed = 25 / 10, lpipe_highlightOffset = 0 \<rparr>"
             and lb = "(legacy_new_bird 600)\<lparr>lbird_y := 190\<rparr>"
             and lg = "legacy_load None zeros"]
  by (simp add: new_bird_def legacy_new_bird_def CONFIG0_def)

text \<open>
  C5. With difficulty enabled, \<open>updateDifficulty\<close> sets the speed multiplier to
  \<open>min (1 + s * speedIncreasePerScore) maxSpeedMultiplier\<close> and the gap to
  \<open>max (baseGap - s * gapDecreasePerScore) minGap\<close> for the score \<open>s\<close>: at score 0 these
  are 1 and the base gap, the multiplier never exceeds the cap and does not decrease
  when the score grows, the gap never falls below the floor and does not increase when the
  score grows, and in every state a run of events reaches from the loaded script both
  globals have these values for the current score. With difficulty disabled
  \<open>updateDifficulty\<close> changes nothing and both globals are 1 and the base gap in every
  state a run reaches, whatever the score.
\<close>

theorem difficulty_controller:
  assumes "CONFIG g = c"
      and "0 \<le> cfg_difficulty_speedIncreasePerScore c"
      and "0 \<le> cfg_difficulty_gapDecreasePerScore c"
      and "1 \<le> cfg_difficulty_maxSpeedMultiplier c"
      and "cfg_difficulty_minGap c \<le> cfg_pipe_gap c"
  shows
    "(cfg_difficulty_enabled c \<longrightarrow>
        difficultyMultiplier (updateDifficulty (g\<lparr>score := s\<rparr>))
          = min (1 + of_int s * cfg_difficulty_speedIncreasePerScore c)
                (cfg_difficulty_maxSpeedMultiplier c)
      \<and> currentPipeGap (updateDifficulty (g\<lparr>score := s\<rparr>))
          = max (cfg_pipe_gap c - of_int s * cfg_difficulty_gapDecreasePerScore c)
                (cfg_difficulty_minGap c)
      \<and> difficultyMultiplier (updateDifficulty (g\<lparr>score := 0\<rparr>)) = 1
      \<and> currentPipeGap (updateDifficulty (g\<lparr>score := 0\<rparr>)) = cfg_pipe_gap c
      \<and> difficultyMultiplier (updateDifficulty (g\<lparr>score := s\<rparr>))
          \<le> cfg_difficulty_maxSpeedMultiplier c
      \<and> cfg_difficulty_minGap c \<le> currentPipeGap (updateDifficulty (g\<lparr>score := s\<rparr>))
      \<and> (s \<le> s' \<longrightarrow>
            difficultyMultiplier (updateDifficulty (g\<lparr>score := s\<rparr>))
              \<le> difficultyMultiplier (updateDifficulty (g\<lparr>score := s'\<rparr>))
          \<and> currentPipeGap (updateDifficulty (g\<lparr>score := s'\<rparr>))
              \<le> currentPipeGap (updateDifficulty (g\<lparr>score := s\<rparr>)))
      \<and> difficultyMultiplier (run es (load c item now rnd))
          = min (1 + of_int (score (run es (load c item now rnd)))
                       * cfg_difficulty_speedIncreasePerScore c)
                (cfg_difficulty_maxSpeedMultiplier c)
      \<and> currentPipeGap (run es (load c item now rnd))
          = max (cfg_pipe_gap c - of_int (score (run es (load c item now rnd)))
                                    * cfg_difficulty_gapDecreasePerScore c)
                (cfg_difficulty_minGap c))
     \<and> (\<not> cfg_difficulty_enabled c \<longrightarrow>
          updateDifficulty g = g
        \<and> difficultyMultiplier (run es (load c item now rnd)) = 1
        \<and> currentPipeGap (run es (load c item now rnd)) = cfg_pipe_gap c)"
proof -
  have inv: "follows_score c (run es (load c item now rnd))"
    using assms(4,5) by (intro follows_score_run follows_score_load)
  have mono1: "s \<le> s' \<Longrightarrow>
      min (1 + of_int s * cfg_difficulty_speedIncreasePerScore c) (cfg_difficulty_maxSpeedMultiplier c)
      \<le> min (1 + of_int s' * cfg_difficulty_speedIncreasePerScore c) (cfg_difficulty_maxSpeedMultiplier c)"
  proof -
    assume "s \<le> s'"
    then have "of_int s * cfg_difficulty_speedIncreasePerScore c
                 \<le> of_int s' * cfg_difficulty_speedIncreasePerScore c"
      using assms(2) by (intro mult_right_mono) simp_all
    then show ?thesis by (auto simp add: min_def)
  qed
  have mono2: "s \<le> s' \<Longrightarrow>
      max (cfg_pipe_gap c - of_int s' * cfg_difficulty_gapDecreasePerScore c) (cfg_difficulty_minGap c)
      \<le> max (cfg_pipe_gap c - of_int s * cfg_difficulty_gapDecreasePerScore c) (cfg_difficulty_minGap c)"
  proof -
    assume "s \<le> s'"
    then have "of_int s * cfg_difficulty_gapDecreasePerScore c
                 \<le> of_int s' * cfg_difficulty_gapDecreasePerScore c"
      using assms(3) by (intro mult_right_mono) simp_all
    then show ?thesis by (auto simp add: max_def)
  qed
  show ?thesis
  proof (cases "cfg_difficulty_enabled c")
    case True
    with inv assms(1,4,5) mono1 mono2 show ?thesis
      by (simp add: follows_score_def updateDifficulty_def)
  next
    case False
    with inv assms(1) show ?thesis
      by (simp add: follows_score_def updateDifficulty_def)
  qed
qed

theorem difficulty_controller_witness:
  "difficultyMultiplier (updateDifficulty ((load CONFIG0 None 0 zeros)\<lparr>score := 4\<rparr>)) = 12 / 10
   \<and> currentPipeGap (updateDifficulty ((load CONFIG0 None 0 zeros)\<lparr>score := 4\<rparr>)) = 142
   \<and> difficultyMultiplier (updateDifficulty ((load CONFIG0 None 0 zeros)\<lparr>score := 20\<rparr>)) = 18 / 10
   \<and> currentPipeGap (updateDifficulty ((load CONFIG0 None 0 zeros)\<lparr>score := 20\<rparr>)) = 120"
proof -
  have c: "CONFIG (load CONFIG0 None 0 zeros) = CONFIG0" by simp
  have h1: "0 \<le> cfg_difficulty_speedIncreasePerScore CONFIG0" by (simp add: CONFIG0_def)
  have h2: "0 \<le> cfg_difficulty_gapDecreasePerScore CONFIG0" by (simp add: CONFIG0_def)
  have h3: "1 \<le> cfg_difficulty_maxSpeedMultiplier CONFIG0" by (simp add: CONFIG0_def)
  have h4: "cfg_difficulty_minGap CONFIG0 \<le> cfg_pipe_gap CONFIG0" by (simp add: CONFIG0_def)
  have e: "cfg_difficulty_enabled CONFIG0" by (simp add: CONFIG0_def)
  show ?thesis
    using e difficulty_controller [OF c h1 h2 h3 h4, of 4 20 "[]" None 0 zeros]
          difficulty_controller [OF c h1 h2 h3 h4, of 20 20 "[]" None 0 zeros]
    by (simp add: CONFIG0_def)
qed

text \<open>
  C6 as stated fails: a jump input in phase GAME_OVER calls \<open>startGame\<close> only. The bird
  starts the new game with velocity 0 and no flap particles, whereas the same input in
  phase START also calls \<open>bird.jump\<close> and leaves velocity \<open>- 10\<close>. Both scripts do so.
\<close>

theorem restart_without_jump_counterexample:
  "bird_velocity (bird (handleJump 1000 ((load CONFIG0 None 0 zeros)\<lparr>gameState := START\<rparr>))) = Finite (- 10)
   \<and> bird_velocity (bird (handleJump 1000 ((load CONFIG0 None 0 zeros)\<lparr>gameState := GAME_OVER\<rparr>))) = Finite 0
   \<and> length (particles (handleJump 1000 ((load CONFIG0 None 0 zeros)\<lparr>gameState := START\<rparr>))) = 5
   \<and> particles (handleJump 1000 ((load CONFIG0 None 0 zeros)\<lparr>gameState := GAME_OVER\<rparr>)) = []
   \<and> lbird_velocity (l_bird (legacy_handleJump ((legacy_load None zeros)\<lparr>l_gameState := START\<rparr>))) = - 10
   \<and> lbird_velocity (l_bird (legacy_handleJump ((legacy_load None zeros)\<lparr>l_gameState := GAME_OVER\<rparr>))) = 0"
  by (simp add: handleJump_def jumpCooldown_def Let_def startGame_bird Bird_jump_def
                length_particles_emit new_bird_def CONFIG0_def
                legacy_handleJump_def legacy_Bird_jump_velocity legacy_new_bird_def)

text \<open>
  C6, amended. A jump input that is not within the cooldown of the last one does, in
  phase GAME_OVER, the full reset of \<open>startGame\<close> and nothing else: phase PLAYING, score 0,
  no pipes, no particles, frame counter 0, difficulty multiplier 1 and gap at its base,
  the bird reset with velocity 0. In phase START it does the same reset and then
  \<open>bird.jump\<close>, which sets the velocity to the jump strength and adds 5 particles: the state
  after the START input is the state after the GAME_OVER input with \<open>bird.jump\<close> applied.
  In the fixed-step script, which has no cooldown, the same relation holds, and its
  \<open>startGame\<close> resets phase, score, pipes and bird.
\<close>

theorem restart_is_start_without_jump:
  assumes "\<not> now - lastJumpTime g < jumpCooldown"
  shows
    "handleJump now (g\<lparr>gameState := GAME_OVER\<rparr>) = startGame (g\<lparr>lastJumpTime := now\<rparr>)
     \<and> handleJump now (g\<lparr>gameState := START\<rparr>)
         = Bird_jump (handleJump now (g\<lparr>gameState := GAME_OVER\<rparr>))
     \<and> gameState (handleJump now (g\<lparr>gameState := GAME_OVER\<rparr>)) = PLAYING
     \<and> score (handleJump now (g\<lparr>gameState := GAME_OVER\<rparr>)) = 0
     \<and> pipes (handleJump now (g\<lparr>gameState := GAME_OVER\<rparr>)) = []
     \<and> particles (handleJump now (g\<lparr>gameState := GAME_OVER\<rparr>)) = []
     \<and> frame (handleJump now (g\<lparr>gameState := GAME_OVER\<rparr>)) = 0
     \<and> difficultyMultiplier (handleJump now (g\<lparr>gameState := GAME_OVER\<rparr>)) = 1
     \<and> currentPipeGap (handleJump now (g\<lparr>gameState := GAME_OVER\<rparr>)) = cfg_pipe_gap (CONFIG g)
     \<and> bird (handleJump now (g\<lparr>gameState := GAME_OVER\<rparr>))
         = (bird g)\<lparr> bird_y := Finite (canvas_height g / 2), bird_velocity := Finite 0,
                      bird_rotation := Finite 0, bird_wingFrame := Finite 0 \<rparr>
     \<and> bird (handleJump now (g\<lparr>gameState := START\<rparr>))
         = (bird g)\<lparr> bird_y := Finite (canvas_height g / 2),
                      bird_velocity := Finite (bird_jumpStrength (bird g)),
                      bird_rotation := Finite 0, bird_wingFrame := Finite 0 \<rparr>
     \<and> length (particles (handleJump now (g\<lparr>gameState := START\<rparr>))) = 5
     \<and> gameState (handleJump now (g\<lparr>gameState := START\<rparr>)) = PLAYING
     \<and> legacy_handleJump (lg\<lparr>l_gameState := GAME_OVER\<rparr>) = legacy_startGame lg
     \<and> legacy_handleJump (lg\<lparr>l_gameState := START\<rparr>)
         = legacy_Bird_jump (legacy_handleJump (lg\<lparr>l_gameState := GAME_OVER\<rparr>))
     \<and> l_gameState (legacy_startGame lg) = PLAYING
     \<and> l_score (legacy_startGame lg) = 0
     \<and> l_pipes (legacy_startGame lg) = []
     \<and> lbird_velocity (l_bird (legacy_startGame lg)) = 0
     \<and> lbird_velocity (l_bird (legacy_Bird_jump (legacy_startGame lg)))
         = lbird_jumpStrength (l_bird lg)"
proof -
  have o: "handleJump now (g\<lparr>gameState := GAME_OVER\<rparr>) = startGame (g\<lparr>lastJumpTime := now\<rparr>)"
    using assms by (simp add: handleJump_def Let_def startGame_def Bird_reset_def)
  have s: "handleJump now (g\<lparr>gameState := START\<rparr>)
             = Bird_jump (startGame (g\<lparr>lastJumpTime := now\<rparr>))"
    using assms by (simp add: handleJump_def Let_def startGame_def Bird_reset_def)
  have lo: "legacy_handleJump (lg\<lparr>l_gameState := GAME_OVER\<rparr>) = legacy_startGame lg"
    by (simp add: legacy_handleJump_def legacy_startGame_ignores_phase)
  have ls: "legacy_handleJump (lg\<lparr>l_gameState := START\<rparr>)
              = legacy_Bird_jump (legacy_startGame lg)"
    by (simp add: legacy_handleJump_def legacy_startGame_ignores_phase)
  show ?thesis
    by (simp add: o s lo ls startGame_bird Bird_jump_bird Bird_jump_def Let_def
                  length_particles_emit legacy_Bird_jump_velocity)
qed

theorem restart_is_start_without_jump_witness:
  "\<not> 1000 - lastJumpTime (load CONFIG0 None 0 zeros) < jumpCooldown
   \<and> gameState (handleJump 1000 ((load CONFIG0 None 0 zeros)\<lparr>gameState := GAME_OVER\<rparr>)) = PLAYING
   \<and> bird_velocity (bird (handleJump 1000 ((load CONFIG0 None 0 zeros)\<lparr>gameState := GAME_OVER\<rparr>))) = Finite 0
   \<and> bird_velocity (bird (handleJump 1000 ((load CONFIG0 None 0 zeros)\<lparr>gameState := START\<rparr>))) = Finite (- 10)
   \<and> lbird_velocity (l_bird (legacy_handleJump ((legacy_load None zeros)\<lparr>l_gameState := GAME_OVER\<rparr>))) = 0
   \<and> lbird_velocity (l_bird (legacy_handleJump ((legacy_load None zeros)\<lparr>l_gameState := START\<rparr>))) = - 10"
proof -
  have c: "\<not> 1000 - lastJumpTime (load CONFIG0 None 0 zeros) < jumpCooldown"
    by (simp add: jumpCooldown_def)
  show ?thesis
    using c restart_is_start_without_jump [OF c, where lg = "legacy_load None zeros"]
    by (simp add: startGame_bird new_bird_def CONFIG0_def legacy_new_bird_def)
qed




text \<open>
  C8. When the script loads, a stored best score that is absent or that \<open>parseInt\<close>
  cannot read makes \<open>bestScore\<close> 0. The frame-rate independent script does so
  (\<open>load_unparseable\<close>). The fixed-step script does not call \<open>parseInt\<close>: for the stored
  text \<open>abc\<close> its \<open>bestScore\<close> is that text, which no score ever exceeds, so the best
  score is never written again.
\<close>

theorem legacy_keeps_unparseable_item:
  "parseInt ''abc'' = None
   \<and> bestScore (load CONFIG0 (Some ''abc'') 0 zeros) = 0
   \<and> l_bestScore (legacy_load (Some ''abc'') zeros) = BestString ''abc''
   \<and> l_bestScore (legacy_gameOver ((legacy_load (Some ''abc'') zeros)\<lparr>l_score := 7\<rparr>))
       = BestString ''abc''
   \<and> l_storage_bestScore
         (legacy_gameOver ((legacy_load (Some ''abc'') zeros)\<lparr>l_score := 7\<rparr>))
       = Some ''abc''"
proof -
  have p: "parseInt ''abc'' = None"
    by (simp add: parseInt_def isWhiteSpace_def isRadixDigit_def digitValue_def Let_def)
  have l: "l_bestScore (legacy_load (Some ''abc'') rnd) = BestString ''abc''"
          "l_storage_bestScore (legacy_load (Some ''abc'') rnd) = Some ''abc''" for rnd
    by (simp_all add: legacy_load_bestScore_def)
  show ?thesis
    by (simp add: p l load_bestScore_def getItem_toString_def legacy_gameOver_def Let_def
                  score_gt_def StringToNumber_abc legacy_load_bestScore_def)
qed

text \<open>
  C9 as stated fails: a pipe of width 60 at \<open>x = - 1\<close> has its right edge at 59, and after
  the next tick, one reference frame at the shipped speed, at 56.5. It is still on screen
  and stays in \<open>pipes\<close>, in both scripts.
\<close>

theorem pipe_at_minus_one_counterexample:
  "map pipe_x (pipes (gameLoop (Finite (1000 / 60)) ((load CONFIG0 None 0 zeros)\<lparr>gameState := PLAYING, lastFrameTime := Finite 0, pipes := [\<lparr> pipe_x = Finite (- 1), pipe_width = 60, pipe_gap = 150, pipe_minHeight = 50,
        pipe_maxHeight = 300, pipe_topHeight = 175, pipe_scored = True,
        pipe_speed = 25 / 10, pipe_highlightOffset = Finite 0 \<rparr>]\<rparr>))) = [Finite (- 35 / 10)]
   \<and> map lpipe_x (l_pipes (legacy_gameLoop ((legacy_load None zeros)\<lparr>l_gameState := PLAYING, l_pipes := [\<lparr> lpipe_x = - 1, lpipe_width = 60, lpipe_gap = 150, lpipe_minHeight = 50,
        lpipe_maxHeight = 300, lpipe_topHeight = 175, lpipe_scored = True,
        lpipe_speed = 25 / 10, lpipe_highlightOffset = 0 \<rparr>]\<rparr>))) = [- 35 / 10]"
proof -
  have g: "gameState ((load CONFIG0 None 0 zeros)\<lparr>gameState := PLAYING, lastFrameTime := Finite 0, pipes := [\<lparr> pipe_x = Finite (- 1), pipe_width = 60, pipe_gap = 150, pipe_minHeight = 50,
        pipe_maxHeight = 300, pipe_topHeight = 175, pipe_scored = True,
        pipe_speed = 25 / 10, pipe_highlightOffset = Finite 0 \<rparr>]\<rparr>) = PLAYING" by simp
  have l: "l_gameState ((legacy_load None zeros)\<lparr>l_gameState := PLAYING, l_pipes := [\<lparr> lpipe_x = - 1, lpipe_width = 60, lpipe_gap = 150, lpipe_minHeight = 50,
        lpipe_maxHeight = 300, lpipe_topHeight = 175, lpipe_scored = True,
        lpipe_speed = 25 / 10, lpipe_highlightOffset = 0 \<rparr>]\<rparr>) = PLAYING" by simp
  have 1: "map pipe_x (pipes (gameLoop (Finite (1000 / 60)) ((load CONFIG0 None 0 zeros)\<lparr>gameState := PLAYING, lastFrameTime := Finite 0, pipes := [\<lparr> pipe_x = Finite (- 1), pipe_width = 60, pipe_gap = 150, pipe_minHeight = 50,
        pipe_maxHeight = 300, pipe_topHeight = 175, pipe_scored = True,
        pipe_speed = 25 / 10, pipe_highlightOffset = Finite 0 \<rparr>]\<rparr>))) = [Finite (- 35 / 10)]"
    by (subst gameLoop_pipes [OF g])
       (simp add: Pipe_update_fst normalized_def right_edge_def CONFIG0_def)
  have 2: "map lpipe_x (l_pipes (legacy_gameLoop ((legacy_load None zeros)\<lparr>l_gameState := PLAYING, l_pipes := [\<lparr> lpipe_x = - 1, lpipe_width = 60, lpipe_gap = 150, lpipe_minHeight = 50,
        lpipe_maxHeight = 300, lpipe_topHeight = 175, lpipe_scored = True,
        lpipe_speed = 25 / 10, lpipe_highlightOffset = 0 \<rparr>]\<rparr>))) = [- 35 / 10]"
    by (subst legacy_gameLoop_pipes [OF l])
       (simp add: legacy_Pipe_update_def Let_def legacy_right_edge_def pipeInterval_def
                  legacy_new_bird_def)
  show ?thesis using 1 2 by (rule conjI)
qed

text \<open>
  C9, amended. While the phase is PLAYING a tick advances every pipe and then drops
  exactly those whose right edge \<open>x + width\<close> is below 0 after the advance; the pipes that
  remain keep their order, and a pipe spawned in the tick comes last. A pipe of width 60
  at \<open>x = - 1\<close> that moves at most 59 in the tick is still in the sequence afterwards. In
  the fixed-step script the pipes are walked forward while being removed, so the pipe
  that follows a removed one is passed over in that tick; every pipe it visits is
  dropped exactly when its right edge is below 0, and the order is kept.
\<close>

theorem cleanup_pass:
  assumes "gameState g = PLAYING"
  shows
    "(Suc (frame g) mod cfg_pipe_spawnInterval (CONFIG g) \<noteq> 0 \<longrightarrow>
        pipes (gameLoop t g) =
          filter (\<lambda>p. \<not> lt (right_edge p) (Finite 0))
            (map (\<lambda>p. fst (Pipe_update (Math_min (sub t (lastFrameTime g)) (Finite 100)) p g)) (pipes g)))
     \<and> (\<exists>new. length new \<le> 1
           \<and> pipes (gameLoop t g) =
               filter (\<lambda>p. \<not> lt (right_edge p) (Finite 0))
                 (map (\<lambda>p. fst (Pipe_update (Math_min (sub t (lastFrameTime g)) (Finite 100)) p g)) (pipes g))
               @ new)
     \<and> right_edge (fst (Pipe_update (Math_min (sub t (lastFrameTime g)) (Finite 100)) p g))
         = add (sub (pipe_x p) (mul (Finite (pipe_speed p)) (normalized g (Math_min (sub t (lastFrameTime g)) (Finite 100)))))
               (Finite (pipe_width p))
     \<and> (p \<in> set (pipes g) \<and> pipe_x p = Finite (- 1) \<and> pipe_width p = 60
          \<and> \<not> lt (Finite 59) (mul (Finite (pipe_speed p)) (normalized g (Math_min (sub t (lastFrameTime g)) (Finite 100)))) \<longrightarrow>
          fst (Pipe_update (Math_min (sub t (lastFrameTime g)) (Finite 100)) p g) \<in> set (pipes (gameLoop t g)))
     \<and> (l_gameState lg = PLAYING \<and> Suc (l_frame lg) mod pipeInterval \<noteq> 0 \<longrightarrow>
          l_pipes (legacy_gameLoop lg)
            = skipping (\<lambda>p. fst (legacy_Pipe_update p lg)) (l_pipes lg))"
proof -
  let ?U = "\<lambda>p. fst (Pipe_update (Math_min (sub t (lastFrameTime g)) (Finite 100)) p g)"
  let ?K = "\<lambda>p. \<not> lt (right_edge p) (Finite 0)"
  let ?new = "if Suc (frame g) mod cfg_pipe_spawnInterval (CONFIG g) = 0
              then [fst (new_Pipe (update_mountains (update_clouds (clock t g))))] else []"
  have all: "pipes (gameLoop t g) = filter ?K (map ?U (pipes g)) @ filter ?K (map ?U ?new)"
    by (simp only: gameLoop_pipes [OF assms] map_append filter_append)
  have a: "Suc (frame g) mod cfg_pipe_spawnInterval (CONFIG g) \<noteq> 0 \<longrightarrow>
             pipes (gameLoop t g) = filter ?K (map ?U (pipes g))"
    using all by simp
  have "length (filter ?K (map ?U ?new)) \<le> 1" by simp
  with all have b: "\<exists>new. length new \<le> 1
                      \<and> pipes (gameLoop t g) = filter ?K (map ?U (pipes g)) @ new"
    by blast
  have c: "right_edge (?U p)
             = add (sub (pipe_x p) (mul (Finite (pipe_speed p)) (normalized g (Math_min (sub t (lastFrameTime g)) (Finite 100)))))
                   (Finite (pipe_width p))"
    by (simp only: right_edge_Pipe_update) (simp add: right_edge_def)
  have d: "?U p \<in> set (pipes (gameLoop t g))"
    if "p \<in> set (pipes g)" and "pipe_x p = Finite (- 1)" and "pipe_width p = 60"
       and "\<not> lt (Finite 59) (mul (Finite (pipe_speed p)) (normalized g (Math_min (sub t (lastFrameTime g)) (Finite 100))))"
  proof -
    have k: "\<not> lt (add (sub (Finite (- 1)) (mul (Finite (pipe_speed p)) n)) (Finite 60)) (Finite 0)"
      if "\<not> lt (Finite 59) (mul (Finite (pipe_speed p)) n)" for n
      using that by (cases n) simp_all
    have "\<not> lt (right_edge (?U p)) (Finite 0)"
      unfolding c that(2) that(3) by (rule k [OF that(4)])
    with that(1) have "?U p \<in> set (filter ?K (map ?U (pipes g)))" by simp
    then show ?thesis by (simp only: all set_append) simp
  qed
  have e: "l_gameState lg = PLAYING \<and> Suc (l_frame lg) mod pipeInterval \<noteq> 0 \<longrightarrow>
             l_pipes (legacy_gameLoop lg)
               = skipping (\<lambda>p. fst (legacy_Pipe_update p lg)) (l_pipes lg)"
    by (simp add: legacy_gameLoop_pipes)
  show ?thesis using a b c d e by blast
qed

theorem cleanup_pass_witness:
  "gameState ((load CONFIG0 None 0 zeros)
       \<lparr>gameState := PLAYING, lastFrameTime := Finite 0, pipes := [\<lparr> pipe_x = Finite (- 61), pipe_width = 60, pipe_gap = 150, pipe_minHeight = 50,
        pipe_maxHeight = 300, pipe_topHeight = 175, pipe_scored = True,
        pipe_speed = 25 / 10, pipe_highlightOffset = Finite 0 \<rparr>, \<lparr> pipe_x = Finite (- 1), pipe_width = 60, pipe_gap = 150, pipe_minHeight = 50,
        pipe_maxHeight = 300, pipe_topHeight = 175, pipe_scored = True,
        pipe_speed = 25 / 10, pipe_highlightOffset = Finite 0 \<rparr>, \<lparr> pipe_x = Finite 200, pipe_width = 60, pipe_gap = 150, pipe_minHeight = 50,
        pipe_maxHeight = 300, pipe_topHeight = 175, pipe_scored = True,
        pipe_speed = 25 / 10, pipe_highlightOffset = Finite 0 \<rparr>]\<rparr>) = PLAYING
   \<and> map pipe_x (pipes (gameLoop (Finite (1000 / 60)) ((load CONFIG0 None 0 zeros)
       \<lparr>gameState := PLAYING, lastFrameTime := Finite 0, pipes := [\<lparr> pipe_x = Finite (- 61), pipe_width = 60, pipe_gap = 150, pipe_minHeight = 50,
        pipe_maxHeight = 300, pipe_topHeight = 175, pipe_scored = True,
        pipe_speed = 25 / 10, pipe_highlightOffset = Finite 0 \<rparr>, \<lparr> pipe_x = Finite (- 1), pipe_width = 60, pipe_gap = 150, pipe_minHeight = 50,
        pipe_maxHeight = 300, pipe_topHeight = 175, pipe_scored = True,
        pipe_speed = 25 / 10, pipe_highlightOffset = Finite 0 \<rparr>, \<lparr> pipe_x = Finite 200, pipe_width = 60, pipe_gap = 150, pipe_minHeight = 50,
        pipe_maxHeight = 300, pipe_topHeight = 175, pipe_scored = True,
        pipe_speed = 25 / 10, pipe_highlightOffset = Finite 0 \<rparr>]\<rparr>))) = [Finite (- 35 / 10), Finite (1975 / 10)]
   \<and> l_gameState ((legacy_load None zeros)
       \<lparr>l_gameState := PLAYING, l_pipes := [\<lparr> lpipe_x = - 61, lpipe_width = 60, lpipe_gap = 150, lpipe_minHeight = 50,
        lpipe_maxHeight = 300, lpipe_topHeight = 175, lpipe_scored = True,
        lpipe_speed = 25 / 10, lpipe_highlightOffset = 0 \<rparr>, \<lparr> lpipe_x = - 1, lpipe_width = 60, lpipe_gap = 150, lpipe_minHeight = 50,
        lpipe_maxHeight = 300, lpipe_topHeight = 175, lpipe_scored = True,
        lpipe_speed = 25 / 10, lpipe_highlightOffset = 0 \<rparr>, \<lparr> lpipe_x = 200, lpipe_width = 60, lpipe_gap = 150, lpipe_minHeight = 50,
        lpipe_maxHeight = 300, lpipe_topHeight = 175, lpipe_scored = True,
        lpipe_speed = 25 / 10, lpipe_highlightOffset = 0 \<rparr>]\<rparr>) = PLAYING
   \<and> map lpipe_x (l_pipes (legacy_gameLoop ((legacy_load None zeros)
       \<lparr>l_gameState := PLAYING, l_pipes := [\<lparr> lpipe_x = - 61, lpipe_width = 60, lpipe_gap = 150, lpipe_minHeight = 50,
        lpipe_maxHeight = 300, lpipe_topHeight = 175, lpipe_scored = True,
        lpipe_speed = 25 / 10, lpipe_highlightOffset = 0 \<rparr>, \<lparr> lpipe_x = - 1, lpipe_width = 60, lpipe_gap = 150, lpipe_minHeight = 50,
        lpipe_maxHeight = 300, lpipe_topHeight = 175, lpipe_scored = True,
        lpipe_speed = 25 / 10, lpipe_highlightOffset = 0 \<rparr>, \<lparr> lpipe_x = 200, lpipe_width = 60, lpipe_gap = 150, lpipe_minHeight = 50,
        lpipe_maxHeight = 300, lpipe_topHeight = 175, lpipe_scored = True,
        lpipe_speed = 25 / 10, lpipe_highlightOffset = 0 \<rparr>]\<rparr>))) = [- 1, 1975 / 10]"
proof -
  have g: "gameState ((load CONFIG0 None 0 zeros)
       \<lparr>gameState := PLAYING, lastFrameTime := Finite 0, pipes := [\<lparr> pipe_x = Finite (- 61), pipe_width = 60, pipe_gap = 150, pipe_minHeight = 50,
        pipe_maxHeight = 300, pipe_topHeight = 175, pipe_scored = True,
        pipe_speed = 25 / 10, pipe_highlightOffset = Finite 0 \<rparr>, \<lparr> pipe_x = Finite (- 1), pipe_width = 60, pipe_gap = 150, pipe_minHeight = 50,
        pipe_maxHeight = 300, pipe_topHeight = 175, pipe_scored = True,
        pipe_speed = 25 / 10, pipe_highlightOffset = Finite 0 \<rparr>, \<lparr> pipe_x = Finite 200, pipe_width = 60, pipe_gap = 150, pipe_minHeight = 50,
        pipe_maxHeight = 300, pipe_topHeight = 175, pipe_scored = True,
        pipe_speed = 25 / 10, pipe_highlightOffset = Finite 0 \<rparr>]\<rparr>) = PLAYING" by simp
  have f: "Suc (frame ((load CONFIG0 None 0 zeros)
       \<lparr>gameState := PLAYING, lastFrameTime := Finite 0, pipes := [\<lparr> pipe_x = Finite (- 61), pipe_width = 60, pipe_gap = 150, pipe_minHeight = 50,
        pipe_maxHeight = 300, pipe_topHeight = 175, pipe_scored = True,
        pipe_speed = 25 / 10, pipe_highlightOffset = Finite 0 \<rparr>, \<lparr> pipe_x = Finite (- 1), pipe_width = 60, pipe_gap = 150, pipe_minHeight = 50,
        pipe_maxHeight = 300, pipe_topHeight = 175, pipe_scored = True,
        pipe_speed = 25 / 10, pipe_highlightOffset = Finite 0 \<rparr>, \<lparr> pipe_x = Finite 200, pipe_width = 60, pipe_gap = 150, pipe_minHeight = 50,
        pipe_maxHeight = 300, pipe_topHeight = 175, pipe_scored = True,
        pipe_speed = 25 / 10, pipe_highlightOffset = Finite 0 \<rparr>]\<rparr>)) mod cfg_pipe_spawnInterval (CONFIG ((load CONFIG0 None 0 zeros)
       \<lparr>gameState := PLAYING, lastFrameTime := Finite 0, pipes := [\<lparr> pipe_x = Finite (- 61), pipe_width = 60, pipe_gap = 150, pipe_minHeight = 50,
        pipe_maxHeight = 300, pipe_topHeight = 175, pipe_scored = True,
        pipe_speed = 25 / 10, pipe_highlightOffset = Finite 0 \<rparr>, \<lparr> pipe_x = Finite (- 1), pipe_width = 60, pipe_gap = 150, pipe_minHeight = 50,
        pipe_maxHeight = 300, pipe_topHeight = 175, pipe_scored = True,
        pipe_speed = 25 / 10, pipe_highlightOffset = Finite 0 \<rparr>, \<lparr> pipe_x = Finite 200, pipe_width = 60, pipe_gap = 150, pipe_minHeight = 50,
        pipe_maxHeight = 300, pipe_topHeight = 175, pipe_scored = True,
        pipe_speed = 25 / 10, pipe_highlightOffset = Finite 0 \<rparr>]\<rparr>)) \<noteq> 0"
    by (simp add: CONFIG0_def)
  have l: "l_gameState ((legacy_load None zeros)
       \<lparr>l_gameState := PLAYING, l_pipes := [\<lparr> lpipe_x = - 61, lpipe_width = 60, lpipe_gap = 150, lpipe_minHeight = 50,
        lpipe_maxHeight = 300, lpipe_topHeight = 175, lpipe_scored = True,
        lpipe_speed = 25 / 10, lpipe_highlightOffset = 0 \<rparr>, \<lparr> lpipe_x = - 1, lpipe_width = 60, lpipe_gap = 150, lpipe_minHeight = 50,
        lpipe_maxHeight = 300, lpipe_topHeight = 175, lpipe_scored = True,
        lpipe_speed = 25 / 10, lpipe_highlightOffset = 0 \<rparr>, \<lparr> lpipe_x = 200, lpipe_width = 60, lpipe_gap = 150, lpipe_minHeight = 50,
        lpipe_maxHeight = 300, lpipe_topHeight = 175, lpipe_scored = True,
        lpipe_speed = 25 / 10, lpipe_highlightOffset = 0 \<rparr>]\<rparr>) = PLAYING" "Suc (l_frame ((legacy_load None zeros)
       \<lparr>l_gameState := PLAYING, l_pipes := [\<lparr> lpipe_x = - 61, lpipe_width = 60, lpipe_gap = 150, lpipe_minHeight = 50,
        lpipe_maxHeight = 300, lpipe_topHeight = 175, lpipe_scored = True,
        lpipe_speed = 25 / 10, lpipe_highlightOffset = 0 \<rparr>, \<lparr> lpipe_x = - 1, lpipe_width = 60, lpipe_gap = 150, lpipe_minHeight = 50,
        lpipe_maxHeight = 300, lpipe_topHeight = 175, lpipe_scored = True,
        lpipe_speed = 25 / 10, lpipe_highlightOffset = 0 \<rparr>, \<lparr> lpipe_x = 200, lpipe_width = 60, lpipe_gap = 150, lpipe_minHeight = 50,
        lpipe_maxHeight = 300, lpipe_topHeight = 175, lpipe_scored = True,
        lpipe_speed = 25 / 10, lpipe_highlightOffset = 0 \<rparr>]\<rparr>)) mod pipeInterval \<noteq> 0"
    by (simp_all add: pipeInterval_def)
  show ?thesis
    using g f l cleanup_pass [OF g, where t = "Finite (1000 / 60)" and p = "\<lparr> pipe_x = Finite (- 1), pipe_width = 60, pipe_gap = 150, pipe_minHeight = 50,
        pipe_maxHeight = 300, pipe_topHeight = 175, pipe_scored = True,
        pipe_speed = 25 / 10, pipe_highlightOffset = Finite 0 \<rparr>"
                              and lg = "((legacy_load None zeros)
       \<lparr>l_gameState := PLAYING, l_pipes := [\<lparr> lpipe_x = - 61, lpipe_width = 60, lpipe_gap = 150, lpipe_minHeight = 50,
        lpipe_maxHeight = 300, lpipe_topHeight = 175, lpipe_scored = True,
        lpipe_speed = 25 / 10, lpipe_highlightOffset = 0 \<rparr>, \<lparr> lpipe_x = - 1, lpipe_width = 60, lpipe_gap = 150, lpipe_minHeight = 50,
        lpipe_maxHeight = 300, lpipe_topHeight = 175, lpipe_scored = True,
        lpipe_speed = 25 / 10, lpipe_highlightOffset = 0 \<rparr>, \<lparr> lpipe_x = 200, lpipe_width = 60, lpipe_gap = 150, lpipe_minHeight = 50,
        lpipe_maxHeight = 300, lpipe_topHeight = 175, lpipe_scored = True,
        lpipe_speed = 25 / 10, lpipe_highlightOffset = 0 \<rparr>]\<rparr>)"]
    by (simp add: Pipe_update_fst normalized_def right_edge_def CONFIG0_def
                  legacy_Pipe_update_def legacy_right_edge_def Let_def legacy_new_bird_def)
qed

text \<open>
  C10. The script is loaded with a configuration whose gravity and target frame rate are
  not negative and whose jump strength is not positive and not above the terminal
  velocity, as the shipped one. In every state reached by a run of events in which no
  animation frame carries a timestamp older than \<open>lastFrameTime\<close>, the bird's velocity is
  not less than the jump strength (- 10 as shipped): it is a number from the jump
  strength up, or \<open>NaN\<close>. It is a number in every state reached by a run in which every
  tick of a game has a number for its normalized delta, that is, in which no animation
  frame is handled in phase PLAYING while \<open>lastFrameTime\<close> is still undefined. A jump
  sets the velocity to the jump strength, a reset sets it to 0, and \<open>bird.update\<close> adds
  \<open>gravity * normalizedDt\<close>, clamps from above at the terminal velocity and leaves that
  value or 0.
\<close>

theorem velocity_lower_bound:
  assumes "0 \<le> cfg_bird_gravity c"
      and "cfg_bird_jumpStrength c \<le> 0"
      and "cfg_bird_jumpStrength c \<le> cfg_bird_terminalVelocity c"
      and "0 \<le> cfg_physics_targetFPS c"
      and "monotonic es (load c item now rnd)"
  shows "\<not> lt (bird_velocity (bird (run es (load c item now rnd))))
               (Finite (cfg_bird_jumpStrength c))
         \<and> (timed es (load c item now rnd) \<longrightarrow>
              (\<exists>v. bird_velocity (bird (run es (load c item now rnd))) = Finite v
                   \<and> cfg_bird_jumpStrength c \<le> v))
         \<and> bird_velocity (bird (Bird_jump g)) = Finite (bird_jumpStrength (bird g))
         \<and> bird_velocity (bird (Bird_reset g)) = Finite 0
         \<and> bird_velocity (bird (Bird_integrate dt g))
             = Math_min (add (bird_velocity (bird g))
                             (mul (Finite (bird_gravity (bird g))) (normalized g dt)))
                        (Finite (bird_terminalVelocity (bird g)))
         \<and> (bird_velocity (bird (Bird_update dt g)) = Finite 0
            \<or> bird_velocity (bird (Bird_update dt g))
                 = bird_velocity (bird (Bird_integrate dt g)))"
proof -
  let ?v = "bird_velocity (bird (run es (load c item now rnd)))"
  have "bird_bounded c (load c item now rnd)"
    using assms(2) by (rule bird_bounded_load)
  then have "bird_bounded c (run es (load c item now rnd))"
    using assms(5) by (rule bird_bounded_run [OF assms(1,2,3,4)])
  then have b: "\<not> lt ?v (Finite (cfg_bird_jumpStrength c))"
    by (simp add: bird_bounded_def)
  have n: "\<exists>v. ?v = Finite v \<and> cfg_bird_jumpStrength c \<le> v"
    if "timed es (load c item now rnd)"
  proof -
    have "bird_numeric (run es (load c item now rnd))"
      using bird_numeric_load that by (rule bird_numeric_run)
    then obtain v where v: "?v = Finite v"
      by (auto simp add: bird_numeric_def not_NaN_iff)
    with b show ?thesis by simp
  qed
  show ?thesis
    using b n
    by (simp add: Bird_reset_bird Bird_integrate_velocity Bird_update_def
                  Bird_ceiling_velocity Bird_ground_velocity)
qed

theorem velocity_lower_bound_witness:
  "monotonic [AnimationFrame 16, Click 1000, AnimationFrame 1016, KeyDown Space 1200, AnimationFrame 1233] (load CONFIG0 None 0 zeros)
   \<and> timed [AnimationFrame 16, Click 1000, AnimationFrame 1016, KeyDown Space 1200, AnimationFrame 1233] (load CONFIG0 None 0 zeros)
   \<and> (\<exists>v. bird_velocity (bird (run [AnimationFrame 16, Click 1000, AnimationFrame 1016, KeyDown Space 1200, AnimationFrame 1233] (load CONFIG0 None 0 zeros))) = Finite v \<and> - 10 \<le> v)
   \<and> monotonic [Click 1000, AnimationFrame 1016] (load CONFIG0 None 0 zeros)
   \<and> \<not> timed [Click 1000, AnimationFrame 1016] (load CONFIG0 None 0 zeros)
   \<and> bird_velocity (bird (run [Click 1000, AnimationFrame 1016] (load CONFIG0 None 0 zeros))) = NaN
   \<and> \<not> lt (bird_velocity (bird (run [Click 1000, AnimationFrame 1016] (load CONFIG0 None 0 zeros)))) (Finite (- 10))"
proof -
  have j: "jumpCooldown \<le> 1000" by (simp add: jumpCooldown_def)
  have i: "gameState (load CONFIG0 None 0 zeros) \<noteq> PLAYING" by simp
  have m: "monotonic [AnimationFrame 16, Click 1000, AnimationFrame 1016, KeyDown Space 1200, AnimationFrame 1233] (load CONFIG0 None 0 zeros)"
    by (simp add: keydown_def gameLoop_lastFrameTime)
  have t: "timed [AnimationFrame 16, Click 1000, AnimationFrame 1016, KeyDown Space 1200, AnimationFrame 1233] (load CONFIG0 None 0 zeros)"
    by (simp add: keydown_def gameLoop_lastFrameTime)
  have m2: "monotonic [Click 1000, AnimationFrame 1016] (load CONFIG0 None 0 zeros)"
    by (simp add: handleJump_load [OF j])
  have t2: "\<not> timed [Click 1000, AnimationFrame 1016] (load CONFIG0 None 0 zeros)"
    by (simp add: handleJump_load [OF j])
  have v2: "bird_velocity (bird (run [Click 1000, AnimationFrame 1016] (load CONFIG0 None 0 zeros))) = NaN"
    by (simp add: gameLoop_bird handleJump_load [OF j] Bird_update_NaN)
  have 1: "0 \<le> cfg_bird_gravity CONFIG0" by (simp add: CONFIG0_def)
  have 2: "cfg_bird_jumpStrength CONFIG0 \<le> 0" by (simp add: CONFIG0_def)
  have 3: "cfg_bird_jumpStrength CONFIG0 \<le> cfg_bird_terminalVelocity CONFIG0"
    by (simp add: CONFIG0_def)
  have 4: "0 \<le> cfg_physics_targetFPS CONFIG0" by (simp add: CONFIG0_def)
  have 5: "cfg_bird_jumpStrength CONFIG0 = - 10" by (simp add: CONFIG0_def)
  show ?thesis
    using m t m2 t2 v2
          velocity_lower_bound [OF 1 2 3 4 m, where g = "load CONFIG0 None 0 zeros" and dt = NaN]
          velocity_lower_bound [OF 1 2 3 4 m2, where g = "load CONFIG0 None 0 zeros" and dt = NaN]
    by (simp add: 5)
qed

end
